(* ===== verification/Prelude.thy ===== *)
theory Prelude
  imports Complex_Main "HOL-Library.Char_ord" "HOL-Library.List_Lexorder"
begin

text \<open>
  Shared vocabulary of the gold-price-tracker development: the JavaScript values the
  server code manipulates (\<open>undefined\<close>, \<open>null\<close>, numbers with \<open>NaN\<close>, strings,
  dates), their truthiness and the abstract relational comparison of ECMAScript, the
  string helpers the scrapers use (digits, \<open>trim\<close>, \<open>includes\<close>), time in
  milliseconds, and the generic lemmas the component theories share.
  Numbers are rationals: prices in the program are integral rupiah or decimals with two
  places, so floating-point rounding does not arise in the values modelled.
\<close>

named_theorems js_simps "evaluation rules of the JavaScript value layer"
named_theorems str_simps "rules of the string helpers"

section \<open>Time\<close>

text \<open>A JavaScript \<open>Date\<close> is its \<open>getTime()\<close> value: milliseconds since the epoch.\<close>

type_synonym timestamp = int

abbreviation ms_per_minute :: int where "ms_per_minute \<equiv> 60 * 1000"
abbreviation ms_per_hour :: int where "ms_per_hour \<equiv> 60 * 60 * 1000"
abbreviation ms_per_day :: int where "ms_per_day \<equiv> 24 * 60 * 60 * 1000"

text \<open>\<open>Date.getHours()\<close> in a fixed time zone (the server's offset is folded into the epoch).\<close>

definition hour_of :: "timestamp \<Rightarrow> nat" where
  "hour_of t = nat ((t div ms_per_hour) mod 24)"

lemma hour_of_lt_24: "hour_of t < 24"
  by (simp add: hour_of_def nat_less_iff)

section \<open>JavaScript values\<close>

datatype jsval =
    JUndefined
  | JNull
  | JBool bool
  | JNum rat
  | JNaN
  | JStr string
  | JDate timestamp

text \<open>\<open>ToBoolean\<close>: what \<open>if (x)\<close>, \<open>!x\<close>, \<open>x && y\<close> and \<open>x || y\<close> test.\<close>

fun truthy :: "jsval \<Rightarrow> bool" where
  "truthy JUndefined = False"
| "truthy JNull = False"
| "truthy (JBool b) = b"
| "truthy (JNum r) = (r \<noteq> 0)"
| "truthy JNaN = False"
| "truthy (JStr s) = (s \<noteq> [])"
| "truthy (JDate t) = True"

text \<open>\<open>x || y\<close> and \<open>x && y\<close> return one of their operands.\<close>

definition js_or :: "jsval \<Rightarrow> jsval \<Rightarrow> jsval" where
  "js_or a b = (if truthy a then a else b)"

definition js_and :: "jsval \<Rightarrow> jsval \<Rightarrow> jsval" where
  "js_and a b = (if truthy a then b else a)"

section \<open>Errors as sums\<close>

text \<open>An exception of the source is an \<open>Inl\<close>; \<open>bind_sum\<close> propagates it as \<open>throw\<close> does.\<close>

definition bind_sum :: "'e + 'a \<Rightarrow> ('a \<Rightarrow> 'e + 'b) \<Rightarrow> 'e + 'b" where
  "bind_sum x f = (case x of Inl e \<Rightarrow> Inl e | Inr a \<Rightarrow> f a)"

lemma bind_sum_simps [simp]:
  "bind_sum (Inl e) f = Inl e" "bind_sum (Inr a) f = f a"
  by (simp_all add: bind_sum_def)

lemma bind_sum_eq_Inr [simp]:
  "bind_sum x f = Inr b \<longleftrightarrow> (\<exists>a. x = Inr a \<and> f a = Inr b)"
  by (cases x) simp_all

section \<open>Strings and digits\<close>

definition is_digit :: "char \<Rightarrow> bool" where
  "is_digit c \<longleftrightarrow> CHR ''0'' \<le> c \<and> c \<le> CHR ''9''"

definition digit_val :: "char \<Rightarrow> nat" where
  "digit_val c = of_char c - of_char CHR ''0''"

definition digit_char :: "nat \<Rightarrow> char" where
  "digit_char d = char_of (of_char CHR ''0'' + d)"

text \<open>Value of a string of decimal digits, most significant first.\<close>

definition digits_val :: "string \<Rightarrow> nat" where
  "digits_val ds = foldl (\<lambda>n c. 10 * n + digit_val c) 0 ds"

text \<open>Decimal rendering of a natural number without grouping (\<open>String(n)\<close>).\<close>

fun show_nat :: "nat \<Rightarrow> string" where
  "show_nat n = (if n < 10 then [digit_char n] else show_nat (n div 10) @ [digit_char (n mod 10)])"

declare show_nat.simps [simp del]

text \<open>White space as \<open>String.prototype.trim\<close> removes it (the ASCII part).\<close>

definition is_space :: "char \<Rightarrow> bool" where
  "is_space c \<longleftrightarrow> c \<in> {CHR '' '', CHR 0x09, CHR 0x0A, CHR 0x0B, CHR 0x0C, CHR 0x0D}"

definition trim :: "string \<Rightarrow> string" where
  "trim s = rev (dropWhile is_space (rev (dropWhile is_space s)))"

text \<open>\<open>haystack.includes(needle)\<close> and \<open>s.startsWith(p)\<close>.\<close>

fun str_includes :: "string \<Rightarrow> string \<Rightarrow> bool" where
  "str_includes n [] = (n = [])"
| "str_includes n (c # cs) = (take (length n) (c # cs) = n \<or> str_includes n cs)"

definition starts_with :: "string \<Rightarrow> string \<Rightarrow> bool" where
  "starts_with s p \<longleftrightarrow> take (length p) s = p"

section \<open>Numbers: ToNumber, parseInt, parseFloat\<close>

text \<open>
  \<open>parseFloat\<close>: after leading white space, an optional sign, the longest run of
  digits, and an optional fraction; \<open>NaN\<close> (here \<open>None\<close>) when no digit is read.
  Exponents and \<open>Infinity\<close> do not occur in the strings the program parses.
\<close>

definition parse_float :: "string \<Rightarrow> rat option" where
  "parse_float s =
     (let s1 = dropWhile is_space s;
          neg = (s1 \<noteq> [] \<and> hd s1 = CHR ''-'');
          s2 = (if s1 \<noteq> [] \<and> (hd s1 = CHR ''-'' \<or> hd s1 = CHR ''+'') then tl s1 else s1);
          ip = takeWhile is_digit s2;
          rest = dropWhile is_digit s2;
          fp = (if rest \<noteq> [] \<and> hd rest = CHR ''.'' then takeWhile is_digit (tl rest) else [])
      in if ip = [] \<and> fp = [] then None
         else let v = of_nat (digits_val ip) + of_nat (digits_val fp) / of_nat (10 ^ length fp)
              in Some (if neg then - v else v))"

text \<open>\<open>parseInt(s, 10)\<close>: after leading white space and an optional sign, the longest
  run of decimal digits; \<open>NaN\<close> when there is none.\<close>

definition parse_int10 :: "string \<Rightarrow> jsval" where
  "parse_int10 s =
     (let s1 = dropWhile is_space s;
          neg = (s1 \<noteq> [] \<and> hd s1 = CHR ''-'');
          s2 = (if s1 \<noteq> [] \<and> (hd s1 = CHR ''-'' \<or> hd s1 = CHR ''+'') then tl s1 else s1);
          ds = takeWhile is_digit s2
      in if ds = [] then JNaN
         else JNum (if neg then - of_nat (digits_val ds) else of_nat (digits_val ds)))"

text \<open>\<open>parseInt(s)\<close> without a radix: as \<open>parseInt(s, 10)\<close>, except that a \<open>0x\<close> or
  \<open>0X\<close> after the sign selects radix 16 and reads the longest run of hexadecimal
  digits after it.\<close>

definition is_hex :: "char \<Rightarrow> bool" where
  "is_hex c \<longleftrightarrow> is_digit c \<or> (CHR ''a'' \<le> c \<and> c \<le> CHR ''f'') \<or> (CHR ''A'' \<le> c \<and> c \<le> CHR ''F'')"

definition hex_val :: "char \<Rightarrow> nat" where
  "hex_val c = (if is_digit c then digit_val c
                else if CHR ''a'' \<le> c \<and> c \<le> CHR ''f'' then of_char c - of_char CHR ''a'' + 10
                else of_char c - of_char CHR ''A'' + 10)"

definition hexs_val :: "string \<Rightarrow> nat" where
  "hexs_val hs = foldl (\<lambda>n c. 16 * n + hex_val c) 0 hs"

definition parse_int :: "string \<Rightarrow> jsval" where
  "parse_int s =
     (let s1 = dropWhile is_space s;
          neg = (s1 \<noteq> [] \<and> hd s1 = CHR ''-'');
          s2 = (if s1 \<noteq> [] \<and> (hd s1 = CHR ''-'' \<or> hd s1 = CHR ''+'') then tl s1 else s1)
      in if take 2 s2 = ''0x'' \<or> take 2 s2 = ''0X'' then
           (let hs = takeWhile is_hex (drop 2 s2)
            in if hs = [] then JNaN else JNum (if neg then - of_nat (hexs_val hs) else of_nat (hexs_val hs)))
         else parse_int10 s)"

text \<open>
  \<open>ToNumber\<close> of a string (\<open>Number(s)\<close>, used by relational comparison): the whole
  trimmed string must be a numeral; the empty string is 0.
\<close>

definition str_to_number :: "string \<Rightarrow> rat option" where
  "str_to_number s =
     (let t = trim s in
      if t = [] then Some 0
      else if (\<forall>c\<in>set t. is_digit c \<or> c = CHR ''.'' \<or> c = CHR ''-'' \<or> c = CHR ''+'')
              \<and> length (filter (\<lambda>c. c = CHR ''.'') t) \<le> 1
              \<and> (\<forall>c\<in>set (tl t). c \<noteq> CHR ''-'' \<and> c \<noteq> CHR ''+'')
      then parse_float t else None)"

fun to_number :: "jsval \<Rightarrow> rat option" where
  "to_number JUndefined = None"
| "to_number JNull = Some 0"
| "to_number (JBool b) = Some (if b then 1 else 0)"
| "to_number (JNum r) = Some r"
| "to_number JNaN = None"
| "to_number (JStr s) = str_to_number s"
| "to_number (JDate t) = Some (of_int t)"

definition num_val :: "rat option \<Rightarrow> jsval" where
  "num_val x = (case x of None \<Rightarrow> JNaN | Some r \<Rightarrow> JNum r)"

text \<open>\<open>a * b\<close> on numbers (\<open>null\<close> counts as 0, \<open>undefined\<close> and \<open>NaN\<close> give \<open>NaN\<close>) and
  \<open>Math.round\<close> (halves go up).\<close>

definition js_mul :: "jsval \<Rightarrow> jsval \<Rightarrow> jsval" where
  "js_mul a b = num_val (case (to_number a, to_number b) of (Some x, Some y) \<Rightarrow> Some (x * y) | _ \<Rightarrow> None)"

definition js_div :: "jsval \<Rightarrow> jsval \<Rightarrow> jsval" where
  "js_div a b = num_val (case (to_number a, to_number b) of
     (Some x, Some y) \<Rightarrow> if y = 0 then None else Some (x / y) | _ \<Rightarrow> None)"

definition js_round :: "jsval \<Rightarrow> jsval" where
  "js_round a = num_val (case to_number a of Some x \<Rightarrow> Some (of_int \<lfloor>x + 1 / 2\<rfloor>) | None \<Rightarrow> None)"

section \<open>Abstract relational comparison\<close>

text \<open>
  ECMAScript's \<open>IsLessThan(a, b)\<close>: two strings compare by code units; otherwise both
  sides are converted to numbers and a \<open>NaN\<close> makes the result \<open>undefined\<close>
  (here \<open>None\<close>). \<open>a < b\<close> holds when it is \<open>true\<close>, \<open>a >= b\<close> when it is
  \<open>false\<close>; so every comparison with \<open>NaN\<close> or \<open>undefined\<close> is false.
\<close>

fun js_less_raw :: "jsval \<Rightarrow> jsval \<Rightarrow> bool option" where
  "js_less_raw (JStr x) (JStr y) = Some (x < y)"
| "js_less_raw a b =
     (case (to_number a, to_number b) of
        (Some x, Some y) \<Rightarrow> Some (x < y)
      | _ \<Rightarrow> None)"

definition js_lt :: "jsval \<Rightarrow> jsval \<Rightarrow> bool" where
  "js_lt a b \<longleftrightarrow> js_less_raw a b = Some True"

definition js_gt :: "jsval \<Rightarrow> jsval \<Rightarrow> bool" where
  "js_gt a b \<longleftrightarrow> js_less_raw b a = Some True"

definition js_le :: "jsval \<Rightarrow> jsval \<Rightarrow> bool" where
  "js_le a b \<longleftrightarrow> js_less_raw b a = Some False"

definition js_ge :: "jsval \<Rightarrow> jsval \<Rightarrow> bool" where
  "js_ge a b \<longleftrightarrow> js_less_raw a b = Some False"

text \<open>Strict equality \<open>===\<close>: \<open>NaN\<close> is unequal to everything.\<close>

definition js_seq :: "jsval \<Rightarrow> jsval \<Rightarrow> bool" where
  "js_seq a b \<longleftrightarrow> a = b \<and> a \<noteq> JNaN"

section \<open>Lemmas on the value layer\<close>

lemma js_cmp_num [js_simps]:
  "js_lt (JNum x) (JNum y) \<longleftrightarrow> x < y"
  "js_gt (JNum x) (JNum y) \<longleftrightarrow> y < x"
  "js_le (JNum x) (JNum y) \<longleftrightarrow> x \<le> y"
  "js_ge (JNum x) (JNum y) \<longleftrightarrow> y \<le> x"
  by (auto simp: js_lt_def js_gt_def js_le_def js_ge_def)

lemma js_less_raw_undefined [js_simps]:
  "js_less_raw JUndefined b = None" "js_less_raw a JUndefined = None"
  by (cases b; simp split: option.split) (cases a; simp split: option.split)

lemma js_less_raw_nan [js_simps]:
  "js_less_raw JNaN b = None" "js_less_raw a JNaN = None"
  by (cases b; simp split: option.split) (cases a; simp split: option.split)

lemma js_cmp_undefined [js_simps]:
  "\<not> js_lt JUndefined b" "\<not> js_lt a JUndefined"
  "\<not> js_gt JUndefined b" "\<not> js_gt a JUndefined"
  "\<not> js_le JUndefined b" "\<not> js_le a JUndefined"
  "\<not> js_ge JUndefined b" "\<not> js_ge a JUndefined"
  by (simp_all add: js_lt_def js_gt_def js_le_def js_ge_def js_less_raw_undefined split: option.split)

lemma js_cmp_nan [js_simps]:
  "\<not> js_lt JNaN b" "\<not> js_lt a JNaN"
  "\<not> js_gt JNaN b" "\<not> js_gt a JNaN"
  "\<not> js_le JNaN b" "\<not> js_le a JNaN"
  "\<not> js_ge JNaN b" "\<not> js_ge a JNaN"
  by (simp_all add: js_lt_def js_gt_def js_le_def js_ge_def js_less_raw_nan split: option.split)

lemma js_or_simps [js_simps]:
  "truthy a \<Longrightarrow> js_or a b = a"
  "\<not> truthy a \<Longrightarrow> js_or a b = b"
  by (simp_all add: js_or_def)

lemma num_val_simps [js_simps]:
  "num_val None = JNaN" "num_val (Some r) = JNum r"
  by (simp_all add: num_val_def)

lemma js_arith_num [js_simps]:
  "js_mul (JNum x) (JNum y) = JNum (x * y)"
  "y \<noteq> 0 \<Longrightarrow> js_div (JNum x) (JNum y) = JNum (x / y)"
  "js_round (JNum x) = JNum (of_int \<lfloor>x + 1 / 2\<rfloor>)"
  by (simp_all add: js_mul_def js_div_def js_round_def num_val_def)

lemma js_arith_nan [js_simps]:
  "to_number a = None \<Longrightarrow> js_mul a b = JNaN"
  "to_number a = None \<Longrightarrow> js_div a b = JNaN"
  "js_mul JNaN b = JNaN" "js_div JNaN b = JNaN" "js_round JNaN = JNaN"
  by (simp_all add: js_mul_def js_div_def js_round_def num_val_def)

section \<open>Lemmas on digits\<close>

lemma is_digit_digit_char [str_simps]: "d < 10 \<Longrightarrow> is_digit (digit_char d)"
  by (simp add: is_digit_def digit_char_def less_eq_char_def)

lemma digit_val_digit_char [str_simps]: "d < 10 \<Longrightarrow> digit_val (digit_char d) = d"
  by (simp add: digit_val_def digit_char_def)

lemma foldl_digits:
  "foldl (\<lambda>n c. 10 * n + digit_val c) a ys = a * 10 ^ length ys + digits_val ys"
proof (induction ys arbitrary: a)
  case Nil
  then show ?case by (simp add: digits_val_def)
next
  case (Cons y ys)
  have "digits_val (y # ys) = foldl (\<lambda>n c. 10 * n + digit_val c) (digit_val y) ys"
    by (simp add: digits_val_def)
  also have "\<dots> = digit_val y * 10 ^ length ys + digits_val ys"
    by (rule Cons.IH)
  finally have 1: "digits_val (y # ys) = digit_val y * 10 ^ length ys + digits_val ys" .
  have 2: "foldl (\<lambda>n c. 10 * n + digit_val c) a (y # ys)
      = (10 * a + digit_val y) * 10 ^ length ys + digits_val ys"
    using Cons.IH [of "10 * a + digit_val y"] by simp
  show ?case unfolding 1 2 by (simp add: algebra_simps)
qed

lemma digits_val_append [str_simps]:
  "digits_val (xs @ ys) = digits_val xs * 10 ^ length ys + digits_val ys"
proof -
  have "digits_val (xs @ ys) = foldl (\<lambda>n c. 10 * n + digit_val c) (digits_val xs) ys"
    by (simp add: digits_val_def)
  then show ?thesis by (simp add: foldl_digits)
qed
lemma digit_not_space_sign [str_simps]:
  "is_digit c \<Longrightarrow> \<not> is_space c" "is_digit c \<Longrightarrow> c \<noteq> CHR ''-''" "is_digit c \<Longrightarrow> c \<noteq> CHR ''+''"
  "is_digit c \<Longrightarrow> c \<noteq> CHR '',''" "is_digit c \<Longrightarrow> c \<noteq> CHR ''.''"
  by (auto simp: is_digit_def is_space_def less_eq_char_def)

lemma nondigit_chars [str_simps]:
  "\<not> is_digit CHR ''.''" "\<not> is_digit CHR ''-''" "\<not> is_digit CHR '',''" "\<not> is_digit CHR '':''"
  by (simp_all add: is_digit_def less_eq_char_def)

lemma parse_int_radix10:
  assumes "CHR ''x'' \<notin> set s" and "CHR ''X'' \<notin> set s"
  shows "parse_int s = parse_int10 s"
proof -
  define s1 where "s1 = dropWhile is_space s"
  define s2 where "s2 = (if s1 \<noteq> [] \<and> (hd s1 = CHR ''-'' \<or> hd s1 = CHR ''+'') then tl s1 else s1)"
  have tl: "set (tl xs) \<subseteq> set xs" for xs :: string by (cases xs) auto
  have "set s1 \<subseteq> set s" unfolding s1_def by (auto dest: set_dropWhileD)
  then have "set s2 \<subseteq> set s" unfolding s2_def using tl [of s1] by auto
  then have "take 2 s2 \<noteq> ''0x'' \<and> take 2 s2 \<noteq> ''0X''" using assms set_take_subset [of 2 s2] by force
  then show ?thesis by (simp add: parse_int_def Let_def s1_def [symmetric] s2_def [symmetric])
qed

lemma parse_int10_digits [str_simps]:
  assumes "ds \<noteq> []" and "\<forall>c\<in>set ds. is_digit c"
  shows "parse_int10 ds = JNum (of_nat (digits_val ds))"
proof -
  obtain c cs where ds: "ds = c # cs" using assms(1) by (cases ds) auto
  with assms(2) have "is_digit c" by simp
  then have dw: "dropWhile is_space ds = ds" and hd: "hd ds \<noteq> CHR ''-'' \<and> hd ds \<noteq> CHR ''+''"
    by (simp_all add: ds str_simps)
  have tw: "takeWhile is_digit ds = ds"
    using assms(2) by (simp add: takeWhile_eq_all_conv)
  show ?thesis using assms(1) hd by (simp add: parse_int10_def Let_def dw tw)
qed

lemma filter_dropWhile_disjoint:
  "(\<And>x. Q x \<Longrightarrow> \<not> P x) \<Longrightarrow> filter P (dropWhile Q s) = filter P s"
  by (induction s) auto

lemma filter_digit_trim [str_simps]: "filter is_digit (trim s) = filter is_digit s"
proof -
  have "\<And>x. is_space x \<Longrightarrow> \<not> is_digit x" by (auto simp: is_space_def is_digit_def)
  then show ?thesis by (simp add: trim_def filter_dropWhile_disjoint rev_filter [symmetric])
qed

lemma mod_100_digits: "10 * (n mod 100 div 10) + n mod 10 = (n::nat) mod 100"
proof -
  have "n mod 100 mod 10 = n mod 10" by (simp add: mod_mod_cancel)
  moreover have "10 * (n mod 100 div 10) + n mod 100 mod 10 = n mod 100" by simp
  ultimately show ?thesis by simp
qed

lemma digit_char_simps [str_simps]:
  "digit_char 0 = CHR ''0''" "digit_char 1 = CHR ''1''" "digit_char 2 = CHR ''2''"
  "digit_char 3 = CHR ''3''" "digit_char 4 = CHR ''4''" "digit_char 5 = CHR ''5''"
  "digit_char 6 = CHR ''6''" "digit_char 7 = CHR ''7''" "digit_char 8 = CHR ''8''"
  "digit_char 9 = CHR ''9''" "digit_char (Suc 0) = CHR ''1''"
  by code_simp+

lemma digits_val_Nil [str_simps]: "digits_val [] = 0"
  by (simp add: digits_val_def)

lemma digits_val_single [str_simps]: "digits_val [c] = digit_val c"
  by (simp add: digits_val_def)

lemma show_nat_digits [str_simps]: "\<forall>c\<in>set (show_nat n). is_digit c"
  by (induction n rule: show_nat.induct) (subst show_nat.simps, simp add: str_simps)

lemma show_nat_not_Nil [str_simps]: "show_nat n \<noteq> []"
  by (subst show_nat.simps) simp

lemma digits_val_show_nat [str_simps]: "digits_val (show_nat n) = n"
proof (induction n rule: show_nat.induct)
  case (1 n)
  show ?case
  proof (cases "n < 10")
    case True
    then show ?thesis by (subst show_nat.simps) (simp add: digits_val_single digit_val_digit_char)
  next
    case False
    with "1.IH" have "digits_val (show_nat (n div 10)) = n div 10" by simp
    with False show ?thesis by (subst show_nat.simps) (simp add: digits_val_append digits_val_single digit_val_digit_char)
  qed
qed

lemma digit_char_digit_val: "is_digit c \<Longrightarrow> digit_char (digit_val c) = c"
  by (simp add: digit_char_def digit_val_def is_digit_def less_eq_char_def)

lemma digit_val_lt_10: "is_digit c \<Longrightarrow> digit_val c < 10"
proof -
  assume "is_digit c"
  then have "of_char c \<le> (57::nat)" by (simp add: is_digit_def less_eq_char_def)
  then show ?thesis by (simp add: digit_val_def)
qed

lemma show_nat_2digits:
  "10 \<le> n \<Longrightarrow> n < 100 \<Longrightarrow> show_nat n = [digit_char (n div 10), digit_char (n mod 10)]"
  by (subst show_nat.simps) (simp add: show_nat.simps)

lemma find_append_None: "find P xs = None \<Longrightarrow> P y \<Longrightarrow> find P (xs @ [y]) = Some y"
  by (induction xs) auto

lemma find_SomeD: "find P xs = Some x \<Longrightarrow> P x \<and> x \<in> set xs"
  by (induction xs) (auto split: if_splits)

lemma distinct_replace:
  "distinct ys \<Longrightarrow> i \<in> set ys \<Longrightarrow> x \<notin> set ys - {i} \<Longrightarrow> distinct (map (\<lambda>y. if y = i then x else y) ys)"
proof (induction ys)
  case Nil
  then show ?case by simp
next
  case (Cons y ys)
  show ?case
  proof (cases "y = i")
    case True
    with Cons.prems have "i \<notin> set ys" by simp
    then have "map (\<lambda>y. if y = i then x else y) ys = ys" by (induction ys) auto
    with True Cons.prems show ?thesis by auto
  next
    case False
    with Cons.prems have "distinct (map (\<lambda>y. if y = i then x else y) ys)" by (intro Cons.IH) auto
    moreover have "y \<notin> (\<lambda>y. if y = i then x else y) ` set ys" using Cons.prems False by auto
    ultimately show ?thesis using False by simp
  qed
qed

lemma bind_sum_isl: "(\<And>a. isl (f a)) \<Longrightarrow> isl (bind_sum x f)"
  by (cases x) simp_all


lemma parse_float_digits:
  assumes "ds \<noteq> []" and "\<forall>c\<in>set ds. is_digit c"
  shows "parse_float ds = Some (of_nat (digits_val ds))"
proof -
  obtain c cs where ds: "ds = c # cs" using assms(1) by (cases ds) auto
  with assms(2) have "is_digit c" by simp
  then have dw: "dropWhile is_space ds = ds" and hd: "hd ds \<noteq> CHR ''-'' \<and> hd ds \<noteq> CHR ''+''"
    by (simp_all add: ds str_simps)
  have tw: "takeWhile is_digit ds = ds" and dw2: "dropWhile is_digit ds = []"
    using assms(2) by (simp_all add: takeWhile_eq_all_conv dropWhile_eq_Nil_conv)
  show ?thesis using assms(1) hd by (simp add: parse_float_def Let_def dw tw dw2 digits_val_Nil)
qed

lemma map_upt_zip_tl:
  "map (\<lambda>k. f (xs ! (k - 1)) (xs ! k)) [1..<length xs] = map (\<lambda>(a, b). f a b) (zip xs (tl xs))"
proof (rule nth_equalityI)
  show "length (map (\<lambda>k. f (xs ! (k - 1)) (xs ! k)) [1..<length xs]) = length (map (\<lambda>(a, b). f a b) (zip xs (tl xs)))"
    by simp
  fix j assume "j < length (map (\<lambda>k. f (xs ! (k - 1)) (xs ! k)) [1..<length xs])"
  then have j: "Suc j < length xs" by simp
  then have "[1..<length xs] ! j = Suc j" by simp
  with j show "map (\<lambda>k. f (xs ! (k - 1)) (xs ! k)) [1..<length xs] ! j = map (\<lambda>(a, b). f a b) (zip xs (tl xs)) ! j"
    by (simp add: nth_tl)
qed

end
