(* ===== verification/Schema.thy ===== *)
theory Schema
  imports Prelude
begin

text \<open>
  The data model of \<open>src/shared/schema.ts\<close>: one record per table (\<open>gold_prices\<close>,
  \<open>price_alerts\<close>, \<open>notification_logs\<close>, \<open>investments\<close>), the PostgreSQL
  \<open>numeric(10, 2)\<close> values of the price columns, and the plain JavaScript object that
  drizzle returns for a row, through which the server code reads the columns by name.
\<close>

section \<open>Numeric columns\<close>

text \<open>
  A \<open>numeric(10, 2)\<close> column holds a decimal with two places or \<open>NaN\<close> (PostgreSQL
  accepts the string \<open>'NaN'\<close>, which is what drizzle sends for a JavaScript \<open>NaN\<close>).
  On insert the value is rounded half away from zero to two places; a value of ten or
  more integer digits overflows and the insert fails.
\<close>

datatype numeric = Dec rat | DecNaN

definition round2 :: "rat \<Rightarrow> rat" where
  "round2 r = sgn r * of_int \<lfloor>\<bar>r\<bar> * 100 + 1 / 2\<rfloor> / 100"

definition numeric_of_js :: "jsval \<Rightarrow> numeric option" where
  "numeric_of_js v = (case v of JNum r \<Rightarrow> Some (Dec (round2 r)) | JNaN \<Rightarrow> Some DecNaN | _ \<Rightarrow> None)"

definition numeric_fits :: "numeric \<Rightarrow> bool" where
  "numeric_fits d = (case d of Dec r \<Rightarrow> \<bar>r\<bar> < 10 ^ 8 | DecNaN \<Rightarrow> True)"

text \<open>The text PostgreSQL returns for a \<open>numeric(10, 2)\<close> value (drizzle passes it on).\<close>

definition dec_text :: "numeric \<Rightarrow> string" where
  "dec_text d =
     (case d of
        DecNaN \<Rightarrow> ''NaN''
      | Dec r \<Rightarrow>
          (let c = nat \<lfloor>\<bar>r\<bar> * 100\<rfloor>
           in (if r < 0 then ''-'' else []) @ show_nat (c div 100) @ ''.'' @
              [digit_char (c mod 100 div 10), digit_char (c mod 10)]))"

text \<open>\<open>parseFloat(row.column)\<close>.\<close>

definition parse_numeric :: "numeric \<Rightarrow> rat option" where
  "parse_numeric d = parse_float (dec_text d)"

text \<open>A value with at most two decimal places, as every stored \<open>numeric(10, 2)\<close> is.\<close>

definition scaled2 :: "rat \<Rightarrow> bool" where
  "scaled2 r \<longleftrightarrow> of_int \<lfloor>r * 100\<rfloor> = r * 100"

section \<open>Tables\<close>

record gold_price =
  gp_id :: nat
  date :: timestamp
  buyPrice :: numeric
  sellPrice :: numeric
  pricePerGram :: numeric
  source :: string
  highPrice :: "numeric option"
  lowPrice :: "numeric option"

record price_alert =
  alert_id :: int
  alertType :: string
  targetPrice :: "numeric option"
  whatsappEnabled :: "bool option"
  telegramEnabled :: "bool option"
  phoneNumber :: "string option"
  telegramChatId :: "string option"
  active :: "bool option"
  createdAt :: timestamp
  lastTriggered :: "timestamp option"
  dailyTime :: "string option"

datatype channel = WhatsApp | Telegram
datatype send_status = Sent | Failed

record notification_log =
  log_id :: nat
  alertId :: "int option"
  log_channel :: channel
  message :: string
  status :: send_status
  errorMessage :: "string option"
  sentAt :: timestamp

record investment =
  inv_id :: int
  purchaseDate :: timestamp
  weight :: numeric
  purchasePrice :: numeric
  purity :: numeric
  inv_notes :: "string option"
  inv_createdAt :: timestamp

section \<open>Rows as JavaScript objects\<close>

text \<open>
  drizzle returns a row as an object keyed by the camel-case names of \<open>schema.ts\<close>;
  numeric columns arrive as strings, nullable columns as \<open>null\<close>, and reading any other
  property gives \<open>undefined\<close>.
\<close>

type_synonym jsobj = "string \<Rightarrow> jsval"

definition opt_js :: "('a \<Rightarrow> jsval) \<Rightarrow> 'a option \<Rightarrow> jsval" where
  "opt_js f x = (case x of None \<Rightarrow> JNull | Some v \<Rightarrow> f v)"

definition num_js :: "numeric \<Rightarrow> jsval" where
  "num_js d = JStr (dec_text d)"

definition gold_price_obj :: "gold_price \<Rightarrow> jsobj" where
  "gold_price_obj g k =
     (if k = ''id'' then JNum (of_nat (gp_id g))
      else if k = ''date'' then JDate (date g)
      else if k = ''buyPrice'' then num_js (buyPrice g)
      else if k = ''sellPrice'' then num_js (sellPrice g)
      else if k = ''pricePerGram'' then num_js (pricePerGram g)
      else if k = ''source'' then JStr (source g)
      else if k = ''highPrice'' then opt_js num_js (highPrice g)
      else if k = ''lowPrice'' then opt_js num_js (lowPrice g)
      else JUndefined)"

definition price_alert_obj :: "price_alert \<Rightarrow> jsobj" where
  "price_alert_obj a k =
     (if k = ''id'' then JNum (of_int (alert_id a))
      else if k = ''alertType'' then JStr (alertType a)
      else if k = ''targetPrice'' then opt_js num_js (targetPrice a)
      else if k = ''whatsappEnabled'' then opt_js JBool (whatsappEnabled a)
      else if k = ''telegramEnabled'' then opt_js JBool (telegramEnabled a)
      else if k = ''phoneNumber'' then opt_js JStr (phoneNumber a)
      else if k = ''telegramChatId'' then opt_js JStr (telegramChatId a)
      else if k = ''active'' then opt_js JBool (active a)
      else if k = ''createdAt'' then JDate (createdAt a)
      else if k = ''lastTriggered'' then opt_js JDate (lastTriggered a)
      else if k = ''dailyTime'' then opt_js JStr (dailyTime a)
      else JUndefined)"

text \<open>The checks \<open>alert.telegramEnabled && alert.telegramChatId\<close> on a row.\<close>

definition telegram_on :: "price_alert \<Rightarrow> bool" where
  "telegram_on a \<longleftrightarrow> telegramEnabled a = Some True \<and> telegramChatId a \<noteq> None \<and> telegramChatId a \<noteq> Some []"

definition whatsapp_on :: "price_alert \<Rightarrow> bool" where
  "whatsapp_on a \<longleftrightarrow> whatsappEnabled a = Some True \<and> phoneNumber a \<noteq> None \<and> phoneNumber a \<noteq> Some []"

section \<open>Lemmas\<close>

lemma price_alert_obj_absent [simp]:
  "price_alert_obj a ''isActive'' = JUndefined"
  "price_alert_obj a ''frequency'' = JUndefined"
  "price_alert_obj a ''notifyTelegram'' = JUndefined"
  "price_alert_obj a ''notifyWhatsapp'' = JUndefined"
  by (simp_all add: price_alert_obj_def)

lemma gold_price_obj_price [simp]: "gold_price_obj g ''price'' = JUndefined"
  by (simp add: gold_price_obj_def)

lemma telegram_on_obj:
  "telegram_on a \<longleftrightarrow> truthy (price_alert_obj a ''telegramEnabled'') \<and> truthy (price_alert_obj a ''telegramChatId'')"
  by (auto simp: telegram_on_def price_alert_obj_def opt_js_def split: option.split)

lemma whatsapp_on_obj:
  "whatsapp_on a \<longleftrightarrow> truthy (price_alert_obj a ''whatsappEnabled'') \<and> truthy (price_alert_obj a ''phoneNumber'')"
  by (auto simp: whatsapp_on_def price_alert_obj_def opt_js_def split: option.split)

lemma round2_exact:
  assumes "r * 100 = of_int k"
  shows "round2 r = r"
proof -
  have a: "\<bar>r\<bar> * 100 = of_int \<bar>k\<bar>" using assms by (metis abs_mult abs_numeral of_int_abs)
  have "\<lfloor>of_int \<bar>k\<bar> + 1 / 2 :: rat\<rfloor> = \<bar>k\<bar>" by linarith
  then have "\<lfloor>\<bar>r\<bar> * 100 + 1 / 2\<rfloor> = \<bar>k\<bar>" by (simp add: a)
  then have "round2 r = sgn r * (\<bar>r\<bar> * 100) / 100" by (simp add: round2_def a)
  also have "\<dots> = r" by (simp add: sgn_mult_abs)
  finally show ?thesis .
qed

lemma round2_nonneg_le:
  assumes "0 \<le> x" shows "0 \<le> round2 x \<and> round2 x \<le> x + 1"
proof (cases "x = 0")
  case True
  then show ?thesis by (simp add: round2_def)
next
  case False
  with assms have r: "round2 x = of_int \<lfloor>\<bar>x\<bar> * 100 + 1 / 2\<rfloor> / 100" by (simp add: round2_def)
  have f: "of_int \<lfloor>\<bar>x\<bar> * 100 + 1 / 2\<rfloor> \<le> x * 100 + 1 / 2" using assms by linarith
  have g: "0 \<le> (of_int \<lfloor>\<bar>x\<bar> * 100 + 1 / 2\<rfloor> :: rat)" using assms by simp
  show ?thesis unfolding r using f g by linarith
qed

lemma round2_of_int [simp]: "round2 (of_int k) = of_int k"
  by (rule round2_exact [of _ "k * 100"]) simp

lemma scaled2_round2: "scaled2 (round2 r)"
proof -
  define k where "k = \<lfloor>\<bar>r\<bar> * 100 + 1 / 2\<rfloor>"
  have "round2 r * 100 = of_int (if 0 < r then k else if r < 0 then - k else 0)"
    by (simp add: round2_def k_def sgn_if)
  then show ?thesis by (simp add: scaled2_def)
qed

text \<open>Rounding is half away from zero also below one cent: \<open>0.005\<close> is stored as \<open>0.01\<close>.\<close>

lemma round2_half_cent: "round2 (1 / 200) = 1 / 100"
  by (simp add: round2_def)

lemma parse_float_digits_frac:
  assumes "ip \<noteq> []" "\<forall>c\<in>set ip. is_digit c" "d1 < 10" "d2 < 10" and sg: "sg = [] \<or> sg = ''-''"
  shows "parse_float (sg @ ip @ ''.'' @ [digit_char d1, digit_char d2]) =
    Some ((if sg = ''-'' then -1 else 1) * (of_nat (digits_val ip) + of_nat (10 * d1 + d2) / 100))"
proof -
  obtain c cs where ip: "ip = c # cs" using assms(1) by (cases ip) auto
  have dc: "is_digit c" using assms(2) ip by simp
  have tw: "takeWhile is_digit (ip @ ''.'' @ [digit_char d1, digit_char d2]) = ip"
    using assms(2) by (simp add: takeWhile_append2 digit_not_space_sign nondigit_chars)
  have dw: "dropWhile is_digit (ip @ ''.'' @ [digit_char d1, digit_char d2]) = ''.'' @ [digit_char d1, digit_char d2]"
    using assms(2) by (simp add: dropWhile_append2 digit_not_space_sign nondigit_chars)
  have fp: "takeWhile is_digit [digit_char d1, digit_char d2] = [digit_char d1, digit_char d2]"
    using assms(3,4) by (simp add: is_digit_digit_char)
  have dv: "digits_val [digit_char d1, digit_char d2] = 10 * d1 + d2"
    using assms(3,4) by (simp add: digits_val_def digit_val_digit_char)
  have nsp: "\<not> is_space (CHR ''-'')" by (simp add: is_space_def)
  from sg show ?thesis
  proof
    assume "sg = []"
    then show ?thesis using ip dc tw dw fp dv
      by (simp add: parse_float_def Let_def digit_not_space_sign nondigit_chars)
  next
    assume "sg = ''-''"
    then show ?thesis using ip dc tw dw fp dv nsp
      by (simp add: parse_float_def Let_def digit_not_space_sign nondigit_chars)
  qed
qed
lemma parse_numeric_Dec:
  assumes "scaled2 r"
  shows "parse_numeric (Dec r) = Some r"
proof -
  define c where "c = nat \<lfloor>\<bar>r\<bar> * 100\<rfloor>"
  have ab: "\<bar>r\<bar> * 100 = \<bar>r * 100\<bar>" by (simp add: abs_mult)
  have ci: "of_nat c = \<bar>r\<bar> * 100"
  proof -
    have "\<bar>r\<bar> * 100 = \<bar>of_int \<lfloor>r * 100\<rfloor>\<bar>"
    proof -
      from assms have s: "of_int \<lfloor>r * 100\<rfloor> = r * 100" by (simp only: scaled2_def)
      show ?thesis by (simp only: ab s)
    qed
    also have "\<dots> = of_int \<bar>\<lfloor>r * 100\<rfloor>\<bar>" by (rule of_int_abs [symmetric])
    finally have e: "\<bar>r\<bar> * 100 = of_int \<bar>\<lfloor>r * 100\<rfloor>\<bar>" .
    then have "of_int \<lfloor>\<bar>r\<bar> * 100\<rfloor> = \<bar>r\<bar> * 100" by (simp only: e floor_of_int)
    then show ?thesis by (simp add: c_def)
  qed
  have m: "10 * (c mod 100 div 10) + c mod 10 = c mod 100" by (rule mod_100_digits)
  have v: "of_nat (c div 100) + of_nat (c mod 100) / 100 = (of_nat c / 100 :: rat)"
  proof -
    have "c = c div 100 * 100 + c mod 100" by simp
    then have "(of_nat c :: rat) = of_nat (c div 100) * 100 + of_nat (c mod 100)"
      by (metis of_nat_add of_nat_mult of_nat_numeral)
    then show ?thesis by (simp add: field_simps)
  qed
  have "parse_numeric (Dec r) = parse_float ((if r < 0 then ''-'' else []) @ show_nat (c div 100) @ ''.'' @
      [digit_char (c mod 100 div 10), digit_char (c mod 10)])"
    by (simp add: parse_numeric_def dec_text_def c_def Let_def)
  also have "\<dots> = Some ((if (if r < 0 then ''-'' else []) = ''-'' then -1 else 1) *
      (of_nat (digits_val (show_nat (c div 100))) + of_nat (10 * (c mod 100 div 10) + c mod 10) / 100))"
    by (rule parse_float_digits_frac) (simp_all add: show_nat_not_Nil show_nat_digits)
  also have "\<dots> = Some r"
    using ci v m by (simp add: digits_val_show_nat)
  finally show ?thesis .
qed
end
