(* ===== verification/Storage.thy ===== *)
theory Storage
  imports Schema
begin

text \<open>
  The persistence gateway \<open>storage\<close> of \<open>src/server/storage.js\<close>: the database is a
  record of the four tables (rows in insertion order) and their serial sequences; every
  method is a function of the database that returns its result and the new database,
  or a database error where PostgreSQL would reject the statement. Queries ordered by a
  timestamp use a stable sort, so rows with equal timestamps come in insertion order.
\<close>

datatype db_error = NotNullViolation string | NumericOverflow string | InvalidInput string
  | UniqueViolation string | NoValuesToSet

record db =
  goldPrices :: "gold_price list"
  priceAlerts :: "price_alert list"
  notificationLogs :: "notification_log list"
  investments :: "investment list"
  seq_gold :: nat
  seq_alert :: nat
  seq_log :: nat
  seq_inv :: nat

definition empty_db :: db where
  "empty_db = \<lparr>goldPrices = [], priceAlerts = [], notificationLogs = [], investments = [],
     seq_gold = 1, seq_alert = 1, seq_log = 1, seq_inv = 1\<rparr>"

section \<open>Writing a numeric column\<close>

text \<open>
  The value drizzle sends for a numeric column: a number (or its \<open>toString()\<close>, which
  PostgreSQL reads back to the same number), \<open>NaN\<close>, or \<open>null\<close>/\<open>undefined\<close>.
\<close>

definition column_numeric :: "string \<Rightarrow> jsval \<Rightarrow> db_error + numeric" where
  "column_numeric col v =
     (case v of
        JNull \<Rightarrow> Inl (NotNullViolation col)
      | JUndefined \<Rightarrow> Inl (NotNullViolation col)
      | _ \<Rightarrow> (case numeric_of_js v of
                None \<Rightarrow> Inl (InvalidInput col)
              | Some d \<Rightarrow> if numeric_fits d then Inr d else Inl (NumericOverflow col)))"

definition column_numeric_opt :: "string \<Rightarrow> jsval \<Rightarrow> db_error + numeric option" where
  "column_numeric_opt col v =
     (if v = JNull \<or> v = JUndefined then Inr None else map_sum id Some (column_numeric col v))"

section \<open>Gold prices\<close>

record gold_price_in =
  in_date :: timestamp
  in_buyPrice :: jsval
  in_sellPrice :: jsval
  in_pricePerGram :: jsval
  in_source :: string
  in_highPrice :: jsval
  in_lowPrice :: jsval

definition insertGoldPrice :: "gold_price_in \<Rightarrow> db \<Rightarrow> db_error + (gold_price \<times> db)" where
  "insertGoldPrice g d =
     bind_sum (column_numeric ''buy_price'' (in_buyPrice g)) (\<lambda>b.
     bind_sum (column_numeric ''sell_price'' (in_sellPrice g)) (\<lambda>s.
     bind_sum (column_numeric ''price_per_gram'' (in_pricePerGram g)) (\<lambda>p.
     bind_sum (column_numeric_opt ''high_price'' (in_highPrice g)) (\<lambda>h.
     bind_sum (column_numeric_opt ''low_price'' (in_lowPrice g)) (\<lambda>l.
        (let row = \<lparr>gp_id = seq_gold d, date = in_date g, buyPrice = b, sellPrice = s,
                    pricePerGram = p, source = in_source g, highPrice = h, lowPrice = l\<rparr>
         in Inr (row, d\<lparr>goldPrices := goldPrices d @ [row], seq_gold := Suc (seq_gold d)\<rparr>)))))))"

text \<open>\<open>ORDER BY date DESC LIMIT 1\<close>.\<close>

definition latest_gold_price :: "gold_price list \<Rightarrow> gold_price option" where
  "latest_gold_price rs = (case sort_key (\<lambda>r. - date r) rs of [] \<Rightarrow> None | r # _ \<Rightarrow> Some r)"

text \<open>
  \<open>getCurrentGoldPrice\<close> annotates the latest row with its change against the latest
  row dated between midnight of the day before yesterday and midnight of yesterday
  (the code's \<open>yesterday\<close> is midnight at the start of yesterday, and the window
  reaches 24 hours further back). A change is \<open>None\<close> where \<open>parseFloat\<close> gives \<open>NaN\<close>.
\<close>

record current_price = gold_price +
  priceChange :: "rat option"
  buyPriceChange :: "rat option"
  sellPriceChange :: "rat option"

definition day_start :: "timestamp \<Rightarrow> timestamp" where
  "day_start t = t - t mod ms_per_day"

definition num_diff :: "numeric \<Rightarrow> numeric \<Rightarrow> rat option" where
  "num_diff a b = (case (parse_numeric a, parse_numeric b) of
                     (Some x, Some y) \<Rightarrow> Some (x - y) | _ \<Rightarrow> None)"

definition getCurrentGoldPrice :: "timestamp \<Rightarrow> db \<Rightarrow> current_price option" where
  "getCurrentGoldPrice now d =
     (case latest_gold_price (goldPrices d) of
        None \<Rightarrow> None
      | Some cur \<Rightarrow>
          (let y = day_start now - ms_per_day;
               prev = latest_gold_price (filter (\<lambda>r. date r \<le> y \<and> y - ms_per_day \<le> date r) (goldPrices d))
           in Some (gold_price.extend cur
                (case prev of
                   None \<Rightarrow> current_price.fields (Some 0) (Some 0) (Some 0)
                 | Some p \<Rightarrow> current_price.fields
                      (num_diff (pricePerGram cur) (pricePerGram p))
                      (num_diff (buyPrice cur) (buyPrice p))
                      (num_diff (sellPrice cur) (sellPrice p))))))"

section \<open>Price alerts\<close>

text \<open>\<open>WHERE active = true ORDER BY created_at DESC\<close>: a \<open>NULL\<close> active flag is not true.\<close>

definition getPriceAlerts :: "db \<Rightarrow> price_alert list" where
  "getPriceAlerts d = sort_key (\<lambda>a. - createdAt a) (filter (\<lambda>a. active a = Some True) (priceAlerts d))"

definition getPriceAlertById :: "int \<Rightarrow> db \<Rightarrow> price_alert option" where
  "getPriceAlertById i d = find (\<lambda>a. alert_id a = i) (priceAlerts d)"

definition updateAlertLastTriggered :: "int \<Rightarrow> timestamp \<Rightarrow> db \<Rightarrow> db" where
  "updateAlertLastTriggered i now d =
     d\<lparr>priceAlerts := map (\<lambda>a. if alert_id a = i then a\<lparr>lastTriggered := Some now\<rparr> else a) (priceAlerts d)\<rparr>"

definition deletePriceAlert :: "int \<Rightarrow> db \<Rightarrow> db" where
  "deletePriceAlert i d = d\<lparr>priceAlerts := filter (\<lambda>a. alert_id a \<noteq> i) (priceAlerts d)\<rparr>"

section \<open>Notification logs\<close>

text \<open>
  The object passed to \<open>createNotificationLog\<close>; \<open>channel\<close> and \<open>status\<close> are
  \<open>NOT NULL\<close> text columns, absent (\<open>None\<close>) when the caller leaves them out.
\<close>

record log_in =
  li_alertId :: "int option"
  li_channel :: "channel option"
  li_message :: string
  li_status :: "send_status option"
  li_errorMessage :: "string option"
  li_sentAt :: timestamp

definition createNotificationLog :: "log_in \<Rightarrow> db \<Rightarrow> db_error + (notification_log \<times> db)" where
  "createNotificationLog l d =
     (case (li_channel l, li_status l) of
        (None, _) \<Rightarrow> Inl (NotNullViolation ''channel'')
      | (_, None) \<Rightarrow> Inl (NotNullViolation ''status'')
      | (Some c, Some st) \<Rightarrow>
          (let row = \<lparr>log_id = seq_log d, alertId = li_alertId l, log_channel = c,
                      message = li_message l, status = st, errorMessage = li_errorMessage l,
                      sentAt = li_sentAt l\<rparr>
           in Inr (row, d\<lparr>notificationLogs := notificationLogs d @ [row], seq_log := Suc (seq_log d)\<rparr>)))"

definition getNotificationLogs :: "nat \<Rightarrow> db \<Rightarrow> notification_log list" where
  "getNotificationLogs n d = take n (sort_key (\<lambda>l. - sentAt l) (notificationLogs d))"

section \<open>The type of the stored rows\<close>

text \<open>What the column types of \<open>gold_prices\<close> promise of every row: each \<open>numeric(10, 2)\<close>
  value has at most two decimals and less than \<open>10^8\<close> in absolute value (or is \<open>NaN\<close>),
  and the ids are distinct and below the serial counter.\<close>

definition numeric_typed :: "numeric \<Rightarrow> bool" where
  "numeric_typed n = (case n of Dec r \<Rightarrow> scaled2 r \<and> \<bar>r\<bar> < 10 ^ 8 | DecNaN \<Rightarrow> True)"

definition gold_row_typed :: "gold_price \<Rightarrow> bool" where
  "gold_row_typed g \<longleftrightarrow> numeric_typed (buyPrice g) \<and> numeric_typed (sellPrice g) \<and>
     numeric_typed (pricePerGram g) \<and> pred_option numeric_typed (highPrice g) \<and>
     pred_option numeric_typed (lowPrice g)"

definition gold_table_wf :: "db \<Rightarrow> bool" where
  "gold_table_wf d \<longleftrightarrow> list_all (\<lambda>g. gold_row_typed g \<and> gp_id g < seq_gold d) (goldPrices d) \<and>
     distinct (map gp_id (goldPrices d))"

section \<open>Example data\<close>

definition ex_gp :: gold_price where
  "ex_gp = \<lparr>gp_id = 1, date = 0, buyPrice = Dec 1058000, sellPrice = Dec 967000,
     pricePerGram = Dec 1058000, source = ''pegadaian'', highPrice = None, lowPrice = None\<rparr>"

definition ex_alert :: price_alert where
  "ex_alert = \<lparr>alert_id = 1, alertType = ''increase'', targetPrice = Some (Dec 1058000),
     whatsappEnabled = None, telegramEnabled = Some True, phoneNumber = None,
     telegramChatId = Some ''42'', active = Some True, createdAt = 0, lastTriggered = None,
     dailyTime = None\<rparr>"

definition ex_db :: db where
  "ex_db = empty_db\<lparr>goldPrices := [ex_gp], priceAlerts := [ex_alert], seq_gold := 2, seq_alert := 2\<rparr>"

text \<open>The scenario of the specification: a stored price of 1058000 and an increase
  alert at 1050000 with Telegram on.\<close>

definition ex_alert_1050 :: price_alert where
  "ex_alert_1050 = ex_alert\<lparr>targetPrice := Some (Dec 1050000)\<rparr>"

definition ex_cur :: current_price where
  "ex_cur = gold_price.extend ex_gp (current_price.fields (Some 0) (Some 0) (Some 0))"

section \<open>Lemmas\<close>

lemma column_numeric_Inr_iff:
  "column_numeric c v = Inr x \<longleftrightarrow> v \<noteq> JNull \<and> v \<noteq> JUndefined \<and> numeric_of_js v = Some x \<and> numeric_fits x"
  by (cases v) (auto simp: column_numeric_def numeric_of_js_def split: option.split)

lemma insertGoldPrice_Inr:
  assumes "insertGoldPrice g d = Inr (row, d')"
  shows "d' = d\<lparr>goldPrices := goldPrices d @ [row], seq_gold := Suc (seq_gold d)\<rparr>
    \<and> gp_id row = seq_gold d \<and> date row = in_date g \<and> source row = in_source g
    \<and> column_numeric ''buy_price'' (in_buyPrice g) = Inr (buyPrice row)
    \<and> column_numeric ''sell_price'' (in_sellPrice g) = Inr (sellPrice row)
    \<and> column_numeric ''price_per_gram'' (in_pricePerGram g) = Inr (pricePerGram row)"
  using assms by (auto simp: insertGoldPrice_def Let_def)

lemma column_numeric_JNum:
  "\<bar>round2 x\<bar> < 10 ^ 8 \<Longrightarrow> column_numeric c (JNum x) = Inr (Dec (round2 x))"
  by (simp add: column_numeric_def numeric_of_js_def numeric_fits_def)

lemma getCurrentGoldPrice_latest:
  "getCurrentGoldPrice now d = Some cur \<Longrightarrow> latest_gold_price (goldPrices d) = Some (gold_price.truncate cur)"
  by (auto simp: getCurrentGoldPrice_def Let_def gold_price.defs current_price.defs split: option.splits)

lemma getCurrentGoldPrice_Some:
  "latest_gold_price (goldPrices d) = Some r \<Longrightarrow> \<exists>cur. getCurrentGoldPrice now d = Some cur \<and> gold_price.truncate cur = r"
  by (auto simp: getCurrentGoldPrice_def Let_def gold_price.defs current_price.defs split: option.splits)

lemma pricePerGram_truncate: "pricePerGram (gold_price.truncate r) = pricePerGram r"
  by (simp add: gold_price.defs)

lemma set_getPriceAlerts: "set (getPriceAlerts d) = {a \<in> set (priceAlerts d). active a = Some True}"
  by (simp add: getPriceAlerts_def)

lemma updateAlertLastTriggered_simps [simp]:
  "goldPrices (updateAlertLastTriggered i t d) = goldPrices d"
  "set (priceAlerts (updateAlertLastTriggered i t d)) = (\<lambda>a. if alert_id a = i then a\<lparr>lastTriggered := Some t\<rparr> else a) ` set (priceAlerts d)"
  by (simp_all add: updateAlertLastTriggered_def)

lemma column_numeric_JNaN: "column_numeric c JNaN = Inr DecNaN"
  by (simp add: column_numeric_def numeric_of_js_def numeric_fits_def)

lemma insertGoldPrice_nonempty: "insertGoldPrice g d = Inr (row, d') \<Longrightarrow> goldPrices d' \<noteq> []"
  using insertGoldPrice_Inr by fastforce

lemma latest_gold_price_nonempty: "rs \<noteq> [] \<Longrightarrow> latest_gold_price rs \<noteq> None"
proof -
  assume "rs \<noteq> []"
  then have "sort_key (\<lambda>r. - date r) rs \<noteq> []" by (metis length_0_conv length_sort)
  then show ?thesis by (auto simp: latest_gold_price_def split: list.split)
qed

lemma getCurrentGoldPrice_nonempty: "goldPrices d \<noteq> [] \<Longrightarrow> getCurrentGoldPrice now d \<noteq> None"
  using latest_gold_price_nonempty getCurrentGoldPrice_Some by fastforce

lemma column_numeric_typed: "column_numeric c v = Inr n \<Longrightarrow> numeric_typed n"
  by (cases v) (auto simp: column_numeric_def numeric_of_js_def numeric_fits_def numeric_typed_def
      scaled2_round2 split: if_splits)

lemma column_numeric_opt_typed: "column_numeric_opt c v = Inr n \<Longrightarrow> pred_option numeric_typed n"
  by (cases "column_numeric c v") (auto simp: column_numeric_opt_def column_numeric_typed split: if_splits)

lemma round2_numeral [simp]: "round2 (numeral n) = numeral n"
  using round2_of_int [of "numeral n"] by simp

lemma insertGoldPrice_row_typed: "insertGoldPrice g d = Inr (row, d') \<Longrightarrow> gold_row_typed row"
  by (auto simp: insertGoldPrice_def bind_sum_def gold_row_typed_def Let_def
      column_numeric_typed column_numeric_opt_typed split: sum.splits)

lemma insertGoldPrice_wf:
  assumes "gold_table_wf d" and "insertGoldPrice g d = Inr (row, d')"
  shows "gold_table_wf d'"
proof -
  have d': "d' = d\<lparr>goldPrices := goldPrices d @ [row], seq_gold := Suc (seq_gold d)\<rparr>" and
    i: "gp_id row = seq_gold d" using insertGoldPrice_Inr [OF assms(2)] by simp_all
  have t: "gold_row_typed row" using assms(2) by (rule insertGoldPrice_row_typed)
  from assms(1) have "seq_gold d \<notin> set (map gp_id (goldPrices d))"
    by (auto simp: gold_table_wf_def list_all_iff)
  with assms(1) t i show ?thesis
    by (auto simp: d' gold_table_wf_def list_all_iff less_Suc_eq)
qed

end
