(* ===== verification/Emasku.thy ===== *)
theory Emasku
  imports Storage
begin

text \<open>
  The primary price source, \<open>EmaskuScraper\<close> of \<open>src/server/emasku-scraper.js\<close>:
  the HTTP fetch and its four error messages, the number extraction, the scan of the
  price table for the 1-gram row of the REGULAR section, the update that stores the
  reading, and the alert check the hourly tick runs after an Emasku update.
  The HTML is given by what cheerio returns for it: the rows of the first
  \<open>table.table\<close>, each with its trimmed text and the trimmed texts of its cells.
\<close>

section \<open>Inputs from the network\<close>

datatype 'a http_result =
    HttpOk 'a
  | HttpTimeout
  | HttpStatus nat
  | HttpNoResponse
  | HttpSetupError string

record tr =
  tr_text :: string
  tds :: "string list"

type_synonym emasku_page = "tr list option"

datatype emasku_parse_error = NoPriceTable | InvalidPriceValues | RegularNotFound | NoValidPriceData

datatype emasku_error =
    TimeoutError
  | ServerError nat
  | NoResponseError
  | FetchFailed string
  | ParseFailed emasku_parse_error
  | InvalidGoldPriceData
  | EmaskuStorageError db_error

section \<open>fetchPage\<close>

definition emasku_fetchPage :: "emasku_page http_result \<Rightarrow> emasku_error + emasku_page" where
  "emasku_fetchPage r =
     (case r of
        HttpOk p \<Rightarrow> Inr p
      | HttpTimeout \<Rightarrow> Inl TimeoutError
      | HttpStatus n \<Rightarrow> Inl (ServerError n)
      | HttpNoResponse \<Rightarrow> Inl NoResponseError
      | HttpSetupError m \<Rightarrow> Inl (FetchFailed m))"

section \<open>extractNumber\<close>

text \<open>
  \<open>text.replace(/[^0-9,.]/g, '')\<close>, then the commas removed, then \<open>parseInt(_, 10)\<close>:
  a dot ends the number and a string without a leading digit gives \<open>NaN\<close>.
\<close>

definition emasku_extractNumber :: "string \<Rightarrow> jsval" where
  "emasku_extractNumber t =
     parse_int10 (filter (\<lambda>c. c \<noteq> CHR '','')
       (filter (\<lambda>c. is_digit c \<or> c = CHR '','' \<or> c = CHR ''.'') t))"

section \<open>parseGoldPrices\<close>

record emasku_entry =
  e_buy :: jsval
  e_sell :: jsval

definition first_td :: "tr \<Rightarrow> string" where
  "first_td r = (case tds r of [] \<Rightarrow> [] | c # _ \<Rightarrow> c)"

text \<open>
  The \<open>each\<close> callback over the rows: a row whose text contains \<open>REGULAR\<close> sets the
  flag; after it, the first row whose first cell is \<open>1 gr\<close> and that has five cells
  yields the prices and stops the iteration (\<open>return false\<close>), unless one of them is
  \<open><= 0\<close>, which throws. A \<open>1 gr\<close> row with fewer cells is logged and skipped.
\<close>

fun emasku_scan :: "bool \<Rightarrow> tr list \<Rightarrow> emasku_parse_error + (bool \<times> emasku_entry option)" where
  "emasku_scan found [] = Inr (found, None)"
| "emasku_scan found (r # rs) =
     (if str_includes ''REGULAR'' (tr_text r) then emasku_scan True rs
      else if found \<and> first_td r = ''1 gr'' \<and> 5 \<le> length (tds r) then
        (let b = emasku_extractNumber (tds r ! 2);
             s = emasku_extractNumber (tds r ! 4)
         in if js_le b (JNum 0) \<or> js_le s (JNum 0) then Inl InvalidPriceValues
            else Inr (found, Some \<lparr>e_buy = b, e_sell = s\<rparr>))
      else emasku_scan found rs)"

definition emasku_parseGoldPrices :: "emasku_page \<Rightarrow> emasku_error + emasku_entry" where
  "emasku_parseGoldPrices p =
     (case p of
        None \<Rightarrow> Inl (ParseFailed NoPriceTable)
      | Some rows \<Rightarrow>
          (case emasku_scan False rows of
             Inl e \<Rightarrow> Inl (ParseFailed e)
           | Inr (found, entry) \<Rightarrow>
               if \<not> found then Inl (ParseFailed RegularNotFound)
               else (case entry of
                       None \<Rightarrow> Inl (ParseFailed NoValidPriceData)
                     | Some e \<Rightarrow> Inr e)))"

definition emasku_fetchGoldPrices :: "emasku_page http_result \<Rightarrow> emasku_error + emasku_entry" where
  "emasku_fetchGoldPrices r = bind_sum (emasku_fetchPage r) emasku_parseGoldPrices"

section \<open>updateGoldPrices\<close>

text \<open>
  The row stored for a reading: \<open>pricePerGram\<close> is the buy price; the \<open>price\<close>,
  \<open>unit\<close> and \<open>currency\<close> properties of the object are not columns and are dropped.
\<close>

definition emasku_row :: "timestamp \<Rightarrow> emasku_entry \<Rightarrow> gold_price_in" where
  "emasku_row now e =
     \<lparr>in_date = now, in_buyPrice = e_buy e, in_sellPrice = e_sell e, in_pricePerGram = e_buy e,
      in_source = ''Emasku'', in_highPrice = JUndefined, in_lowPrice = JUndefined\<rparr>"

definition emasku_updateGoldPrices ::
  "timestamp \<Rightarrow> emasku_page http_result \<Rightarrow> db \<Rightarrow> emasku_error + (emasku_entry \<times> db)" where
  "emasku_updateGoldPrices now r d =
     bind_sum (emasku_fetchGoldPrices r) (\<lambda>e.
       if \<not> truthy (e_buy e) then Inl InvalidGoldPriceData
       else (case insertGoldPrice (emasku_row now e) d of
               Inl err \<Rightarrow> Inl (EmaskuStorageError err)
             | Inr (_, d') \<Rightarrow> Inr (e, d')))"

section \<open>checkPriceAlerts\<close>

text \<open>
  The loop reads the alert rows as objects. An exception inside it (a \<open>null\<close>
  \<open>dailyTime\<close> of a daily alert, a rejected log insert) leaves the loop; the
  \<open>catch\<close> logs it, and the writes already done stay in the database.
\<close>

datatype check_abort = TypeErrorAbort | StorageAbort db_error

definition hours_between :: "timestamp \<Rightarrow> timestamp \<Rightarrow> rat" where
  "hours_between now t = of_int (now - t) / of_int ms_per_hour"

definition emasku_should_trigger ::
  "timestamp \<Rightarrow> jsobj \<Rightarrow> jsobj \<Rightarrow> check_abort + bool" where
  "emasku_should_trigger now cur a =
     (if js_seq (a ''alertType'') (JStr ''increase'') \<and> js_ge (cur ''price'') (a ''targetPrice'') then Inr True
      else if js_seq (a ''alertType'') (JStr ''decrease'') \<and> js_le (cur ''price'') (a ''targetPrice'') then Inr True
      else if js_seq (a ''alertType'') (JStr ''daily'') then
        (case a ''dailyTime'' of
           JStr t \<Rightarrow> Inr (js_seq (parse_int10 (takeWhile (\<lambda>c. c \<noteq> CHR '':'') t))
                               (JNum (of_nat (hour_of now))))
         | _ \<Rightarrow> Inl TypeErrorAbort)
      else Inr False)"

definition emasku_alert_log :: "timestamp \<Rightarrow> price_alert \<Rightarrow> log_in" where
  "emasku_alert_log now a =
     \<lparr>li_alertId = Some (alert_id a), li_channel = None, li_message = ''Alert triggered: '' @ alertType a,
      li_status = None, li_errorMessage = None, li_sentAt = now\<rparr>"

definition emasku_check_alert ::
  "timestamp \<Rightarrow> jsobj \<Rightarrow> price_alert \<Rightarrow> db \<Rightarrow> db \<times> check_abort option" where
  "emasku_check_alert now cur al d =
     (let a = price_alert_obj al in
      if \<not> truthy (a ''isActive'') then (d, None)
      else if (case a ''lastTriggered'' of
                 JDate t \<Rightarrow> js_lt (JNum (hours_between now t)) (a ''frequency'')
               | _ \<Rightarrow> False) then (d, None)
      else (case emasku_should_trigger now cur a of
              Inl ab \<Rightarrow> (d, Some ab)
            | Inr False \<Rightarrow> (d, None)
            | Inr True \<Rightarrow>
                (let d1 = updateAlertLastTriggered (alert_id al) now d
                 in case createNotificationLog (emasku_alert_log now al) d1 of
                      Inl e \<Rightarrow> (d1, Some (StorageAbort e))
                    | Inr (_, d2) \<Rightarrow> (d2, None))))"

fun emasku_check_loop ::
  "timestamp \<Rightarrow> jsobj \<Rightarrow> price_alert list \<Rightarrow> db \<Rightarrow> db \<times> check_abort option" where
  "emasku_check_loop now cur [] d = (d, None)"
| "emasku_check_loop now cur (al # als) d =
     (case emasku_check_alert now cur al d of
        (d', Some ab) \<Rightarrow> (d', Some ab)
      | (d', None) \<Rightarrow> emasku_check_loop now cur als d')"

definition emasku_checkPriceAlerts :: "timestamp \<Rightarrow> db \<Rightarrow> db" where
  "emasku_checkPriceAlerts now d =
     (case getCurrentGoldPrice now d of
        None \<Rightarrow> d
      | Some cur \<Rightarrow> fst (emasku_check_loop now (gold_price_obj (gold_price.truncate cur)) (getPriceAlerts d) d))"

section \<open>Inputs used by the properties\<close>

text \<open>The site's number format: digits grouped by three with commas (\<open>1,874,000\<close>).\<close>

fun group3_rev :: "string \<Rightarrow> string" where
  "group3_rev (a # b # c # d # rest) = a # b # c # CHR '','' # group3_rev (d # rest)"
| "group3_rev xs = xs"

definition group_thousands :: "string \<Rightarrow> string" where
  "group_thousands s = rev (group3_rev (rev s))"

text \<open>A page whose 1-gram row has a sell cell without digits.\<close>

definition nan_sell_page :: emasku_page where
  "nan_sell_page = Some [\<lparr>tr_text = ''REGULAR'', tds = []\<rparr>,
     \<lparr>tr_text = ''1 gr Rp. 1,874,000 Rp. -'', tds = [''1 gr'', ''Rp.'', ''1,874,000'', ''Rp.'', ''-'']\<rparr>]"

section \<open>Properties\<close>

subsection \<open>The alert check\<close>

lemma emasku_check_alert_skips: "emasku_check_alert now cur al d = (d, None)"
  by (simp add: emasku_check_alert_def)

lemma emasku_check_loop_inert: "emasku_check_loop now cur als d = (d, None)"
  by (induction als) (simp_all add: emasku_check_alert_skips)

text \<open>
  C4. The alert check that the hourly tick runs after a successful Emasku update never
  triggers an alert and never writes to the database: it reads \<open>alert.isActive\<close>, which
  is not a column of \<open>price_alerts\<close> (the column is \<open>active\<close>), so every alert is
  skipped.
\<close>

theorem emasku_checkPriceAlerts_inert: "emasku_checkPriceAlerts now d = d"
  by (simp add: emasku_checkPriceAlerts_def emasku_check_loop_inert split: option.split)

subsection \<open>Number extraction\<close>

lemma group3_rev_filter:
  "filter (\<lambda>c. c \<noteq> CHR '','') (group3_rev xs) = filter (\<lambda>c. c \<noteq> CHR '','') xs"
  by (induction xs rule: group3_rev.induct) simp_all

lemma group3_rev_set: "set (group3_rev xs) \<subseteq> insert (CHR '','') (set xs)"
  by (induction xs rule: group3_rev.induct) auto

text \<open>
  C5. \<open>extractNumber\<close> reads back a price written in the site's format: any label
  without digits, commas or dots, followed by the digits of \<open>n\<close> grouped by three with
  commas, gives the number \<open>n\<close>.
\<close>

theorem emasku_extractNumber_grouped:
  assumes "\<forall>c\<in>set p. \<not> is_digit c \<and> c \<noteq> CHR '','' \<and> c \<noteq> CHR ''.''"
  shows "emasku_extractNumber (p @ group_thousands (show_nat n)) = JNum (of_nat n)"
proof -
  let ?g = "group_thousands (show_nat n)"
  have keep: "\<forall>c\<in>set ?g. is_digit c \<or> c = CHR '',''"
    using group3_rev_set [of "rev (show_nat n)"] show_nat_digits [of n]
    by (auto simp: group_thousands_def)
  have "filter (\<lambda>c. is_digit c \<or> c = CHR '','' \<or> c = CHR ''.'') (p @ ?g) = ?g"
    using assms keep by (auto simp: filter_empty_conv filter_id_conv)
  moreover have "filter (\<lambda>c. c \<noteq> CHR '','') ?g = show_nat n"
    using show_nat_digits [of n]
    by (simp add: group_thousands_def rev_filter [symmetric] group3_rev_filter filter_id_conv digit_not_space_sign)
  ultimately show ?thesis
    by (simp add: emasku_extractNumber_def parse_int10_digits show_nat_not_Nil show_nat_digits digits_val_show_nat)
qed

theorem emasku_extractNumber_grouped_witness:
  "emasku_extractNumber (''IDR '' @ group_thousands (show_nat 1874000)) = JNum 1874000"
proof -
  have h: "\<forall>c\<in>set ''IDR ''. \<not> is_digit c \<and> c \<noteq> CHR '','' \<and> c \<noteq> CHR ''.''"
    by (simp add: is_digit_def less_eq_char_def)
  show ?thesis using emasku_extractNumber_grouped [OF h, of 1874000] by simp
qed

text \<open>
  A price written with dots as thousands separators, the usual Indonesian format,
  is read as the digits before the first dot.
\<close>

lemma emasku_extractNumber_no_digits:
  assumes "\<forall>c\<in>set t. \<not> is_digit c"
  shows "emasku_extractNumber t = JNaN"
proof -
  define u where "u = filter (\<lambda>c. c \<noteq> CHR '','') (filter (\<lambda>c. is_digit c \<or> c = CHR '','' \<or> c = CHR ''.'') t)"
  have u: "\<forall>c\<in>set u. c = CHR ''.''" using assms by (auto simp: u_def)
  have sp: "\<not> is_space (CHR ''.'')" "\<not> is_digit (CHR ''.'')" by (simp_all add: is_space_def is_digit_def)
  have "parse_int10 u = JNaN"
  proof (cases u)
    case Nil
    then show ?thesis by (simp add: parse_int10_def)
  next
    case (Cons x xs)
    with u have "x = CHR ''.''" by simp
    with Cons sp show ?thesis by (simp add: parse_int10_def Let_def)
  qed
  then show ?thesis by (simp add: emasku_extractNumber_def u_def)
qed

theorem emasku_extractNumber_dot_grouping: "emasku_extractNumber ''1.874.000'' = JNum 1"
  by (simp add: emasku_extractNumber_def parse_int10_def is_digit_def is_space_def digits_val_def digit_val_def)

subsection \<open>The table scan\<close>

text \<open>
  When the scan yields a reading, it comes from a row that has five cells and the
  first cell \<open>1 gr\<close>, preceded somewhere by a row containing \<open>REGULAR\<close>; the buy and
  sell prices are the numbers extracted from the third and fifth cells, and neither
  compares \<open><= 0\<close>.
\<close>

theorem emasku_scan_Some:
  assumes "emasku_scan found rows = Inr (f, Some e)"
  shows "\<exists>pre r post. rows = pre @ r # post
     \<and> (found \<or> (\<exists>x\<in>set pre. str_includes ''REGULAR'' (tr_text x)))
     \<and> first_td r = ''1 gr'' \<and> 5 \<le> length (tds r)
     \<and> e = \<lparr>e_buy = emasku_extractNumber (tds r ! 2), e_sell = emasku_extractNumber (tds r ! 4)\<rparr>
     \<and> \<not> js_le (e_buy e) (JNum 0) \<and> \<not> js_le (e_sell e) (JNum 0)"
  using assms
proof (induction found rows rule: emasku_scan.induct)
  case (1 found)
  then show ?case by simp
next
  case (2 found r rs)
  show ?case
  proof (cases "str_includes ''REGULAR'' (tr_text r)")
    case True
    with "2.prems" have "emasku_scan True rs = Inr (f, Some e)" by simp
    with "2.IH"(1) True obtain pre x post where
      rs: "rs = pre @ x # post" and
      P: "first_td x = ''1 gr'' \<and> 5 \<le> length (tds x)
       \<and> e = \<lparr>e_buy = emasku_extractNumber (tds x ! 2), e_sell = emasku_extractNumber (tds x ! 4)\<rparr>
       \<and> \<not> js_le (e_buy e) (JNum 0) \<and> \<not> js_le (e_sell e) (JNum 0)"
      by blast
    from rs have "r # rs = (r # pre) @ x # post" by simp
    with P True show ?thesis by (metis list.set_intros(1))
  next
    case NoReg: False
    show ?thesis
    proof (cases "found \<and> first_td r = ''1 gr'' \<and> 5 \<le> length (tds r)")
      case True
      with NoReg "2.prems" have
        P: "e = \<lparr>e_buy = emasku_extractNumber (tds r ! 2), e_sell = emasku_extractNumber (tds r ! 4)\<rparr>
          \<and> \<not> js_le (e_buy e) (JNum 0) \<and> \<not> js_le (e_sell e) (JNum 0)"
        by (auto simp: Let_def split: if_splits)
      have "r # rs = [] @ r # rs" by simp
      with P True show ?thesis by blast
    next
      case False
      with NoReg "2.prems" have "emasku_scan found rs = Inr (f, Some e)" by simp
      with "2.IH"(2) NoReg False obtain pre x post where
        rs: "rs = pre @ x # post" and F: "found \<or> (\<exists>y\<in>set pre. str_includes ''REGULAR'' (tr_text y))"
        and P: "first_td x = ''1 gr'' \<and> 5 \<le> length (tds x)
       \<and> e = \<lparr>e_buy = emasku_extractNumber (tds x ! 2), e_sell = emasku_extractNumber (tds x ! 4)\<rparr>
       \<and> \<not> js_le (e_buy e) (JNum 0) \<and> \<not> js_le (e_sell e) (JNum 0)"
        by blast
      from rs have "r # rs = (r # pre) @ x # post" by simp
      moreover from F have "found \<or> (\<exists>y\<in>set (r # pre). str_includes ''REGULAR'' (tr_text y))" by auto
      ultimately show ?thesis using P by blast
    qed
  qed
qed

text \<open>The scan applied to \<open>nan_sell_page\<close> yields the reading of its second row.\<close>

theorem emasku_scan_Some_witness:
  "emasku_scan False (the nan_sell_page) = Inr (True, Some \<lparr>e_buy = JNum 1874000, e_sell = JNaN\<rparr>)
   \<and> (\<exists>pre r post. the nan_sell_page = pre @ r # post
     \<and> (False \<or> (\<exists>x\<in>set pre. str_includes ''REGULAR'' (tr_text x)))
     \<and> first_td r = ''1 gr'' \<and> 5 \<le> length (tds r)
     \<and> \<lparr>e_buy = JNum 1874000, e_sell = JNaN\<rparr> = \<lparr>e_buy = emasku_extractNumber (tds r ! 2), e_sell = emasku_extractNumber (tds r ! 4)\<rparr>
     \<and> \<not> js_le (JNum 1874000) (JNum 0) \<and> \<not> js_le JNaN (JNum 0))"
proof -
  have h: "emasku_scan False (the nan_sell_page) = Inr (True, Some \<lparr>e_buy = JNum 1874000, e_sell = JNaN\<rparr>)"
    by (simp add: nan_sell_page_def first_td_def emasku_extractNumber_def parse_int10_def is_digit_def
      is_space_def digits_val_def digit_val_def Let_def js_simps)
  show ?thesis using h emasku_scan_Some [OF h] by simp
qed

subsection \<open>The update\<close>

lemma nan_sell_page_update:
  "emasku_updateGoldPrices now (HttpOk nan_sell_page) d
   = Inr (\<lparr>e_buy = JNum 1874000, e_sell = JNaN\<rparr>,
          d\<lparr>goldPrices := goldPrices d @ [\<lparr>gp_id = seq_gold d, date = now, buyPrice = Dec 1874000,
             sellPrice = DecNaN, pricePerGram = Dec 1874000, source = ''Emasku'', highPrice = None,
             lowPrice = None\<rparr>], seq_gold := Suc (seq_gold d)\<rparr>)"
proof -
  have r: "round2 1874000 = 1874000" by (rule round2_exact [of _ 187400000]) simp
  show ?thesis
    by (simp add: emasku_updateGoldPrices_def emasku_fetchGoldPrices_def emasku_fetchPage_def nan_sell_page_def
      emasku_parseGoldPrices_def first_td_def emasku_extractNumber_def parse_int10_def is_digit_def
      is_space_def digits_val_def digit_val_def insertGoldPrice_def column_numeric_def Let_def
      column_numeric_opt_def numeric_of_js_def numeric_fits_def emasku_row_def r js_simps)
qed

text \<open>
  C6. A sell price without digits is not rejected: \<open>parseInt\<close> gives \<open>NaN\<close>, the
  check \<open>sellPrice <= 0\<close> is false for \<open>NaN\<close>, and \<open>updateGoldPrices\<close> stores a row
  whose sell price is \<open>NaN\<close>. This holds for every table whose REGULAR header is
  followed by a 1-gram row with five cells, a valid buy price and a sell cell without
  digits (such as \<open>-\<close> for a price the site does not quote).
\<close>

theorem emasku_update_stores_nan_sell:
  assumes "str_includes ''REGULAR'' (tr_text hdr)" and "\<not> str_includes ''REGULAR'' (tr_text r)"
    and "first_td r = ''1 gr''" and "5 \<le> length (tds r)"
    and "emasku_extractNumber (tds r ! 2) = JNum (of_nat n)" and "0 < n" and "n < 10 ^ 8"
    and "\<forall>c\<in>set (tds r ! 4). \<not> is_digit c"
  shows "emasku_updateGoldPrices now (HttpOk (Some (hdr # r # rs))) d
   = Inr (\<lparr>e_buy = JNum (of_nat n), e_sell = JNaN\<rparr>,
          d\<lparr>goldPrices := goldPrices d @ [\<lparr>gp_id = seq_gold d, date = now, buyPrice = Dec (of_nat n),
             sellPrice = DecNaN, pricePerGram = Dec (of_nat n), source = ''Emasku'', highPrice = None,
             lowPrice = None\<rparr>], seq_gold := Suc (seq_gold d)\<rparr>)"
proof -
  have s: "emasku_extractNumber (tds r ! 4) = JNaN" using assms(8) by (rule emasku_extractNumber_no_digits)
  have scan: "emasku_scan False (hdr # r # rs) = Inr (True, Some \<lparr>e_buy = JNum (of_nat n), e_sell = JNaN\<rparr>)"
    using assms(1-6) s by (simp add: Let_def js_simps)
  have "\<bar>of_nat n :: rat\<bar> < 10 ^ 8" using assms(7) by (simp add: of_nat_less_iff [symmetric])
  then have c: "column_numeric c (JNum (of_nat n)) = Inr (Dec (of_nat n))" for c
    using column_numeric_JNum [of "of_nat n" c] round2_of_int [of "int n"] by simp
  have p: "emasku_parseGoldPrices (Some (hdr # r # rs)) = Inr \<lparr>e_buy = JNum (of_nat n), e_sell = JNaN\<rparr>"
    using scan by (simp add: emasku_parseGoldPrices_def del: emasku_scan.simps)
  show ?thesis using assms(6)
    unfolding emasku_updateGoldPrices_def emasku_fetchGoldPrices_def emasku_fetchPage_def
    by (simp add: p insertGoldPrice_def c column_numeric_JNaN emasku_row_def column_numeric_opt_def Let_def)
qed

theorem emasku_update_stores_nan_sell_witness:
  "emasku_updateGoldPrices 0 (HttpOk nan_sell_page) empty_db
   = Inr (\<lparr>e_buy = JNum 1874000, e_sell = JNaN\<rparr>,
          empty_db\<lparr>goldPrices := [\<lparr>gp_id = 1, date = 0, buyPrice = Dec 1874000, sellPrice = DecNaN,
             pricePerGram = Dec 1874000, source = ''Emasku'', highPrice = None, lowPrice = None\<rparr>],
             seq_gold := 2\<rparr>)"
proof -
  have b: "emasku_extractNumber ''1,874,000'' = JNum (of_nat 1874000)"
    by (simp add: emasku_extractNumber_def parse_int10_def is_digit_def is_space_def digits_val_def digit_val_def)
  show ?thesis
    using emasku_update_stores_nan_sell [of "\<lparr>tr_text = ''REGULAR'', tds = []\<rparr>"
      "\<lparr>tr_text = ''1 gr Rp. 1,874,000 Rp. -'', tds = [''1 gr'', ''Rp.'', ''1,874,000'', ''Rp.'', ''-'']\<rparr>"
      1874000 0 "[]" empty_db] b
    by (simp add: nan_sell_page_def first_td_def empty_db_def is_digit_def)
qed

text \<open>
  C7. A successful Emasku update appends exactly one row to \<open>gold_prices\<close>, dated now,
  with source \<open>Emasku\<close> and the buy price as its price per gram, and leaves the alert
  and log tables unchanged.
\<close>

theorem emasku_update_appends_row:
  assumes "emasku_updateGoldPrices now r d = Inr (e, d')"
  shows "\<exists>row. goldPrices d' = goldPrices d @ [row] \<and> date row = now \<and> source row = ''Emasku''
     \<and> pricePerGram row = buyPrice row \<and> priceAlerts d' = priceAlerts d
     \<and> notificationLogs d' = notificationLogs d"
proof -
  from assms obtain row where ins: "insertGoldPrice (emasku_row now e) d = Inr (row, d')"
    by (auto simp: emasku_updateGoldPrices_def split: if_splits sum.splits)
  then show ?thesis using insertGoldPrice_Inr [OF ins] by (auto simp: emasku_row_def column_numeric_Inr_iff)
qed

theorem emasku_update_appends_row_witness:
  "\<exists>row. goldPrices (empty_db\<lparr>goldPrices := [\<lparr>gp_id = 1, date = 0, buyPrice = Dec 1874000, sellPrice = DecNaN,
             pricePerGram = Dec 1874000, source = ''Emasku'', highPrice = None, lowPrice = None\<rparr>],
             seq_gold := 2\<rparr>) = goldPrices empty_db @ [row] \<and> date row = 0 \<and> source row = ''Emasku''
     \<and> pricePerGram row = buyPrice row"
  using emasku_update_appends_row [OF nan_sell_page_update [of 0 empty_db]] by (simp add: empty_db_def)

end
