(* ===== verification/PriceCache.thy ===== *)
theory PriceCache
  imports Prelude
begin

text \<open>
  The fifteen-minute memo that \<open>PegadaianScraper.fetchGoldPrices\<close> and
  \<open>MetalPriceAPI.fetchGoldPrice\<close> keep in two fields of the scraper object
  (\<open>lastScrapeTime\<close>/\<open>lastFetchTime\<close> and \<open>lastData\<close>). A call returns the stored
  reading when both fields are set and less than fifteen minutes have passed since the
  stored time; otherwise it performs the request, and only a successful one overwrites
  both fields. The result carries whether the network was used. The request and
  parsing of each source are the parameter \<open>live\<close>: the outcome the call would get.
\<close>

record 'a ttl_cache =
  lastScrapeTime :: "timestamp option"
  lastData :: "'a option"

definition empty_cache :: "'a ttl_cache" where
  "empty_cache = \<lparr>lastScrapeTime = None, lastData = None\<rparr>"

definition cache_ttl :: int where
  "cache_ttl = 15 * 60 * 1000"

text \<open>\<open>this.lastScrapeTime && now - this.lastScrapeTime < 15 * 60 * 1000 && this.lastData\<close>.\<close>

definition cache_fresh :: "timestamp \<Rightarrow> 'a ttl_cache \<Rightarrow> 'a option" where
  "cache_fresh now c =
     (case (lastScrapeTime c, lastData c) of
        (Some t, Some d) \<Rightarrow> if now - t < cache_ttl then Some d else None
      | _ \<Rightarrow> None)"

definition ttl_fetch :: "timestamp \<Rightarrow> 'e + 'a \<Rightarrow> 'a ttl_cache \<Rightarrow> ('e + 'a) \<times> 'a ttl_cache \<times> bool" where
  "ttl_fetch now live c =
     (case cache_fresh now c of
        Some d \<Rightarrow> (Inr d, c, False)
      | None \<Rightarrow>
          (case live of
             Inl e \<Rightarrow> (Inl e, c, True)
           | Inr d \<Rightarrow> (Inr d, \<lparr>lastScrapeTime = Some now, lastData = Some d\<rparr>, True)))"

text \<open>A sequence of calls, each at its time with the outcome its request would have.\<close>

fun ttl_run :: "'a ttl_cache \<Rightarrow> (timestamp \<times> ('e + 'a)) list \<Rightarrow> ('e + 'a) list \<times> 'a ttl_cache \<times> nat" where
  "ttl_run c [] = ([], c, 0)"
| "ttl_run c ((t, live) # calls) =
     (case ttl_fetch t live c of
        (r, c', net) \<Rightarrow>
          (case ttl_run c' calls of
             (rs, c'', n) \<Rightarrow> (r # rs, c'', (if net then Suc n else n))))"

section \<open>Lemmas\<close>

lemma ttl_fetch_hit:
  "cache_fresh now c = Some d \<Longrightarrow> ttl_fetch now live c = (Inr d, c, False)"
  by (simp add: ttl_fetch_def)

lemma ttl_fetch_miss:
  "cache_fresh now c = None \<Longrightarrow>
   ttl_fetch now live c = (case live of Inl e \<Rightarrow> (Inl e, c, True)
      | Inr d \<Rightarrow> (Inr d, \<lparr>lastScrapeTime = Some now, lastData = Some d\<rparr>, True))"
  by (simp add: ttl_fetch_def)

lemma cache_fresh_stored:
  "0 \<le> t1 - t0 \<Longrightarrow> t1 - t0 < cache_ttl \<Longrightarrow>
   cache_fresh t1 \<lparr>lastScrapeTime = Some t0, lastData = Some d\<rparr> = Some d"
  by (simp add: cache_fresh_def)

lemma cache_fresh_expired:
  "lastScrapeTime c = Some t \<Longrightarrow> cache_ttl \<le> now - t \<Longrightarrow> cache_fresh now c = None"
  by (simp add: cache_fresh_def split: option.split)

lemma ttl_run_within:
  assumes "\<forall>(t, l)\<in>set calls. 0 \<le> t - t0 \<and> t - t0 < cache_ttl"
  shows "ttl_run \<lparr>lastScrapeTime = Some t0, lastData = Some d\<rparr> calls
     = (replicate (length calls) (Inr d), \<lparr>lastScrapeTime = Some t0, lastData = Some d\<rparr>, 0)"
  using assms
proof (induction calls)
  case Nil
  then show ?case by simp
next
  case (Cons c calls)
  obtain t l where c: "c = (t, l)" by (cases c)
  with Cons.prems have "0 \<le> t - t0" "t - t0 < cache_ttl" by auto
  then have "ttl_fetch t l \<lparr>lastScrapeTime = Some t0, lastData = Some d\<rparr>
      = (Inr d, \<lparr>lastScrapeTime = Some t0, lastData = Some d\<rparr>, False)"
    by (simp add: ttl_fetch_hit cache_fresh_stored)
  with Cons c show ?case by simp
qed

section \<open>Properties\<close>

text \<open>
  C8. Within the time to live, one request serves every caller: after a successful
  request at \<open>t0\<close> on a cache with nothing fresh, any later calls within fifteen minutes
  of \<open>t0\<close> return the same reading, whatever their own request would have given, and the
  whole sequence uses the network exactly once.
\<close>

theorem ttl_run_single_request:
  assumes "cache_fresh t0 c = None"
    and "\<forall>(t, l)\<in>set calls. 0 \<le> t - t0 \<and> t - t0 < cache_ttl"
  shows "ttl_run c ((t0, Inr d) # calls)
     = (Inr d # replicate (length calls) (Inr d), \<lparr>lastScrapeTime = Some t0, lastData = Some d\<rparr>, 1)"
  using assms by (simp add: ttl_fetch_miss ttl_run_within)

theorem ttl_run_single_request_witness:
  "ttl_run (empty_cache :: nat ttl_cache) [(0, Inr 7), (60000, Inl ()), (899999, Inr 8)]
     = ([Inr 7, Inr 7, Inr 7], \<lparr>lastScrapeTime = Some 0, lastData = Some 7\<rparr>, 1)"
proof -
  have h1: "cache_fresh 0 (empty_cache :: nat ttl_cache) = None"
    by (simp add: cache_fresh_def empty_cache_def)
  have h2: "\<forall>(t, l)\<in>set [(60000 :: int, Inl () :: unit + nat), (899999, Inr 8)]. 0 \<le> t - 0 \<and> t - 0 < cache_ttl"
    by (simp add: cache_ttl_def)
  show ?thesis using ttl_run_single_request [OF h1 h2] by simp
qed

text \<open>
  Once fifteen minutes have passed since the stored time, a call goes to the
  network again: it returns what the request gives, stores it when it succeeds, and
  leaves the old entry in place when it fails.
\<close>

theorem ttl_fetch_expired:
  assumes "lastScrapeTime c = Some t" and "cache_ttl \<le> now - t"
  shows "ttl_fetch now live c = (live, (case live of Inl _ \<Rightarrow> c
            | Inr d \<Rightarrow> \<lparr>lastScrapeTime = Some now, lastData = Some d\<rparr>), True)"
  using cache_fresh_expired [OF assms] by (simp add: ttl_fetch_miss split: sum.split)

theorem ttl_fetch_expired_witness:
  "ttl_fetch 900000 (Inl () :: unit + nat) \<lparr>lastScrapeTime = Some 0, lastData = Some 7\<rparr>
     = (Inl (), \<lparr>lastScrapeTime = Some 0, lastData = Some 7\<rparr>, True)"
proof -
  have h1: "lastScrapeTime \<lparr>lastScrapeTime = Some (0::int), lastData = Some (7::nat)\<rparr> = Some 0" by simp
  have h2: "cache_ttl \<le> 900000 - 0" by (simp add: cache_ttl_def)
  show ?thesis using ttl_fetch_expired [OF h1 h2, of "Inl ()"] by simp
qed

end
