(* ===== verification/Pegadaian.thy ===== *)
theory Pegadaian
  imports Emasku PriceCache
begin

text \<open>
  The second price source, \<open>PegadaianScraper\<close> of \<open>src/server/pegadaian-scraper.js\<close>:
  the number extraction, the parse with its fallbacks (buy price from the price per
  gram, sell price at 91.5\% of it), the fifteen-minute memo of \<open>PriceCache\<close>, the
  update with its null checks, and \<open>checkPriceAlerts\<close>, which the hourly tick uses to
  choose the alerts to notify after a Pegadaian or a metals.live update.
  The page is given by the texts of the five cheerio selectors whose values reach the
  database (the date text is parsed but never stored), before \<open>.trim()\<close>.
  Division of \<open>js_div\<close> by zero is \<open>NaN\<close> here where JavaScript gives \<open>Infinity\<close>.
\<close>

section \<open>Page and errors\<close>

record peg_page =
  pg_perGram :: string
  pg_buy :: string
  pg_sell :: string
  pg_high :: string
  pg_low :: string

datatype pegadaian_error = PegFetchFailed | PegInvalidData | PegStorageError db_error

section \<open>extractNumber and parseGoldPrices\<close>

text \<open>\<open>null\<close> for an empty text or a text without digits; otherwise the digits read as one number.\<close>

definition peg_extractNumber :: "string \<Rightarrow> jsval" where
  "peg_extractNumber t =
     (if t = [] then JNull
      else let ds = filter is_digit t in if ds = [] then JNull else parse_int10 ds)"

record peg_data =
  pd_pricePerGram :: jsval
  pd_buyPrice :: jsval
  pd_sellPrice :: jsval
  pd_highPrice :: jsval
  pd_lowPrice :: jsval

definition peg_parseGoldPrices :: "peg_page \<Rightarrow> peg_data" where
  "peg_parseGoldPrices p =
     (let g = peg_extractNumber (trim (pg_perGram p));
          hi = trim (pg_high p); lo = trim (pg_low p)
      in \<lparr>pd_pricePerGram = g,
          pd_buyPrice = js_or (peg_extractNumber (trim (pg_buy p))) g,
          pd_sellPrice = js_or (peg_extractNumber (trim (pg_sell p))) (js_mul g (JNum (915 / 1000))),
          pd_highPrice = (if hi \<noteq> [] then peg_extractNumber hi else JUndefined),
          pd_lowPrice = (if lo \<noteq> [] then peg_extractNumber lo else JUndefined)\<rparr>)"

text \<open>\<open>fetchPage\<close> followed by the parse: the outcome the memoised call would get.\<close>

definition peg_live :: "peg_page http_result \<Rightarrow> pegadaian_error + peg_data" where
  "peg_live r = (case r of HttpOk p \<Rightarrow> Inr (peg_parseGoldPrices p) | _ \<Rightarrow> Inl PegFetchFailed)"

definition peg_fetchGoldPrices ::
  "timestamp \<Rightarrow> peg_page http_result \<Rightarrow> peg_data ttl_cache \<Rightarrow>
   (pegadaian_error + peg_data) \<times> peg_data ttl_cache \<times> bool" where
  "peg_fetchGoldPrices now r c = ttl_fetch now (peg_live r) c"

section \<open>updateGoldPrices\<close>

text \<open>\<open>x ? x.toString() : null\<close> for the optional columns.\<close>

definition peg_row :: "timestamp \<Rightarrow> peg_data \<Rightarrow> gold_price_in" where
  "peg_row now g =
     \<lparr>in_date = now, in_buyPrice = pd_buyPrice g, in_sellPrice = pd_sellPrice g,
      in_pricePerGram = pd_pricePerGram g, in_source = ''pegadaian'',
      in_highPrice = (if truthy (pd_highPrice g) then pd_highPrice g else JNull),
      in_lowPrice = (if truthy (pd_lowPrice g) then pd_lowPrice g else JNull)\<rparr>"

definition peg_updateGoldPrices ::
  "timestamp \<Rightarrow> peg_page http_result \<Rightarrow> peg_data ttl_cache \<Rightarrow> db \<Rightarrow>
   (pegadaian_error + gold_price) \<times> peg_data ttl_cache \<times> db" where
  "peg_updateGoldPrices now r c d =
     (case peg_fetchGoldPrices now r c of
        (Inl e, c', _) \<Rightarrow> (Inl e, c', d)
      | (Inr g, c', _) \<Rightarrow>
          if pd_buyPrice g = JNull \<or> pd_sellPrice g = JNull \<or> pd_pricePerGram g = JNull
          then (Inl PegInvalidData, c', d)
          else (case insertGoldPrice (peg_row now g) d of
                  Inl e \<Rightarrow> (Inl (PegStorageError e), c', d)
                | Inr (row, d') \<Rightarrow> (Inr row, c', d')))"

section \<open>checkPriceAlerts\<close>

text \<open>
  \<open>parseFloat(alert.targetPrice)\<close>: a \<open>null\<close> target reads as \<open>NaN\<close>. An alert is
  chosen when it is not a daily summary, both numbers are not \<open>NaN\<close>, and the price
  per gram is at least the target for an increase alert or at most the target for a
  decrease alert. There is no frequency check and no check of \<open>lastTriggered\<close>.
\<close>

definition alert_target :: "price_alert \<Rightarrow> rat option" where
  "alert_target a = (case targetPrice a of None \<Rightarrow> None | Some d \<Rightarrow> parse_numeric d)"

definition alert_fires :: "rat option \<Rightarrow> price_alert \<Rightarrow> bool" where
  "alert_fires cur a \<longleftrightarrow>
     alertType a \<noteq> ''daily'' \<and>
     (case (alert_target a, cur) of
        (Some t, Some p) \<Rightarrow> (alertType a = ''increase'' \<and> t \<le> p) \<or> (alertType a = ''decrease'' \<and> p \<le> t)
      | _ \<Rightarrow> False)"

text \<open>\<open>None\<close> is the early \<open>return []\<close> when no price is stored.\<close>

definition peg_checkPriceAlerts :: "timestamp \<Rightarrow> db \<Rightarrow> (price_alert list \<times> current_price) option" where
  "peg_checkPriceAlerts now d =
     (case getCurrentGoldPrice now d of
        None \<Rightarrow> None
      | Some cur \<Rightarrow> Some (filter (alert_fires (parse_numeric (pricePerGram cur))) (getPriceAlerts d), cur))"

section \<open>Example data\<close>

definition ex_page :: peg_page where
  "ex_page = \<lparr>pg_perGram = '' Rp 1.058.000 '', pg_buy = [], pg_sell = [], pg_high = [], pg_low = []\<rparr>"

definition zero_page :: peg_page where
  "zero_page = \<lparr>pg_perGram = ''Rp 0'', pg_buy = [], pg_sell = [], pg_high = [], pg_low = []\<rparr>"

definition blank_page :: peg_page where
  "blank_page = \<lparr>pg_perGram = [], pg_buy = [], pg_sell = [], pg_high = [], pg_low = []\<rparr>"

section \<open>Lemmas\<close>

lemma alert_fires_lastTriggered [simp]: "alert_fires p (a\<lparr>lastTriggered := x\<rparr>) = alert_fires p a"
  by (simp add: alert_fires_def alert_target_def split: option.split)

lemma peg_checkPriceAlerts_Some:
  "peg_checkPriceAlerts now d = Some (al, cur) \<longleftrightarrow>
   getCurrentGoldPrice now d = Some cur \<and> al = filter (alert_fires (parse_numeric (pricePerGram cur))) (getPriceAlerts d)"
  by (auto simp: peg_checkPriceAlerts_def split: option.split)

lemma peg_extractNumber_nodigits:
  "filter is_digit t = [] \<Longrightarrow> peg_extractNumber (trim t) = JNull"
  by (simp add: peg_extractNumber_def filter_digit_trim)

lemma peg_extractNumber_digits:
  assumes "filter is_digit t = ds" and "ds \<noteq> []"
  shows "peg_extractNumber (trim t) = JNum (of_nat (digits_val ds))"
proof -
  have "trim t \<noteq> []" using assms filter_digit_trim [of t] by auto
  moreover have "\<forall>c\<in>set ds. is_digit c" using assms(1) by auto
  ultimately show ?thesis using assms by (simp add: peg_extractNumber_def filter_digit_trim parse_int10_digits)
qed

lemma peg_update_miss:
  "cache_fresh now c = None \<Longrightarrow>
   peg_updateGoldPrices now (HttpOk p) c d =
     (let g = peg_parseGoldPrices p; c' = \<lparr>lastScrapeTime = Some now, lastData = Some g\<rparr> in
      if pd_buyPrice g = JNull \<or> pd_sellPrice g = JNull \<or> pd_pricePerGram g = JNull
      then (Inl PegInvalidData, c', d)
      else (case insertGoldPrice (peg_row now g) d of
              Inl e \<Rightarrow> (Inl (PegStorageError e), c', d)
            | Inr (row, d') \<Rightarrow> (Inr row, c', d')))"
  by (simp add: peg_updateGoldPrices_def peg_fetchGoldPrices_def ttl_fetch_miss peg_live_def Let_def)

lemma peg_update_hit:
  "cache_fresh now c = Some g \<Longrightarrow>
   peg_updateGoldPrices now r c d =
      (if pd_buyPrice g = JNull \<or> pd_sellPrice g = JNull \<or> pd_pricePerGram g = JNull
      then (Inl PegInvalidData, c, d)
      else (case insertGoldPrice (peg_row now g) d of
              Inl e \<Rightarrow> (Inl (PegStorageError e), c, d)
            | Inr (row, d') \<Rightarrow> (Inr row, c, d')))"
  by (simp add: peg_updateGoldPrices_def peg_fetchGoldPrices_def ttl_fetch_hit)

lemma peg_parse_fallback:
  assumes "filter is_digit (pg_perGram p) = ds" and "ds \<noteq> []"
    and "filter is_digit (pg_buy p) = []" and "filter is_digit (pg_sell p) = []"
    and "trim (pg_high p) = []" and "trim (pg_low p) = []"
    and "0 < digits_val ds"
  shows "peg_parseGoldPrices p =
     \<lparr>pd_pricePerGram = JNum (of_nat (digits_val ds)), pd_buyPrice = JNum (of_nat (digits_val ds)),
      pd_sellPrice = JNum (of_nat (digits_val ds) * 915 / 1000),
      pd_highPrice = JUndefined, pd_lowPrice = JUndefined\<rparr>"
  using assms by (simp add: peg_parseGoldPrices_def Let_def peg_extractNumber_digits
      peg_extractNumber_nodigits js_or_def js_mul_def num_val_def)

lemma ex_current:
  "peg_checkPriceAlerts 0 ex_db
     = Some ([ex_alert], gold_price.extend ex_gp (current_price.fields (Some 0) (Some 0) (Some 0)))"
  by (simp add: peg_checkPriceAlerts_def getCurrentGoldPrice_def latest_gold_price_def ex_db_def
      getPriceAlerts_def alert_fires_def alert_target_def ex_alert_def ex_gp_def parse_numeric_Dec
      scaled2_def empty_db_def day_start_def gold_price.defs)

section \<open>Properties\<close>

text \<open>
  C9. The alert evaluation of the hourly tick compares at the boundary inclusively: for
  stored (two-decimal) values, an active increase alert is chosen exactly when the price
  per gram is at least its target, and a decrease alert exactly when it is at most its
  target; an alert whose target equals the price fires. This is the boundary rule of the
  specification, but not what the client tells the user: the alert form says the alert
  fires when the price "exceeds" or "falls below" the target, and the alert lists show
  \<open>Alert when >\<close> and \<open>Alert when <\<close>.
\<close>

theorem peg_checkPriceAlerts_threshold:
  assumes "peg_checkPriceAlerts now d = Some (al, cur)"
    and "pricePerGram cur = Dec p" and "scaled2 p"
    and "a \<in> set (getPriceAlerts d)" and "targetPrice a = Some (Dec t)" and "scaled2 t"
  shows "a \<in> set al \<longleftrightarrow> (alertType a = ''increase'' \<and> t \<le> p) \<or> (alertType a = ''decrease'' \<and> p \<le> t)"
  using assms by (auto simp: peg_checkPriceAlerts_Some alert_fires_def alert_target_def parse_numeric_Dec)

theorem peg_checkPriceAlerts_threshold_witness:
  "ex_alert \<in> set [ex_alert] \<longleftrightarrow>
     (alertType ex_alert = ''increase'' \<and> (1058000::rat) \<le> 1058000)
     \<or> (alertType ex_alert = ''decrease'' \<and> (1058000::rat) \<le> 1058000)"
proof -
  have h1: "pricePerGram (gold_price.extend ex_gp (current_price.fields (Some 0) (Some 0) (Some 0))) = Dec 1058000"
    by (simp add: ex_gp_def gold_price.defs current_price.defs)
  have h2: "scaled2 1058000" by (simp add: scaled2_def)
  have h3: "ex_alert \<in> set (getPriceAlerts ex_db)"
    by (simp add: getPriceAlerts_def ex_db_def ex_alert_def)
  have h4: "targetPrice ex_alert = Some (Dec 1058000)" by (simp add: ex_alert_def)
  show ?thesis by (rule peg_checkPriceAlerts_threshold [OF ex_current h1 h2 h3 h4 h2])
qed

text \<open>
  C10. There is no frequency gate: an alert chosen at one tick is chosen again at any later
  tick, at any time, after its \<open>lastTriggered\<close> has been set, as long as no new price is
  stored.
\<close>

theorem peg_refires:
  assumes "peg_checkPriceAlerts now d = Some (al, cur)" and "a \<in> set al"
  shows "\<exists>al' cur'. peg_checkPriceAlerts now' (updateAlertLastTriggered (alert_id a) t d) = Some (al', cur')
           \<and> a\<lparr>lastTriggered := Some t\<rparr> \<in> set al'"
proof -
  let ?d = "updateAlertLastTriggered (alert_id a) t d"
  from assms(1) have cur: "getCurrentGoldPrice now d = Some cur"
    and al: "al = filter (alert_fires (parse_numeric (pricePerGram cur))) (getPriceAlerts d)"
    by (simp_all add: peg_checkPriceAlerts_Some)
  obtain cur' where cur': "getCurrentGoldPrice now' ?d = Some cur'"
    and tr: "gold_price.truncate cur' = gold_price.truncate cur"
    using getCurrentGoldPrice_Some [of ?d "gold_price.truncate cur" now'] getCurrentGoldPrice_latest [OF cur] by auto
  have pp: "pricePerGram cur' = pricePerGram cur"
    using arg_cong [OF tr, of pricePerGram] by (simp add: pricePerGram_truncate)
  from assms(2) al have "a \<in> set (priceAlerts d)" "active a = Some True"
    "alert_fires (parse_numeric (pricePerGram cur)) a" by (auto simp: set_getPriceAlerts)
  then have "a\<lparr>lastTriggered := Some t\<rparr> \<in> set (filter (alert_fires (parse_numeric (pricePerGram cur'))) (getPriceAlerts ?d))"
    by (auto simp: set_getPriceAlerts pp)
  with cur' show ?thesis by (simp add: peg_checkPriceAlerts_Some)
qed

theorem peg_refires_witness:
  "\<exists>al' cur'. peg_checkPriceAlerts 3600000 (updateAlertLastTriggered (alert_id ex_alert) 0 ex_db) = Some (al', cur')
      \<and> ex_alert\<lparr>lastTriggered := Some 0\<rparr> \<in> set al'"
  using peg_refires [OF ex_current, of ex_alert] by simp

text \<open>
  C11. A page from which no price per gram can be read is still cached: the update fails
  with invalid data, and every update in the next fifteen minutes fails the same way
  without fetching, whatever the site would return.
\<close>

theorem peg_invalid_cached:
  assumes "cache_fresh now c = None" and "filter is_digit (pg_perGram bad) = []"
    and "0 \<le> t - now" and "t - now < cache_ttl"
  defines "c' \<equiv> \<lparr>lastScrapeTime = Some now, lastData = Some (peg_parseGoldPrices bad)\<rparr>"
  shows "peg_updateGoldPrices now (HttpOk bad) c d = (Inl PegInvalidData, c', d)
       \<and> peg_updateGoldPrices t r c' d' = (Inl PegInvalidData, c', d')"
proof -
  have g: "pd_pricePerGram (peg_parseGoldPrices bad) = JNull"
    using assms(2) by (simp add: peg_parseGoldPrices_def Let_def peg_extractNumber_nodigits)
  have "cache_fresh t c' = Some (peg_parseGoldPrices bad)"
    unfolding c'_def using assms(3,4) by (rule cache_fresh_stored)
  with g assms(1) show ?thesis by (simp add: peg_update_miss peg_update_hit c'_def Let_def)
qed

theorem peg_invalid_cached_witness:
  "peg_updateGoldPrices 0 (HttpOk blank_page) empty_cache ex_db
      = (Inl PegInvalidData, \<lparr>lastScrapeTime = Some 0, lastData = Some (peg_parseGoldPrices blank_page)\<rparr>, ex_db)
   \<and> peg_updateGoldPrices 60000 (HttpOk ex_page)
      \<lparr>lastScrapeTime = Some 0, lastData = Some (peg_parseGoldPrices blank_page)\<rparr> ex_db
      = (Inl PegInvalidData, \<lparr>lastScrapeTime = Some 0, lastData = Some (peg_parseGoldPrices blank_page)\<rparr>, ex_db)"
proof -
  have "cache_fresh 0 (empty_cache :: peg_data ttl_cache) = None" by (simp add: cache_fresh_def empty_cache_def)
  moreover have "filter is_digit (pg_perGram blank_page) = []" by (simp add: blank_page_def)
  moreover have "0 \<le> (60000::int) - 0" "(60000::int) - 0 < cache_ttl" by (simp_all add: cache_ttl_def)
  ultimately show ?thesis by (rule peg_invalid_cached)
qed

text \<open>
  C12. When the page shows only the price per gram, the stored row takes it as the buy
  price, and 91.5\% of it, rounded to two decimals, as the sell price; high and low are
  \<open>NULL\<close>.
\<close>

theorem peg_update_sell_fallback:
  assumes "cache_fresh now c = None"
    and "filter is_digit (pg_perGram p) = ds" and "ds \<noteq> []"
    and "filter is_digit (pg_buy p) = []" and "filter is_digit (pg_sell p) = []"
    and "trim (pg_high p) = []" and "trim (pg_low p) = []"
    and "0 < digits_val ds" and "digits_val ds < 10 ^ 8"
  defines "n \<equiv> of_nat (digits_val ds) :: rat"
  shows "\<exists>row c'. peg_updateGoldPrices now (HttpOk p) c d
            = (Inr row, c', d\<lparr>goldPrices := goldPrices d @ [row], seq_gold := Suc (seq_gold d)\<rparr>)
         \<and> pricePerGram row = Dec n \<and> buyPrice row = Dec n \<and> sellPrice row = Dec (round2 (n * 915 / 1000))
         \<and> highPrice row = None \<and> lowPrice row = None \<and> source row = ''pegadaian''"
proof -
  have n: "0 < n" "n < 10 ^ 8" using assms(8,9) unfolding n_def by simp_all
  have rn: "round2 n = n" using round2_of_int [of "int (digits_val ds)"] by (simp add: n_def)
  have "0 \<le> round2 (n * 915 / 1000) \<and> round2 (n * 915 / 1000) \<le> n * 915 / 1000 + 1"
    using n by (intro round2_nonneg_le) simp
  moreover have "n * 915 / 1000 + 1 < 10 ^ 8" using n by simp
  ultimately have "\<bar>round2 (n * 915 / 1000)\<bar> < 10 ^ 8" by linarith
  then have "\<bar>round2 (183 * n / 200)\<bar> < 10 ^ 8" by simp
  then have s: "column_numeric ''sell_price'' (JNum (183 * n / 200)) = Inr (Dec (round2 (183 * n / 200)))"
    by (rule column_numeric_JNum)
  have pp: "peg_parseGoldPrices p = \<lparr>pd_pricePerGram = JNum n, pd_buyPrice = JNum n,
      pd_sellPrice = JNum (n * 915 / 1000), pd_highPrice = JUndefined, pd_lowPrice = JUndefined\<rparr>"
    unfolding n_def using assms(2-8) by (rule peg_parse_fallback)
  show ?thesis using assms(1) n
    by (simp add: peg_update_miss pp peg_row_def insertGoldPrice_def column_numeric_JNum rn s
        column_numeric_opt_def Let_def)
qed

theorem peg_update_sell_fallback_witness:
  "\<exists>row c'. peg_updateGoldPrices 0 (HttpOk ex_page) empty_cache ex_db
        = (Inr row, c', ex_db\<lparr>goldPrices := goldPrices ex_db @ [row], seq_gold := Suc (seq_gold ex_db)\<rparr>)
     \<and> pricePerGram row = Dec 1058000 \<and> buyPrice row = Dec 1058000
     \<and> sellPrice row = Dec (round2 (1058000 * 915 / 1000))
     \<and> highPrice row = None \<and> lowPrice row = None \<and> source row = ''pegadaian''"
proof -
  have ds: "filter is_digit (pg_perGram ex_page) = ''1058000''" by (simp add: ex_page_def is_digit_def)
  have v: "digits_val ''1058000'' = 1058000" by (simp add: digits_val_def digit_val_def)
  have "cache_fresh 0 (empty_cache :: peg_data ttl_cache) = None" by (simp add: cache_fresh_def empty_cache_def)
  moreover have "filter is_digit (pg_buy ex_page) = []" "filter is_digit (pg_sell ex_page) = []"
    "trim (pg_high ex_page) = []" "trim (pg_low ex_page) = []"
    by (simp_all add: ex_page_def trim_def)
  ultimately show ?thesis
    using peg_update_sell_fallback [OF _ ds, of 0 empty_cache ex_db] v by simp
qed

text \<open>
  A zero price is stored: a page whose price per gram reads 0 and shows no other
  price yields a row with price per gram, buy price and sell price all 0.
\<close>

theorem peg_update_zero_price:
  "\<exists>row c'. peg_updateGoldPrices now (HttpOk zero_page) empty_cache d
       = (Inr row, c', d\<lparr>goldPrices := goldPrices d @ [row], seq_gold := Suc (seq_gold d)\<rparr>)
     \<and> pricePerGram row = Dec 0 \<and> buyPrice row = Dec 0 \<and> sellPrice row = Dec 0"
proof -
  have "peg_extractNumber (trim ''Rp 0'') = JNum 0"
    using peg_extractNumber_digits [of "''Rp 0''" "''0''"] by (simp add: is_digit_def digits_val_def digit_val_def)
  then have "peg_parseGoldPrices zero_page = \<lparr>pd_pricePerGram = JNum 0, pd_buyPrice = JNum 0,
      pd_sellPrice = JNum 0, pd_highPrice = JUndefined, pd_lowPrice = JUndefined\<rparr>"
    by (simp add: peg_parseGoldPrices_def zero_page_def Let_def trim_def js_or_def js_mul_def num_val_def
        peg_extractNumber_def)
  moreover have "cache_fresh now (empty_cache :: peg_data ttl_cache) = None" by (simp add: cache_fresh_def empty_cache_def)
  ultimately show ?thesis
    by (simp add: peg_update_miss peg_row_def insertGoldPrice_def column_numeric_def numeric_of_js_def
        numeric_fits_def round2_def column_numeric_opt_def Let_def)
qed

end
