(* ===== verification/MetalPrice.thy ===== *)
theory MetalPrice
  imports Pegadaian
begin

text \<open>
  The third price source, \<open>MetalPriceAPI\<close> of \<open>src/server/metal-price-api.js\<close>: the
  JSON response of metals.live, the conversion from US dollars per troy ounce to rupiah
  per gram at the fixed rate of 15500, the 3\% spread on each side, the fifteen-minute
  memo (\<open>lastFetchTime\<close>, \<open>lastData\<close>, through \<open>PriceCache.ttl_fetch\<close>), the update and
  \<open>checkPriceAlerts\<close>. The response body is \<open>None\<close> when \<open>response.data\<close> is missing or
  not an array, and otherwise the list of the \<open>gold\<close> properties of its items
  (\<open>undefined\<close> where an item has none). Numbers are exact rationals here, where the code
  computes in binary floating point before \<open>Math.round\<close>.
\<close>

datatype metal_error =
  MetalFetchFailed | MetalInvalidFormat | MetalGoldNotFound | MetalInvalidData
  | MetalStorageError db_error

type_synonym metal_body = "jsval list option"

record metal_data =
  md_pricePerGram :: jsval
  md_buyPrice :: jsval
  md_sellPrice :: jsval
  md_highPrice :: jsval
  md_lowPrice :: jsval

definition USD_TO_IDR :: rat where
  "USD_TO_IDR = 15500"

definition TROY_OZ_TO_GRAM :: rat where
  "TROY_OZ_TO_GRAM = 311034768 / 10000000"

text \<open>\<open>Math.round((priceUSD * USD_TO_IDR) / TROY_OZ_TO_GRAM)\<close> and the two spreads.\<close>

definition metal_convert :: "jsval \<Rightarrow> metal_data" where
  "metal_convert priceUSD =
     (let g = js_round (js_div (js_mul priceUSD (JNum USD_TO_IDR)) (JNum TROY_OZ_TO_GRAM))
      in \<lparr>md_pricePerGram = g,
          md_buyPrice = js_round (js_mul g (JNum (97 / 100))),
          md_sellPrice = js_round (js_mul g (JNum (103 / 100))),
          md_highPrice = JNull, md_lowPrice = JNull\<rparr>)"

text \<open>The request and the checks after it: the outcome of a call that misses the cache.\<close>

definition metal_live :: "metal_body http_result \<Rightarrow> metal_error + metal_data" where
  "metal_live r =
     (case r of
        HttpOk None \<Rightarrow> Inl MetalInvalidFormat
      | HttpOk (Some items) \<Rightarrow>
          (case find truthy items of
             None \<Rightarrow> Inl MetalGoldNotFound
           | Some priceUSD \<Rightarrow> Inr (metal_convert priceUSD))
      | _ \<Rightarrow> Inl MetalFetchFailed)"

definition metal_fetchGoldPrice ::
  "timestamp \<Rightarrow> metal_body http_result \<Rightarrow> metal_data ttl_cache \<Rightarrow>
   (metal_error + metal_data) \<times> metal_data ttl_cache \<times> bool" where
  "metal_fetchGoldPrice now r c = ttl_fetch now (metal_live r) c"

definition metal_row :: "timestamp \<Rightarrow> metal_data \<Rightarrow> gold_price_in" where
  "metal_row now g =
     \<lparr>in_date = now, in_buyPrice = md_buyPrice g, in_sellPrice = md_sellPrice g,
      in_pricePerGram = md_pricePerGram g, in_source = ''metals.live'',
      in_highPrice = (if truthy (md_highPrice g) then md_highPrice g else JNull),
      in_lowPrice = (if truthy (md_lowPrice g) then md_lowPrice g else JNull)\<rparr>"

definition metal_updateGoldPrice ::
  "timestamp \<Rightarrow> metal_body http_result \<Rightarrow> metal_data ttl_cache \<Rightarrow> db \<Rightarrow>
   (metal_error + gold_price) \<times> metal_data ttl_cache \<times> db" where
  "metal_updateGoldPrice now r c d =
     (case metal_fetchGoldPrice now r c of
        (Inl e, c', _) \<Rightarrow> (Inl e, c', d)
      | (Inr g, c', _) \<Rightarrow>
          if md_buyPrice g = JNull \<or> md_sellPrice g = JNull \<or> md_pricePerGram g = JNull
          then (Inl MetalInvalidData, c', d)
          else (case insertGoldPrice (metal_row now g) d of
                  Inl e \<Rightarrow> (Inl (MetalStorageError e), c', d)
                | Inr (row, d') \<Rightarrow> (Inr row, c', d')))"

text \<open>The same loop as \<open>PegadaianScraper.checkPriceAlerts\<close>, written out again in the source.\<close>

definition metal_checkPriceAlerts :: "timestamp \<Rightarrow> db \<Rightarrow> (price_alert list \<times> current_price) option" where
  "metal_checkPriceAlerts now d =
     (case getCurrentGoldPrice now d of
        None \<Rightarrow> None
      | Some cur \<Rightarrow>
          Some (filter (\<lambda>a. alertType a \<noteq> ''daily'' \<and>
                  (case (alert_target a, parse_numeric (pricePerGram cur)) of
                     (Some t, Some p) \<Rightarrow> (alertType a = ''increase'' \<and> t \<le> p) \<or> (alertType a = ''decrease'' \<and> p \<le> t)
                   | _ \<Rightarrow> False)) (getPriceAlerts d), cur))"

section \<open>Lemmas\<close>

lemma metal_convert_num:
  assumes "to_number priceUSD = Some u"
  defines "p \<equiv> of_int \<lfloor>u * USD_TO_IDR / TROY_OZ_TO_GRAM + 1 / 2\<rfloor> :: rat"
  shows "metal_convert priceUSD =
    \<lparr>md_pricePerGram = JNum p, md_buyPrice = JNum (of_int \<lfloor>p * (97 / 100) + 1 / 2\<rfloor>),
     md_sellPrice = JNum (of_int \<lfloor>p * (103 / 100) + 1 / 2\<rfloor>), md_highPrice = JNull, md_lowPrice = JNull\<rparr>"
proof -
  have "js_mul priceUSD (JNum USD_TO_IDR) = JNum (u * USD_TO_IDR)"
    using assms(1) by (simp add: js_mul_def num_val_def)
  then show ?thesis
    by (simp add: metal_convert_def Let_def p_def js_arith_num TROY_OZ_TO_GRAM_def del: of_int_add)
qed

lemma round_spread:
  assumes "17 \<le> (p::rat)"
  shows "of_int \<lfloor>p * (97 / 100) + 1 / 2\<rfloor> < p" and "p < of_int \<lfloor>p * (103 / 100) + 1 / 2\<rfloor>"
proof -
  show "of_int \<lfloor>p * (97 / 100) + 1 / 2\<rfloor> < p"
    using of_int_floor_le [of "p * (97 / 100) + 1 / 2"] assms by linarith
  show "p < of_int \<lfloor>p * (103 / 100) + 1 / 2\<rfloor>"
    using floor_correct [of "p * (103 / 100) + 1 / 2"] assms by linarith
qed

lemma metal_update_miss:
  "cache_fresh now c = None \<Longrightarrow> metal_live r = Inr g \<Longrightarrow>
   metal_updateGoldPrice now r c d =
     (let c' = \<lparr>lastScrapeTime = Some now, lastData = Some g\<rparr> in
      if md_buyPrice g = JNull \<or> md_sellPrice g = JNull \<or> md_pricePerGram g = JNull
      then (Inl MetalInvalidData, c', d)
      else (case insertGoldPrice (metal_row now g) d of
              Inl e \<Rightarrow> (Inl (MetalStorageError e), c', d)
            | Inr (row, d') \<Rightarrow> (Inr row, c', d')))"
  by (simp add: metal_updateGoldPrice_def metal_fetchGoldPrice_def ttl_fetch_miss Let_def)

lemma metal_checkPriceAlerts_eq: "metal_checkPriceAlerts now d = peg_checkPriceAlerts now d"
  by (simp add: metal_checkPriceAlerts_def peg_checkPriceAlerts_def alert_fires_def [abs_def]
      split: option.split)

section \<open>Properties\<close>

text \<open>
  The metals.live spread is the other way round from the other sources and from the
  snapshot invariant \<open>buyPrice \<ge> sellPrice\<close>: for a numeric \<open>gold\<close> value whose price per
  gram rounds to at least 17 rupiah, the buy price is strictly below the price per gram
  and the sell price strictly above it.
\<close>

theorem metal_buy_below_sell:
  assumes "to_number priceUSD = Some u"
  defines "p \<equiv> of_int \<lfloor>u * USD_TO_IDR / TROY_OZ_TO_GRAM + 1 / 2\<rfloor> :: rat"
  assumes "17 \<le> p"
  shows "\<exists>b s. metal_convert priceUSD = \<lparr>md_pricePerGram = JNum p, md_buyPrice = JNum b,
            md_sellPrice = JNum s, md_highPrice = JNull, md_lowPrice = JNull\<rparr> \<and> b < p \<and> p < s"
  using metal_convert_num [OF assms(1)] round_spread [OF assms(3)] unfolding p_def by blast

theorem metal_buy_below_sell_witness:
  "\<exists>b s. metal_convert (JNum 2000) = \<lparr>md_pricePerGram = JNum 996673, md_buyPrice = JNum b,
            md_sellPrice = JNum s, md_highPrice = JNull, md_lowPrice = JNull\<rparr> \<and> b < 996673 \<and> 996673 < s"
proof -
  have a: "of_int \<lfloor>2000 * USD_TO_IDR / TROY_OZ_TO_GRAM + 1 / 2\<rfloor> = (996673::rat)"
    by (simp add: floor_eq_iff USD_TO_IDR_def TROY_OZ_TO_GRAM_def)
  have "(17::rat) \<le> of_int \<lfloor>2000 * USD_TO_IDR / TROY_OZ_TO_GRAM + 1 / 2\<rfloor>" unfolding a by simp
  from metal_buy_below_sell [of "JNum 2000" 2000, OF _ this] show ?thesis unfolding a by simp
qed

text \<open>
  The conversion at the fixed rates, evaluated: 2000 US dollars per troy ounce gives 996673
  rupiah per gram, a buy price of 966773 and a sell price of 1026573.
\<close>

lemma metal_convert_2000:
  "metal_convert (JNum 2000) = \<lparr>md_pricePerGram = JNum 996673, md_buyPrice = JNum 966773,
     md_sellPrice = JNum 1026573, md_highPrice = JNull, md_lowPrice = JNull\<rparr>"
proof -
  have a: "\<lfloor>2000 * USD_TO_IDR / TROY_OZ_TO_GRAM + 1 / 2\<rfloor> = 996673"
    by (simp add: floor_eq_iff USD_TO_IDR_def TROY_OZ_TO_GRAM_def)
  show ?thesis using metal_convert_num [of "JNum 2000" 2000] by (simp only: a to_number.simps) (simp add: floor_eq_iff)
qed

text \<open>
  A \<open>gold\<close> value that is truthy but not a number (a string such as \<open>"n/a"\<close>) passes
  every check and is stored: the new row has \<open>NaN\<close> as its price per gram, buy price and
  sell price.
\<close>

theorem metal_update_nan:
  assumes "cache_fresh now c = None" and "find truthy items = Some g" and "to_number g = None"
  shows "\<exists>row c'. metal_updateGoldPrice now (HttpOk (Some items)) c d
            = (Inr row, c', d\<lparr>goldPrices := goldPrices d @ [row], seq_gold := Suc (seq_gold d)\<rparr>)
         \<and> pricePerGram row = DecNaN \<and> buyPrice row = DecNaN \<and> sellPrice row = DecNaN"
proof -
  have "metal_convert g = \<lparr>md_pricePerGram = JNaN, md_buyPrice = JNaN, md_sellPrice = JNaN,
      md_highPrice = JNull, md_lowPrice = JNull\<rparr>"
    using assms(3) by (simp add: metal_convert_def Let_def js_arith_nan)
  then have "metal_live (HttpOk (Some items)) = Inr \<lparr>md_pricePerGram = JNaN, md_buyPrice = JNaN,
      md_sellPrice = JNaN, md_highPrice = JNull, md_lowPrice = JNull\<rparr>"
    using assms(2) by (simp add: metal_live_def)
  with assms(1) show ?thesis
    by (simp add: metal_update_miss metal_row_def insertGoldPrice_def column_numeric_JNaN
        column_numeric_opt_def Let_def)
qed

theorem metal_update_nan_witness:
  "\<exists>row c'. metal_updateGoldPrice 0 (HttpOk (Some [JUndefined, JStr ''n/a''])) empty_cache empty_db
            = (Inr row, c', empty_db\<lparr>goldPrices := goldPrices empty_db @ [row], seq_gold := Suc (seq_gold empty_db)\<rparr>)
         \<and> pricePerGram row = DecNaN \<and> buyPrice row = DecNaN \<and> sellPrice row = DecNaN"
proof -
  have "cache_fresh 0 (empty_cache :: metal_data ttl_cache) = None" by (simp add: cache_fresh_def empty_cache_def)
  moreover have "find truthy [JUndefined, JStr ''n/a''] = Some (JStr ''n/a'')" by simp
  moreover have "to_number (JStr ''n/a'') = None"
    by (simp add: str_to_number_def trim_def is_space_def is_digit_def)
  ultimately show ?thesis by (rule metal_update_nan)
qed

end
