(* ===== verification/Notify.thy ===== *)
theory Notify
  imports Storage
begin

text \<open>
  What the two notifiers (\<open>src/server/telegram-notifier.js\<close> and
  \<open>src/server/whatsapp-notifier.js\<close>) share: the outcome of a call to the external
  messaging API, the messages handed to it, their errors with the \<open>error.message\<close> the
  code logs, the notification log row each attempt writes, and the
  \<open>Intl.NumberFormat('id-ID', ...)\<close> formatting of prices in the messages. Strings are
  the UTF-8 bytes of the JavaScript strings, so a non-ASCII character is several
  characters here.
\<close>

datatype send_outcome = Delivered | SendError string

record outmsg =
  om_channel :: channel
  om_to :: string
  om_text :: string

datatype notify_error =
  BotNotInitialized | ChatIdRequired | ClientNotReady | SendFailed string
  | NotifyStorageError db_error | PriceDataMissing

fun db_error_message :: "db_error \<Rightarrow> string" where
  "db_error_message (NotNullViolation c) = ''null value in column \"'' @ c @ ''\" violates not-null constraint''"
| "db_error_message (NumericOverflow c) = ''numeric field overflow''"
| "db_error_message (InvalidInput c) = ''invalid input syntax for type numeric''"
| "db_error_message (UniqueViolation c) = ''duplicate key value violates unique constraint \"'' @ c @ ''\"''"
| "db_error_message NoValuesToSet = ''No values to set''"

fun error_message :: "notify_error \<Rightarrow> string" where
  "error_message BotNotInitialized = ''Telegram Bot not initialized. Check TELEGRAM_BOT_TOKEN environment variable.''"
| "error_message ChatIdRequired = ''Chat ID is required to send a Telegram notification''"
| "error_message ClientNotReady = ''WhatsApp client not ready. Please scan the QR code to authenticate.''"
| "error_message (SendFailed m) = m"
| "error_message (NotifyStorageError e) = db_error_message e"
| "error_message PriceDataMissing = ''Cannot read properties of undefined (reading 'pricePerGram')''"

text \<open>The \<open>storage.createNotificationLog\<close> call of each attempt; it passes no \<open>alertId\<close>.\<close>

definition log_attempt ::
  "channel \<Rightarrow> string \<Rightarrow> send_status \<Rightarrow> string option \<Rightarrow> timestamp \<Rightarrow> db \<Rightarrow> db_error + (notification_log \<times> db)" where
  "log_attempt ch msg st err now d =
     createNotificationLog \<lparr>li_alertId = None, li_channel = Some ch, li_message = msg,
        li_status = Some st, li_errorMessage = err, li_sentAt = now\<rparr> d"

text \<open>
  The \<open>catch\<close> of \<open>sendNotification\<close> and \<open>sendMessage\<close>: log the failure with
  \<open>error.message\<close> and rethrow (a failure of that log replaces the error).
\<close>

definition fail_logged ::
  "channel \<Rightarrow> string \<Rightarrow> timestamp \<Rightarrow> notify_error \<Rightarrow> outmsg list \<Rightarrow> db \<Rightarrow> (notify_error + unit) \<times> outmsg list \<times> db" where
  "fail_logged ch msg now e sent d =
     (case log_attempt ch msg Failed (Some (error_message e)) now d of
        Inl e2 \<Rightarrow> (Inl (NotifyStorageError e2), sent, d)
      | Inr (_, d') \<Rightarrow> (Inl e, sent, d'))"

text \<open>The attempt after the checks: the message goes out and its outcome is logged.\<close>

definition deliver ::
  "channel \<Rightarrow> string \<Rightarrow> string \<Rightarrow> send_outcome \<Rightarrow> timestamp \<Rightarrow> db \<Rightarrow> (notify_error + unit) \<times> outmsg list \<times> db" where
  "deliver ch to msg out now d =
     (let sent = [\<lparr>om_channel = ch, om_to = to, om_text = msg\<rparr>] in
      case out of
        SendError m \<Rightarrow> fail_logged ch msg now (SendFailed m) sent d
      | Delivered \<Rightarrow>
          (case log_attempt ch msg Sent None now d of
             Inl e \<Rightarrow> fail_logged ch msg now (NotifyStorageError e) sent d
           | Inr (_, d') \<Rightarrow> (Inr (), sent, d')))"

text \<open>The database after one more log row of an attempt, as \<open>createNotificationLog\<close> leaves it.\<close>

definition logged :: "channel \<Rightarrow> string \<Rightarrow> send_status \<Rightarrow> string option \<Rightarrow> timestamp \<Rightarrow> db \<Rightarrow> db" where
  "logged ch msg st err now d =
     d\<lparr>notificationLogs := notificationLogs d @ [\<lparr>log_id = seq_log d, alertId = None, log_channel = ch,
          message = msg, status = st, errorMessage = err, sentAt = now\<rparr>], seq_log := Suc (seq_log d)\<rparr>"

text \<open>The line feed of the message templates.\<close>

definition nl :: string where
  "nl = [CHR 0x0A]"

section \<open>Number formatting\<close>

text \<open>
  \<open>Intl.NumberFormat('id-ID')\<close>: groups of three digits separated by dots, a decimal
  comma, at most \<open>n\<close> fraction digits (rounded half away from zero) without trailing
  zeros; for \<open>style: 'currency', currency: 'IDR'\<close> the prefix \<open>Rp\<close> and a no-break
  space (U+00A0), with at most two fraction digits.
\<close>

fun group3_dot :: "string \<Rightarrow> string" where
  "group3_dot (a # b # c # d # rest) = a # b # c # CHR ''.'' # group3_dot (d # rest)"
| "group3_dot xs = xs"

definition group_dot :: "string \<Rightarrow> string" where
  "group_dot s = rev (group3_dot (rev s))"

definition pad_left :: "nat \<Rightarrow> string \<Rightarrow> string" where
  "pad_left n s = replicate (n - length s) CHR ''0'' @ s"

definition strip_zeros :: "string \<Rightarrow> string" where
  "strip_zeros s = rev (dropWhile (\<lambda>c. c = CHR ''0'') (rev s))"

definition intl_digits :: "nat \<Rightarrow> 'a::floor_ceiling \<Rightarrow> string" where
  "intl_digits n r =
     (let k = nat \<lfloor>\<bar>r\<bar> * 10 ^ n + 1 / 2\<rfloor>;
          fs = strip_zeros (pad_left n (show_nat (k mod 10 ^ n)))
      in group_dot (show_nat (k div 10 ^ n)) @ (if fs = [] then [] else CHR '','' # fs))"

definition nbsp :: string where
  "nbsp = [CHR 0xC2, CHR 0xA0]"

definition intl_idr :: "numeric \<Rightarrow> string" where
  "intl_idr v =
     (case v of
        DecNaN \<Rightarrow> ''Rp'' @ nbsp @ ''NaN''
      | Dec r \<Rightarrow> (if r < 0 then ''-'' else []) @ ''Rp'' @ nbsp @ intl_digits 2 r)"

definition intl_dec :: "rat \<Rightarrow> string" where
  "intl_dec r = (if r < 0 then ''-'' else []) @ intl_digits 3 r"

text \<open>\<open>priceData.priceChange || 0\<close> and the sign the summary puts in front of it.\<close>

definition change_str :: "rat option \<Rightarrow> string" where
  "change_str c = (let x = (case c of Some x \<Rightarrow> x | None \<Rightarrow> 0) in
                   if 0 \<le> x then ''+'' @ intl_dec x else intl_dec x)"

section \<open>Lemmas\<close>

lemma log_attempt_logged:
  "\<exists>row. log_attempt ch msg st err now d = Inr (row, logged ch msg st err now d)"
  by (simp add: log_attempt_def createNotificationLog_def logged_def Let_def)

lemma fail_logged_eq [simp]:
  "fail_logged ch msg now e sent d = (Inl e, sent, logged ch msg Failed (Some (error_message e)) now d)"
  using log_attempt_logged [of ch msg Failed "Some (error_message e)" now d]
  by (auto simp: fail_logged_def)

lemma deliver_eq [simp]:
  "deliver ch to msg Delivered now d = (Inr (), [\<lparr>om_channel = ch, om_to = to, om_text = msg\<rparr>], logged ch msg Sent None now d)"
  "deliver ch to msg (SendError m) now d = (Inl (SendFailed m), [\<lparr>om_channel = ch, om_to = to, om_text = msg\<rparr>], logged ch msg Failed (Some m) now d)"
  using log_attempt_logged [of ch msg Sent None now d] by (auto simp: deliver_def Let_def)

lemma floor_nat_half: "\<lfloor>of_nat m + 1 / 2 :: 'a::floor_ceiling\<rfloor> = int m"
  by (simp add: floor_eq_iff)

lemma intl_digits_nat: "intl_digits n (of_nat m :: 'a::floor_ceiling) = group_dot (show_nat m)"
proof -
  have "\<bar>of_nat m :: 'a\<bar> * 10 ^ n + 1 / 2 = of_nat (m * 10 ^ n) + 1 / 2" by simp
  then have k: "nat \<lfloor>\<bar>of_nat m :: 'a\<bar> * 10 ^ n + 1 / 2\<rfloor> = m * 10 ^ n"
    by (simp only: floor_nat_half nat_int)
  have z: "show_nat 0 = ''0''" by (simp add: show_nat.simps digit_char_simps)
  have "pad_left n ''0'' = replicate (n - 1) CHR ''0'' @ ''0''" by (simp add: pad_left_def)
  also have "\<dots> = replicate (Suc (n - 1)) CHR ''0''" by (simp add: replicate_app_Cons_same)
  finally have "strip_zeros (pad_left n ''0'') = []" by (simp add: strip_zeros_def)
  then show ?thesis unfolding intl_digits_def k Let_def by (simp add: z)
qed

end
