(* ===== verification/Telegram.thy ===== *)
theory Telegram
  imports Notify
begin

text \<open>
  \<open>TelegramNotifier\<close> of \<open>src/server/telegram-notifier.js\<close>. The bot exists when
  \<open>TELEGRAM_BOT_TOKEN\<close> was set (non-empty) at construction. The Bot API is the
  environment \<open>net\<close>, which answers each message handed to it. The message templates
  are kept byte for byte: the source file holds the emoji as mojibake, the UTF-8 of
  the characters U+00F0 U+0178 U+201D U+201D (and U+00F0 U+0178 U+201C U+0160), which is
  what a chat receives.
\<close>

record tg_notifier =
  tg_token :: "string option"

definition tg_bot :: "tg_notifier \<Rightarrow> bool" where
  "tg_bot n \<longleftrightarrow> tg_token n \<noteq> None \<and> tg_token n \<noteq> Some []"

definition tg_sendNotification ::
  "tg_notifier \<Rightarrow> string option \<Rightarrow> string \<Rightarrow> (outmsg \<Rightarrow> send_outcome) \<Rightarrow> timestamp \<Rightarrow> db \<Rightarrow>
   (notify_error + unit) \<times> outmsg list \<times> db" where
  "tg_sendNotification n chatId msg net now d =
     (if \<not> tg_bot n then fail_logged Telegram msg now BotNotInitialized [] d
      else case chatId of
             None \<Rightarrow> fail_logged Telegram msg now ChatIdRequired [] d
           | Some cid \<Rightarrow>
               if cid = [] then fail_logged Telegram msg now ChatIdRequired [] d
               else deliver Telegram cid msg (net \<lparr>om_channel = Telegram, om_to = cid, om_text = msg\<rparr>) now d)"

section \<open>Messages\<close>

definition tg_bell :: string where
  "tg_bell = [CHR 0xC3, CHR 0xB0, CHR 0xC5, CHR 0xB8, CHR 0xE2, CHR 0x80, CHR 0x9D, CHR 0xE2, CHR 0x80, CHR 0x9D]"

definition tg_chart :: string where
  "tg_chart = [CHR 0xC3, CHR 0xB0, CHR 0xC5, CHR 0xB8, CHR 0xE2, CHR 0x80, CHR 0x9C, CHR 0xC5, CHR 0xA0]"

definition tg_increase_msg :: "string \<Rightarrow> string" where
  "tg_increase_msg fp = tg_bell @ '' <b>Price Increase Alert</b>'' @ nl @ nl @
     ''Gold price has increased above your target of '' @ fp @ ''.'' @ nl @ nl @ ''Current price: '' @ fp"

definition tg_decrease_msg :: "string \<Rightarrow> string" where
  "tg_decrease_msg fp = tg_bell @ '' <b>Price Decrease Alert</b>'' @ nl @ nl @
     ''Gold price has decreased below your target of '' @ fp @ ''.'' @ nl @ nl @ ''Current price: '' @ fp"

definition tg_alert_message :: "price_alert \<Rightarrow> current_price \<Rightarrow> string" where
  "tg_alert_message a cur =
     (let fp = intl_idr (pricePerGram cur)
      in if alertType a = ''increase'' then tg_increase_msg fp
         else if alertType a = ''decrease'' then tg_decrease_msg fp else [])"

definition tg_summary_message :: "current_price \<Rightarrow> string" where
  "tg_summary_message c =
     tg_chart @ '' <b>Daily Gold Price Summary</b>'' @ nl @ nl @
     ''Current Price: '' @ intl_idr (pricePerGram c) @ '' ('' @ change_str (priceChange c) @ '')'' @ nl @
     ''Buy Price: '' @ intl_idr (buyPrice c) @ nl @
     ''Sell Price: '' @ intl_idr (sellPrice c) @ nl @ nl @
     ''<i>Data source: Pegadaian</i>''"

section \<open>sendPriceAlert and sendDailySummary\<close>

text \<open>\<open>lastTriggered\<close> is set only after \<open>sendNotification\<close> returned; its error is rethrown.\<close>

definition tg_sendPriceAlert ::
  "tg_notifier \<Rightarrow> price_alert \<Rightarrow> current_price \<Rightarrow> (outmsg \<Rightarrow> send_outcome) \<Rightarrow> timestamp \<Rightarrow> db \<Rightarrow>
   (notify_error + bool) \<times> outmsg list \<times> db" where
  "tg_sendPriceAlert n a cur net now d =
     (if \<not> telegram_on a then (Inr False, [], d)
      else let msg = tg_alert_message a cur in
        if msg = [] then (Inr False, [], d)
        else (case tg_sendNotification n (telegramChatId a) msg net now d of
                (Inl e, sent, d') \<Rightarrow> (Inl e, sent, d')
              | (Inr _, sent, d') \<Rightarrow> (Inr True, sent, updateAlertLastTriggered (alert_id a) now d')))"

text \<open>\<open>priceData\<close> is \<open>undefined\<close> (\<open>None\<close>) when no price is stored; reading it throws.\<close>

definition tg_sendDailySummary ::
  "tg_notifier \<Rightarrow> price_alert \<Rightarrow> current_price option \<Rightarrow> (outmsg \<Rightarrow> send_outcome) \<Rightarrow> timestamp \<Rightarrow> db \<Rightarrow>
   (notify_error + bool) \<times> outmsg list \<times> db" where
  "tg_sendDailySummary n a pd net now d =
     (if \<not> telegram_on a then (Inr False, [], d)
      else case pd of
             None \<Rightarrow> (Inl PriceDataMissing, [], d)
           | Some c \<Rightarrow>
               (case tg_sendNotification n (telegramChatId a) (tg_summary_message c) net now d of
                  (Inl e, sent, d') \<Rightarrow> (Inl e, sent, d')
                | (Inr _, sent, d') \<Rightarrow> (Inr True, sent, updateAlertLastTriggered (alert_id a) now d')))"

section \<open>Example data\<close>

definition ex_bot :: tg_notifier where
  "ex_bot = \<lparr>tg_token = Some ''123:abc''\<rparr>"

section \<open>Lemmas\<close>

lemma tg_alert_message_nonempty:
  "alertType a = ''increase'' \<or> alertType a = ''decrease'' \<Longrightarrow> tg_alert_message a cur \<noteq> []"
  by (auto simp: tg_alert_message_def tg_increase_msg_def tg_decrease_msg_def tg_bell_def Let_def)

lemma tg_sendNotification_ready:
  "tg_bot n \<Longrightarrow> cid \<noteq> [] \<Longrightarrow>
   tg_sendNotification n (Some cid) msg net now d
     = deliver Telegram cid msg (net \<lparr>om_channel = Telegram, om_to = cid, om_text = msg\<rparr>) now d"
  by (simp add: tg_sendNotification_def)

lemma telegram_on_chat: "telegram_on a \<Longrightarrow> telegramChatId a = Some cid \<Longrightarrow> cid \<noteq> []"
  by (auto simp: telegram_on_def)

lemma ex_alert_1050_on: "telegram_on ex_alert_1050" "telegramChatId ex_alert_1050 = Some ''42''"
  "alertType ex_alert_1050 = ''increase''"
  by (simp_all add: telegram_on_def ex_alert_1050_def ex_alert_def)

lemma ex_bot_on: "tg_bot ex_bot" by (simp add: tg_bot_def ex_bot_def)

lemma tg_sendPriceAlert_send:
  assumes "telegram_on a" and "tg_bot n" and "telegramChatId a = Some cid"
    and "alertType a = ''increase'' \<or> alertType a = ''decrease''"
  shows "tg_sendPriceAlert n a cur net now d =
    (case deliver Telegram cid (tg_alert_message a cur)
            (net \<lparr>om_channel = Telegram, om_to = cid, om_text = tg_alert_message a cur\<rparr>) now d of
       (Inl e, sent, d') \<Rightarrow> (Inl e, sent, d')
     | (Inr _, sent, d') \<Rightarrow> (Inr True, sent, updateAlertLastTriggered (alert_id a) now d'))"
  using assms tg_alert_message_nonempty [OF assms(4)] telegram_on_chat [OF assms(1,3)]
  by (simp add: tg_sendPriceAlert_def tg_sendNotification_ready Let_def)

section \<open>Properties\<close>

text \<open>
  C13. A price alert with Telegram on, sent through an initialised bot and delivered,
  hands exactly one message to the Bot API (to the alert's chat id), writes one Sent log
  row, and then sets the alert's \<open>lastTriggered\<close> to the time of sending.
\<close>

theorem tg_sendPriceAlert_sent:
  assumes "telegram_on a" and "tg_bot n" and "telegramChatId a = Some cid"
    and "alertType a = ''increase'' \<or> alertType a = ''decrease''"
    and "net \<lparr>om_channel = Telegram, om_to = cid, om_text = tg_alert_message a cur\<rparr> = Delivered"
  shows "tg_sendPriceAlert n a cur net now d =
           (Inr True, [\<lparr>om_channel = Telegram, om_to = cid, om_text = tg_alert_message a cur\<rparr>],
            updateAlertLastTriggered (alert_id a) now (logged Telegram (tg_alert_message a cur) Sent None now d))"
  using assms tg_alert_message_nonempty [OF assms(4)] telegram_on_chat [OF assms(1,3)]
  by (simp add: tg_sendPriceAlert_def tg_sendNotification_ready Let_def)

theorem tg_sendPriceAlert_sent_witness:
  "tg_sendPriceAlert ex_bot ex_alert_1050 ex_cur (\<lambda>_. Delivered) 0 ex_db =
     (Inr True, [\<lparr>om_channel = Telegram, om_to = ''42'', om_text = tg_alert_message ex_alert_1050 ex_cur\<rparr>],
      updateAlertLastTriggered (alert_id ex_alert_1050) 0 (logged Telegram (tg_alert_message ex_alert_1050 ex_cur) Sent None 0 ex_db))"
  using ex_alert_1050_on ex_bot_on by (intro tg_sendPriceAlert_sent) simp_all

text \<open>
  C14. When the Bot API rejects the message, the attempt is logged as Failed with the API's
  error message and the error is rethrown; \<open>lastTriggered\<close> is not updated, so the alert
  stays due (the specification updates it on every attempt).
\<close>

theorem tg_sendPriceAlert_failed:
  assumes "telegram_on a" and "tg_bot n" and "telegramChatId a = Some cid"
    and "alertType a = ''increase'' \<or> alertType a = ''decrease''"
    and "net \<lparr>om_channel = Telegram, om_to = cid, om_text = tg_alert_message a cur\<rparr> = SendError m"
  shows "tg_sendPriceAlert n a cur net now d =
           (Inl (SendFailed m), [\<lparr>om_channel = Telegram, om_to = cid, om_text = tg_alert_message a cur\<rparr>],
            logged Telegram (tg_alert_message a cur) Failed (Some m) now d)"
  using assms tg_alert_message_nonempty [OF assms(4)] telegram_on_chat [OF assms(1,3)]
  by (simp add: tg_sendPriceAlert_def tg_sendNotification_ready Let_def)

theorem tg_sendPriceAlert_failed_witness:
  "tg_sendPriceAlert ex_bot ex_alert_1050 ex_cur (\<lambda>_. SendError ''ETIMEDOUT'') 0 ex_db =
     (Inl (SendFailed ''ETIMEDOUT''), [\<lparr>om_channel = Telegram, om_to = ''42'', om_text = tg_alert_message ex_alert_1050 ex_cur\<rparr>],
      logged Telegram (tg_alert_message ex_alert_1050 ex_cur) Failed (Some ''ETIMEDOUT'') 0 ex_db)"
  using ex_alert_1050_on ex_bot_on by (intro tg_sendPriceAlert_failed) simp_all

text \<open>
  Without \<open>TELEGRAM_BOT_TOKEN\<close> no message leaves: the call fails with the
  "not initialized" error, which is logged as a Failed attempt.
\<close>

theorem tg_sendPriceAlert_no_bot:
  assumes "telegram_on a" and "\<not> tg_bot n"
    and "alertType a = ''increase'' \<or> alertType a = ''decrease''"
  shows "tg_sendPriceAlert n a cur net now d =
           (Inl BotNotInitialized, [],
            logged Telegram (tg_alert_message a cur) Failed (Some (error_message BotNotInitialized)) now d)"
  using assms tg_alert_message_nonempty [OF assms(3)]
  by (simp add: tg_sendPriceAlert_def tg_sendNotification_def Let_def)

theorem tg_sendPriceAlert_no_bot_witness:
  "tg_sendPriceAlert \<lparr>tg_token = None\<rparr> ex_alert_1050 ex_cur (\<lambda>_. Delivered) 0 ex_db =
     (Inl BotNotInitialized, [],
      logged Telegram (tg_alert_message ex_alert_1050 ex_cur) Failed (Some (error_message BotNotInitialized)) 0 ex_db)"
  using ex_alert_1050_on by (intro tg_sendPriceAlert_no_bot) (simp_all add: tg_bot_def)

text \<open>
  The alert message states the current price as the target: for the scenario of the
  specification (target 1050000, price 1058000) it says the price rose above a target of
  Rp 1.058.000, and it starts with the mojibake bytes instead of the bell emoji.
\<close>

theorem tg_alert_message_reports_price_as_target:
  "tg_alert_message ex_alert_1050 ex_cur =
     tg_bell @ '' <b>Price Increase Alert</b>'' @ nl @ nl @
     ''Gold price has increased above your target of Rp'' @ nbsp @ ''1.058.000.'' @ nl @ nl @
     ''Current price: Rp'' @ nbsp @ ''1.058.000''"
proof -
  have "intl_digits 2 (1058000 :: rat) = ''1.058.000''"
    using intl_digits_nat [of 2 1058000] by (simp add: show_nat.simps digit_char_simps group_dot_def)
  moreover have "pricePerGram ex_cur = Dec 1058000" by (simp add: ex_cur_def ex_gp_def gold_price.defs)
  ultimately show ?thesis
    by (simp add: tg_alert_message_def ex_alert_1050_on tg_increase_msg_def intl_idr_def)
qed

end
