(* ===== verification/WhatsApp.thy ===== *)
theory WhatsApp
  imports Notify
begin

text \<open>
  \<open>WhatsAppNotifier\<close> of \<open>src/server/whatsapp-notifier.js\<close>. Its state is the two flags
  \<open>clientInitialized\<close> and \<open>clientReady\<close>, whether a whatsapp-web.js client object
  exists, and whether a call of \<open>client.initialize()\<close> is still pending
  (\<open>init_pending\<close>, the \<open>await\<close> in \<open>initializeClient\<close>). The constructor runs
  \<open>initializeClient\<close> up to that \<open>await\<close>, so it ends with a client, the flag set and the
  initialisation pending. The session changes by four events (\<open>wa_step\<close>): a new
  initialisation, taken only when the flag is clear (the early \<open>return\<close>), which builds a
  client, sets the flag and starts \<open>initialize()\<close>; the resolution of the pending call;
  its rejection, whose \<open>catch\<close> clears the flag; and the \<open>ready\<close> event of a live client,
  whose listener sets \<open>clientReady\<close>. No handler clears \<open>clientReady\<close>. \<open>sendMessage\<close>
  takes the outcome of the initialisation it may start (\<open>wa_init_outcome\<close>) and the
  answers of the WhatsApp network (\<open>net\<close>).
\<close>

record wa_state =
  wa_client :: bool
  clientInitialized :: bool
  init_pending :: bool
  clientReady :: bool

definition wa_constructed :: wa_state where
  "wa_constructed = \<lparr>wa_client = True, clientInitialized = True, init_pending = True, clientReady = False\<rparr>"

datatype wa_event = Initialize | Resolve | Reject | Ready

inductive wa_step :: "wa_state \<Rightarrow> wa_event \<Rightarrow> wa_state \<Rightarrow> bool" where
  initialize: "\<not> clientInitialized s \<Longrightarrow>
    wa_step s Initialize (s\<lparr>wa_client := True, clientInitialized := True, init_pending := True\<rparr>)"
| resolve: "init_pending s \<Longrightarrow> wa_step s Resolve (s\<lparr>init_pending := False\<rparr>)"
| reject: "init_pending s \<Longrightarrow> wa_step s Reject (s\<lparr>clientInitialized := False, init_pending := False\<rparr>)"
| ready: "wa_client s \<Longrightarrow> clientInitialized s \<Longrightarrow> wa_step s Ready (s\<lparr>clientReady := True\<rparr>)"

inductive wa_steps :: "wa_state \<Rightarrow> wa_event list \<Rightarrow> wa_state \<Rightarrow> bool" where
  nil: "wa_steps s [] s"
| cons: "wa_step s e t \<Longrightarrow> wa_steps t es u \<Longrightarrow> wa_steps s (e # es) u"

inductive wa_reachable :: "wa_state \<Rightarrow> bool" where
  start: "wa_reachable wa_constructed"
| step: "wa_reachable s \<Longrightarrow> wa_step s e t \<Longrightarrow> wa_reachable t"

text \<open>The outcome of \<open>await this.client.initialize()\<close>: resolved (and whether the
  \<open>ready\<close> event fired meanwhile) or rejected.\<close>

datatype wa_init_outcome = InitResolved bool | InitRejected

definition wa_initializeClient :: "wa_state \<Rightarrow> wa_init_outcome \<Rightarrow> wa_state" where
  "wa_initializeClient s io =
     (if clientInitialized s then s
      else let s1 = s\<lparr>wa_client := True, clientInitialized := True, init_pending := True\<rparr> in
           case io of
             InitResolved r \<Rightarrow> s1\<lparr>init_pending := False, clientReady := clientReady s1 \<or> r\<rparr>
           | InitRejected \<Rightarrow> s1\<lparr>clientInitialized := False, init_pending := False\<rparr>)"

text \<open>The events one call of \<open>initializeClient\<close> with outcome \<open>io\<close> stands for.\<close>

definition wa_init_trace :: "wa_state \<Rightarrow> wa_init_outcome \<Rightarrow> wa_event list" where
  "wa_init_trace s io =
     (if clientInitialized s then []
      else Initialize # (case io of InitResolved r \<Rightarrow> (if r then [Ready] else []) @ [Resolve]
                                  | InitRejected \<Rightarrow> [Reject]))"

text \<open>\<open>phoneNumber.replace(/[^0-9]/g, '')\<close> followed by \<open>@c.us\<close>.\<close>

definition wa_chatId :: "string \<Rightarrow> string" where
  "wa_chatId phone = filter is_digit phone @ ''@c.us''"

definition wa_sendMessage ::
  "wa_state \<Rightarrow> wa_init_outcome \<Rightarrow> string \<Rightarrow> string \<Rightarrow> (outmsg \<Rightarrow> send_outcome) \<Rightarrow> timestamp \<Rightarrow> db \<Rightarrow>
   (notify_error + unit) \<times> wa_state \<times> outmsg list \<times> db" where
  "wa_sendMessage s io phone msg net now d =
     (let s1 = (if \<not> clientInitialized s then wa_initializeClient s io else s) in
      if \<not> clientReady s1
      then (case fail_logged WhatsApp msg now ClientNotReady [] d of (r, sent, d') \<Rightarrow> (r, s1, sent, d'))
      else let to = wa_chatId phone in
           (case deliver WhatsApp to msg (net \<lparr>om_channel = WhatsApp, om_to = to, om_text = msg\<rparr>) now d of
              (r, sent, d') \<Rightarrow> (r, s1, sent, d')))"

section \<open>Messages\<close>

definition wa_bell :: string where
  "wa_bell = [CHR 0xF0, CHR 0x9F, CHR 0x94, CHR 0x94]"

definition wa_chart :: string where
  "wa_chart = [CHR 0xF0, CHR 0x9F, CHR 0x93, CHR 0x8A]"

definition wa_alert_message :: "price_alert \<Rightarrow> current_price \<Rightarrow> string" where
  "wa_alert_message a cur =
     (let fp = intl_idr (pricePerGram cur)
      in if alertType a = ''increase'' then
           wa_bell @ '' *Price Increase Alert*'' @ nl @ nl @
           ''Gold price has increased above your target of '' @ fp @ ''.'' @ nl @ nl @ ''Current price: '' @ fp
         else if alertType a = ''decrease'' then
           wa_bell @ '' *Price Decrease Alert*'' @ nl @ nl @
           ''Gold price has decreased below your target of '' @ fp @ ''.'' @ nl @ nl @ ''Current price: '' @ fp
         else [])"

definition wa_summary_message :: "current_price \<Rightarrow> string" where
  "wa_summary_message c =
     wa_chart @ '' *Daily Gold Price Summary*'' @ nl @ nl @
     ''Current Price: '' @ intl_idr (pricePerGram c) @ '' ('' @ change_str (priceChange c) @ '')'' @ nl @
     ''Buy Price: '' @ intl_idr (buyPrice c) @ nl @
     ''Sell Price: '' @ intl_idr (sellPrice c) @ nl @ nl @
     ''_Data source: Pegadaian_''"

section \<open>sendPriceAlert and sendDailySummary\<close>

definition wa_sendPriceAlert ::
  "wa_state \<Rightarrow> wa_init_outcome \<Rightarrow> price_alert \<Rightarrow> current_price \<Rightarrow> (outmsg \<Rightarrow> send_outcome) \<Rightarrow> timestamp \<Rightarrow> db \<Rightarrow>
   (notify_error + bool) \<times> wa_state \<times> outmsg list \<times> db" where
  "wa_sendPriceAlert s io a cur net now d =
     (if \<not> whatsapp_on a then (Inr False, s, [], d)
      else let msg = wa_alert_message a cur in
        if msg = [] then (Inr False, s, [], d)
        else (case wa_sendMessage s io (the (phoneNumber a)) msg net now d of
                (Inl e, s', sent, d') \<Rightarrow> (Inl e, s', sent, d')
              | (Inr _, s', sent, d') \<Rightarrow> (Inr True, s', sent, updateAlertLastTriggered (alert_id a) now d')))"

definition wa_sendDailySummary ::
  "wa_state \<Rightarrow> wa_init_outcome \<Rightarrow> price_alert \<Rightarrow> current_price option \<Rightarrow> (outmsg \<Rightarrow> send_outcome) \<Rightarrow> timestamp \<Rightarrow> db \<Rightarrow>
   (notify_error + bool) \<times> wa_state \<times> outmsg list \<times> db" where
  "wa_sendDailySummary s io a pd net now d =
     (if \<not> whatsapp_on a then (Inr False, s, [], d)
      else case pd of
             None \<Rightarrow> (Inl PriceDataMissing, s, [], d)
           | Some c \<Rightarrow>
               (case wa_sendMessage s io (the (phoneNumber a)) (wa_summary_message c) net now d of
                  (Inl e, s', sent, d') \<Rightarrow> (Inl e, s', sent, d')
                | (Inr _, s', sent, d') \<Rightarrow> (Inr True, s', sent, updateAlertLastTriggered (alert_id a) now d')))"

section \<open>Consecutive sends\<close>

text \<open>The calls of \<open>sendMessage\<close> that successive ticks make, each with the outcome
  its own \<open>initialize\<close> call would have.\<close>

fun wa_sendRun ::
  "wa_state \<Rightarrow> (wa_init_outcome \<times> string \<times> string) list \<Rightarrow> (outmsg \<Rightarrow> send_outcome) \<Rightarrow> timestamp \<Rightarrow> db \<Rightarrow>
   wa_state \<times> outmsg list \<times> db" where
  "wa_sendRun s [] net now d = (s, [], d)"
| "wa_sendRun s ((io, p, m) # cs) net now d =
     (case wa_sendMessage s io p m net now d of
        (_, s', sent, d') \<Rightarrow> (case wa_sendRun s' cs net now d' of (s'', sent', d'') \<Rightarrow> (s'', sent @ sent', d'')))"

inductive_cases wa_stepE: "wa_step s e t"
inductive_cases wa_steps_NilE: "wa_steps s [] t"
inductive_cases wa_steps_ConsE: "wa_steps s (e # es) t"

section \<open>Lemmas\<close>

lemma wa_step_ready_mono: "wa_step s e t \<Longrightarrow> clientReady s \<Longrightarrow> clientReady t"
  by (induction rule: wa_step.induct) simp_all

lemma wa_step_deterministic: "wa_step s e t \<Longrightarrow> wa_step s e t' \<Longrightarrow> t = t'"
  by (induction rule: wa_step.induct) (auto elim: wa_stepE)

lemma wa_steps_deterministic: "wa_steps s es t \<Longrightarrow> wa_steps s es t' \<Longrightarrow> t = t'"
proof (induction arbitrary: t' rule: wa_steps.induct)
  case (nil s)
  then show ?case by (auto elim: wa_steps_NilE)
next
  case (cons s e t es u)
  from cons.prems obtain t1 where "wa_step s e t1" "wa_steps t1 es t'" by (auto elim: wa_steps_ConsE)
  with cons show ?case using wa_step_deterministic by blast
qed

lemma wa_steps_reachable: "wa_steps s es t \<Longrightarrow> wa_reachable s \<Longrightarrow> wa_reachable t"
  by (induction rule: wa_steps.induct) (auto intro: wa_reachable.step)

lemma wa_steps_one: "wa_step s e t \<Longrightarrow> wa_steps s [e] t"
  by (rule wa_steps.cons [OF _ wa_steps.nil])

lemma wa_reachable_inv: "wa_reachable s \<Longrightarrow> wa_client s \<and> (init_pending s \<longrightarrow> clientInitialized s)"
  by (induction rule: wa_reachable.induct) (auto simp: wa_constructed_def elim: wa_stepE)

lemma wa_initializeClient_steps: "wa_steps s (wa_init_trace s io) (wa_initializeClient s io)"
proof (cases "clientInitialized s")
  case True
  then show ?thesis by (simp add: wa_init_trace_def wa_initializeClient_def wa_steps.nil)
next
  case False
  let ?s1 = "s\<lparr>wa_client := True, clientInitialized := True, init_pending := True\<rparr>"
  have s1: "wa_step s Initialize ?s1" using False by (rule wa_step.initialize)
  have "wa_steps ?s1 (case io of InitResolved r \<Rightarrow> (if r then [Ready] else []) @ [Resolve] | InitRejected \<Rightarrow> [Reject])
          (case io of InitResolved r \<Rightarrow> ?s1\<lparr>init_pending := False, clientReady := clientReady ?s1 \<or> r\<rparr>
                    | InitRejected \<Rightarrow> ?s1\<lparr>clientInitialized := False, init_pending := False\<rparr>)"
  proof (cases io)
    case (InitResolved r)
    show ?thesis
    proof (cases r)
      case True
      have "wa_step ?s1 Ready (?s1\<lparr>clientReady := True\<rparr>)" by (rule wa_step.ready) simp_all
      moreover have "wa_step (?s1\<lparr>clientReady := True\<rparr>) Resolve (?s1\<lparr>clientReady := True\<rparr>\<lparr>init_pending := False\<rparr>)"
        by (rule wa_step.resolve) simp
      moreover have "?s1\<lparr>clientReady := True\<rparr>\<lparr>init_pending := False\<rparr> = ?s1\<lparr>init_pending := False, clientReady := True\<rparr>"
        by (cases s) simp
      ultimately show ?thesis using InitResolved True by (auto intro!: wa_steps.cons wa_steps.nil)
    next
      case False
      have "wa_step ?s1 Resolve (?s1\<lparr>init_pending := False\<rparr>)" by (rule wa_step.resolve) simp
      then show ?thesis using InitResolved False by (simp add: wa_steps_one)
    qed
  next
    case InitRejected
    have "wa_step ?s1 Reject (?s1\<lparr>clientInitialized := False, init_pending := False\<rparr>)"
      by (rule wa_step.reject) simp
    then show ?thesis using InitRejected by (simp add: wa_steps_one)
  qed
  with s1 False show ?thesis
    by (simp add: wa_init_trace_def wa_initializeClient_def Let_def wa_steps.cons)
qed

lemma wa_sendMessage_state:
  "fst (snd (wa_sendMessage s io p msg net now d)) = (if \<not> clientInitialized s then wa_initializeClient s io else s)"
  by (simp add: wa_sendMessage_def Let_def split: prod.split)

lemma wa_sendMessage_not_ready:
  assumes "\<not> clientReady (if \<not> clientInitialized s then wa_initializeClient s io else s)"
  shows "wa_sendMessage s io p msg net now d =
    (Inl ClientNotReady, (if \<not> clientInitialized s then wa_initializeClient s io else s), [],
     logged WhatsApp msg Failed (Some (error_message ClientNotReady)) now d)"
  using assms by (simp add: wa_sendMessage_def Let_def)

lemma wa_sendMessage_ready:
  assumes "clientReady (if \<not> clientInitialized s then wa_initializeClient s io else s)"
  shows "\<exists>r d'. wa_sendMessage s io p msg net now d =
    (r, (if \<not> clientInitialized s then wa_initializeClient s io else s),
     [\<lparr>om_channel = WhatsApp, om_to = wa_chatId p, om_text = msg\<rparr>], d')"
  using assms by (cases "net \<lparr>om_channel = WhatsApp, om_to = wa_chatId p, om_text = msg\<rparr>")
     (simp_all add: wa_sendMessage_def Let_def)

lemma wa_steps_ready_mono_aux: "wa_steps s es t \<Longrightarrow> clientReady s \<Longrightarrow> clientReady t"
  by (induction rule: wa_steps.induct) (auto intro: wa_step_ready_mono)

lemma wa_steps_resolved_aux:
  "wa_steps s es t \<Longrightarrow> clientInitialized s \<Longrightarrow> \<not> init_pending s \<Longrightarrow> clientInitialized t \<and> \<not> init_pending t"
  by (induction rule: wa_steps.induct) (auto elim: wa_stepE)

lemma wa_send_rejected:
  assumes "\<not> clientInitialized s" "\<not> clientReady s"
  shows "\<exists>d'. wa_sendMessage s InitRejected p m net now d = (Inl ClientNotReady, s\<lparr>wa_client := True, init_pending := False\<rparr>, [], d')"
  using assms wa_sendMessage_not_ready [of s InitRejected p m net now d]
  by (simp add: wa_initializeClient_def)

lemma wa_send_resolved_ready:
  assumes "\<not> clientInitialized s"
  shows "\<exists>r d'. wa_sendMessage s (InitResolved True) p m net now d =
    (r, s\<lparr>wa_client := True, clientInitialized := True, init_pending := False, clientReady := True\<rparr>,
     [\<lparr>om_channel = WhatsApp, om_to = wa_chatId p, om_text = m\<rparr>], d')"
  using assms wa_sendMessage_ready [of s "InitResolved True" p m net now d]
  by (simp add: wa_initializeClient_def)

section \<open>Properties\<close>

text \<open>
  C15. The reachable session states are exactly those with a client object in which
  a pending \<open>initialize()\<close> has its flag set. Every combination of the flags beyond
  that occurs, including \<open>clientReady\<close> with \<open>clientInitialized\<close> cleared (a rejected
  \<open>initialize()\<close> after \<open>ready\<close>), in which the next \<open>sendMessage\<close> builds a new client
  while the old ready flag stays set.
\<close>

theorem wa_reachable_iff: "wa_reachable s \<longleftrightarrow> wa_client s \<and> (init_pending s \<longrightarrow> clientInitialized s)"
proof
  assume "wa_reachable s"
  then show "wa_client s \<and> (init_pending s \<longrightarrow> clientInitialized s)" by (rule wa_reachable_inv)
next
  assume c: "wa_client s \<and> (init_pending s \<longrightarrow> clientInitialized s)"
  let ?p = "wa_constructed\<lparr>clientReady := clientReady s\<rparr>"
  have p: "wa_reachable ?p"
  proof (cases "clientReady s")
    case True
    have "wa_step wa_constructed Ready (wa_constructed\<lparr>clientReady := True\<rparr>)"
      by (rule wa_step.ready) (simp_all add: wa_constructed_def)
    with True show ?thesis by (simp add: wa_reachable.step [OF wa_reachable.start])
  next
    case False
    then show ?thesis using wa_reachable.start by (simp add: wa_constructed_def)
  qed
  have res: "wa_step ?p Resolve (?p\<lparr>init_pending := False\<rparr>)" by (rule wa_step.resolve) (simp add: wa_constructed_def)
  have rej: "wa_step ?p Reject (?p\<lparr>clientInitialized := False, init_pending := False\<rparr>)"
    by (rule wa_step.reject) (simp add: wa_constructed_def)
  consider "init_pending s" | "clientInitialized s" "\<not> init_pending s" | "\<not> clientInitialized s" "\<not> init_pending s"
    by blast
  then show "wa_reachable s"
  proof cases
    case 1
    with c have "s = ?p" by (cases s) (simp add: wa_constructed_def)
    with p show ?thesis by simp
  next
    case 2
    with c have "s = ?p\<lparr>init_pending := False\<rparr>" by (cases s) (simp add: wa_constructed_def)
    with wa_reachable.step [OF p res] show ?thesis by simp
  next
    case 3
    with c have "s = ?p\<lparr>clientInitialized := False, init_pending := False\<rparr>" by (cases s) (simp add: wa_constructed_def)
    with wa_reachable.step [OF p rej] show ?thesis by simp
  qed
qed

theorem wa_reachable_iff_witness:
  "wa_reachable (wa_constructed\<lparr>clientInitialized := False, init_pending := False, clientReady := True\<rparr>)"
  by (simp add: wa_reachable_iff wa_constructed_def)

text \<open>
  C16. \<open>sendMessage\<close> refines the session machine: the state it leaves is the one the
  events its initialisation stands for lead to (none when the flag is set; otherwise a
  new initialisation, then the rejection, or the \<open>ready\<close> event if it fired and the
  resolution). The machine is deterministic, so this state is the only one that trace
  reaches.
\<close>

theorem wa_sendMessage_refines:
  "wa_steps s (wa_init_trace s io) (fst (snd (wa_sendMessage s io p msg net now d)))"
proof -
  have "(if \<not> clientInitialized s then wa_initializeClient s io else s) = wa_initializeClient s io"
    by (simp add: wa_initializeClient_def)
  then show ?thesis by (simp add: wa_sendMessage_state wa_initializeClient_steps)
qed

text \<open>
  C18. Once \<open>client.initialize()\<close> has resolved, the session is never initialised again: no
  run of the machine clears \<open>clientInitialized\<close> or starts another initialisation, so a
  client that resolved without becoming ready stays so until its own \<open>ready\<close> event.
\<close>

theorem wa_resolved_stays:
  assumes "wa_steps s es t" and "clientInitialized s" and "\<not> init_pending s"
  shows "clientInitialized t \<and> \<not> init_pending t \<and> Initialize \<notin> set es"
proof -
  have "clientInitialized t \<and> \<not> init_pending t" using assms by (rule wa_steps_resolved_aux)
  moreover have "Initialize \<notin> set es" using assms
    by (induction rule: wa_steps.induct) (auto elim: wa_stepE)
  ultimately show ?thesis by simp
qed

theorem wa_resolved_stays_witness:
  "clientInitialized (wa_constructed\<lparr>init_pending := False, clientReady := True\<rparr>) \<and>
   \<not> init_pending (wa_constructed\<lparr>init_pending := False, clientReady := True\<rparr>) \<and> Initialize \<notin> set [Ready]"
proof -
  have "wa_step (wa_constructed\<lparr>init_pending := False\<rparr>) Ready (wa_constructed\<lparr>init_pending := False, clientReady := True\<rparr>)"
    using wa_step.ready [of "wa_constructed\<lparr>init_pending := False\<rparr>"] by (simp add: wa_constructed_def)
  from wa_resolved_stays [OF wa_steps_one [OF this]] show ?thesis by (simp add: wa_constructed_def)
qed

text \<open>
  C17. A WhatsApp message is handed to the network only when the client is ready, and then
  exactly one, addressed to the digits of the phone number at \<open>@c.us\<close>.
\<close>

theorem wa_sendMessage_only_when_ready:
  assumes "wa_sendMessage s io p msg net now d = (r, s', sent, d')" and "sent \<noteq> []"
  shows "clientReady s' \<and> sent = [\<lparr>om_channel = WhatsApp, om_to = wa_chatId p, om_text = msg\<rparr>]"
proof (cases "clientReady (if \<not> clientInitialized s then wa_initializeClient s io else s)")
  case True
  then show ?thesis using assms wa_sendMessage_ready [OF True, of p msg net now d] by auto
next
  case False
  then show ?thesis using assms wa_sendMessage_not_ready [OF False, of p msg net now d] by simp
qed

theorem wa_sendMessage_only_when_ready_witness:
  "clientReady (wa_constructed\<lparr>clientReady := True\<rparr>) \<and>
   [\<lparr>om_channel = WhatsApp, om_to = ''62812@c.us'', om_text = ''hi''\<rparr>]
     = [\<lparr>om_channel = WhatsApp, om_to = wa_chatId ''+62 812'', om_text = ''hi''\<rparr>]"
proof -
  let ?s = "wa_constructed\<lparr>clientReady := True\<rparr>"
  have c: "wa_chatId ''+62 812'' = ''62812@c.us''" by (simp add: wa_chatId_def is_digit_def)
  have "wa_sendMessage ?s (InitResolved True) ''+62 812'' ''hi'' (\<lambda>_. Delivered) 0 empty_db
     = (Inr (), ?s, [\<lparr>om_channel = WhatsApp, om_to = ''62812@c.us'', om_text = ''hi''\<rparr>],
        logged WhatsApp ''hi'' Sent None 0 empty_db)"
    by (simp add: wa_sendMessage_def wa_constructed_def c)
  from wa_sendMessage_only_when_ready [OF this] show ?thesis by (simp add: c)
qed

text \<open>
  Once ready, always ready: no run of the session machine clears \<open>clientReady\<close>
  (the notifier has no handler for a lost session).
\<close>

theorem wa_ready_stays:
  assumes "wa_steps s es t" and "clientReady s"
  shows "clientReady t"
  using assms by (rule wa_steps_ready_mono_aux)

theorem wa_ready_stays_witness:
  "clientReady (wa_constructed\<lparr>clientReady := True, clientInitialized := False, init_pending := False\<rparr>)"
proof -
  have "wa_step (wa_constructed\<lparr>clientReady := True\<rparr>) Reject
          (wa_constructed\<lparr>clientReady := True, clientInitialized := False, init_pending := False\<rparr>)"
    using wa_step.reject [of "wa_constructed\<lparr>clientReady := True\<rparr>"] by (simp add: wa_constructed_def)
  then show ?thesis by (rule wa_ready_stays [OF wa_steps_one]) (simp add: wa_constructed_def)
qed

text \<open>
  Phone normalisation round trip: the chat id keeps exactly the digits of the phone
  number, and normalising an already normalised number changes nothing.
\<close>

theorem wa_chatId_roundtrip:
  "filter is_digit (wa_chatId p) = filter is_digit p \<and> wa_chatId (filter is_digit p) = wa_chatId p"
proof -
  have "filter is_digit ''@c.us'' = []" by (simp add: is_digit_def)
  then show ?thesis by (simp add: wa_chatId_def)
qed

text \<open>
  C19. A rejected initialization does not disable the channel: after any number of sends
  whose \<open>initialize\<close> is rejected (each logged as not ready, none handed out), the next
  send whose initialization resolves with the client ready hands its message to WhatsApp.
\<close>

theorem wa_rejected_then_ready:
  assumes "\<not> clientInitialized s" and "\<not> clientReady s"
  shows "\<exists>d'. wa_sendRun s (map (\<lambda>m. (InitRejected, p, m)) ms @ [(InitResolved True, p, m')]) net now d =
    (s\<lparr>wa_client := True, clientInitialized := True, init_pending := False, clientReady := True\<rparr>,
     [\<lparr>om_channel = WhatsApp, om_to = wa_chatId p, om_text = m'\<rparr>], d')"
  using assms
proof (induction ms arbitrary: s d)
  case Nil
  then obtain r d' where "wa_sendMessage s (InitResolved True) p m' net now d =
    (r, s\<lparr>wa_client := True, clientInitialized := True, init_pending := False, clientReady := True\<rparr>,
     [\<lparr>om_channel = WhatsApp, om_to = wa_chatId p, om_text = m'\<rparr>], d')"
    using wa_send_resolved_ready by blast
  then show ?case by simp
next
  case (Cons m ms)
  obtain d1 where 1: "wa_sendMessage s InitRejected p m net now d = (Inl ClientNotReady, s\<lparr>wa_client := True, init_pending := False\<rparr>, [], d1)"
    using wa_send_rejected [OF Cons.prems] by blast
  have "\<not> clientInitialized (s\<lparr>wa_client := True, init_pending := False\<rparr>)" "\<not> clientReady (s\<lparr>wa_client := True, init_pending := False\<rparr>)"
    using Cons.prems by simp_all
  from Cons.IH [OF this] obtain d' where
    "wa_sendRun (s\<lparr>wa_client := True, init_pending := False\<rparr>) (map (\<lambda>m. (InitRejected, p, m)) ms @ [(InitResolved True, p, m')]) net now d1 =
      (s\<lparr>wa_client := True, clientInitialized := True, init_pending := False, clientReady := True\<rparr>,
       [\<lparr>om_channel = WhatsApp, om_to = wa_chatId p, om_text = m'\<rparr>], d')" by fastforce
  then show ?case using 1 by simp
qed

theorem wa_rejected_then_ready_witness:
  "\<exists>d'. wa_sendRun (wa_constructed\<lparr>clientInitialized := False, init_pending := False\<rparr>)
      (map (\<lambda>m. (InitRejected, ''+62 812'', m)) [''a'', ''b''] @ [(InitResolved True, ''+62 812'', ''c'')]) (\<lambda>_. Delivered) 0 empty_db =
    (wa_constructed\<lparr>clientInitialized := False, init_pending := False\<rparr>\<lparr>wa_client := True, clientInitialized := True, init_pending := False, clientReady := True\<rparr>,
     [\<lparr>om_channel = WhatsApp, om_to = wa_chatId ''+62 812'', om_text = ''c''\<rparr>], d')"
  by (rule wa_rejected_then_ready) (simp_all add: wa_constructed_def)

end
