(* ===== verification/Pipeline.thy ===== *)
theory Pipeline
  imports MetalPrice Telegram WhatsApp
begin

text \<open>
  The scheduler part of \<open>registerRoutes\<close> in \<open>src/server/routes.ts\<close>: the price
  update at startup, the hourly tick (update with fallback Emasku, Pegadaian,
  metals.live, then the alert check of the source that succeeded and the
  notifications), and the daily-summary tick. The process state is a record of the
  database, the two source caches and the two notifiers; what the outside world answers
  during one tick is a record of the three source responses, the answers of the
  messaging networks, and the outcome of a WhatsApp initialisation.
\<close>

record world =
  w_db :: db
  w_peg :: "peg_data ttl_cache"
  w_metal :: "metal_data ttl_cache"
  w_tg :: tg_notifier
  w_wa :: wa_state

record env =
  e_emasku :: "emasku_page http_result"
  e_peg :: "peg_page http_result"
  e_metal :: "metal_body http_result"
  e_net :: "outmsg \<Rightarrow> send_outcome"
  e_wa_init :: wa_init_outcome

datatype source_error = SrcEmasku emasku_error | SrcPeg pegadaian_error | SrcMetal metal_error

section \<open>Sources\<close>

text \<open>\<open>emaskuScraper.updateGoldPrices()\<close>, \<open>pegadaianScraper.updateGoldPrices()\<close> and
  \<open>metalPriceAPI.updateGoldPrice()\<close> on the process state; a cache keeps what the call
  left in it also when the call throws.\<close>

definition src_emasku :: "timestamp \<Rightarrow> env \<Rightarrow> world \<Rightarrow> (source_error + unit) \<times> world" where
  "src_emasku now e w =
     (case emasku_updateGoldPrices now (e_emasku e) (w_db w) of
        Inl err \<Rightarrow> (Inl (SrcEmasku err), w)
      | Inr (_, d') \<Rightarrow> (Inr (), w\<lparr>w_db := d'\<rparr>))"

definition src_peg :: "timestamp \<Rightarrow> env \<Rightarrow> world \<Rightarrow> (source_error + unit) \<times> world" where
  "src_peg now e w =
     (case peg_updateGoldPrices now (e_peg e) (w_peg w) (w_db w) of
        (Inl err, c', d') \<Rightarrow> (Inl (SrcPeg err), w\<lparr>w_peg := c', w_db := d'\<rparr>)
      | (Inr _, c', d') \<Rightarrow> (Inr (), w\<lparr>w_peg := c', w_db := d'\<rparr>))"

definition src_metal :: "timestamp \<Rightarrow> env \<Rightarrow> world \<Rightarrow> (source_error + unit) \<times> world" where
  "src_metal now e w =
     (case metal_updateGoldPrice now (e_metal e) (w_metal w) (w_db w) of
        (Inl err, c', d') \<Rightarrow> (Inl (SrcMetal err), w\<lparr>w_metal := c', w_db := d'\<rparr>)
      | (Inr _, c', d') \<Rightarrow> (Inr (), w\<lparr>w_metal := c', w_db := d'\<rparr>))"

text \<open>Lines 20-40: the startup chain, written out as the code nests it.\<close>

definition startup :: "timestamp \<Rightarrow> env \<Rightarrow> world \<Rightarrow> world" where
  "startup now e w =
     (case src_emasku now e w of
        (Inr _, w1) \<Rightarrow> w1
      | (Inl _, w1) \<Rightarrow>
          (case src_peg now e w1 of
             (Inr _, w2) \<Rightarrow> w2
           | (Inl _, w2) \<Rightarrow> snd (src_metal now e w2)))"

section \<open>Notifying the triggered alerts\<close>

text \<open>
  Lines 67-81: for each alert, Telegram when it is on, then WhatsApp when it is on, in
  one \<open>try\<close>: an exception of the Telegram send skips the WhatsApp send of that alert;
  the loop goes on with the next alert.
\<close>

definition notify_alert :: "timestamp \<Rightarrow> env \<Rightarrow> current_price \<Rightarrow> price_alert \<Rightarrow> world \<Rightarrow> world \<times> outmsg list" where
  "notify_alert now e cur a w =
     (let (r1, sent1, d1) = (if telegram_on a then tg_sendPriceAlert (w_tg w) a cur (e_net e) now (w_db w)
                             else (Inr False, [], w_db w));
          w1 = w\<lparr>w_db := d1\<rparr>
      in case r1 of
           Inl _ \<Rightarrow> (w1, sent1)
         | Inr _ \<Rightarrow>
             if whatsapp_on a then
               (case wa_sendPriceAlert (w_wa w1) (e_wa_init e) a cur (e_net e) now (w_db w1) of
                  (_, s2, sent2, d2) \<Rightarrow> (w1\<lparr>w_db := d2, w_wa := s2\<rparr>, sent1 @ sent2))
             else (w1, sent1))"

fun notify_all :: "timestamp \<Rightarrow> env \<Rightarrow> current_price \<Rightarrow> price_alert list \<Rightarrow> world \<Rightarrow> world \<times> outmsg list" where
  "notify_all now e cur [] w = (w, [])"
| "notify_all now e cur (a # as) w =
     (case notify_alert now e cur a w of
        (w1, s1) \<Rightarrow> (case notify_all now e cur as w1 of (w2, s2) \<Rightarrow> (w2, s1 @ s2)))"

section \<open>The hourly tick\<close>

text \<open>
  Lines 43-113. After Emasku succeeds only its own (inert) \<open>checkPriceAlerts\<close> runs.
  When \<open>checkPriceAlerts\<close> of Pegadaian returns \<open>[]\<close> (no price stored), destructuring
  gives \<open>triggeredAlerts = undefined\<close> and the \<open>for ... of\<close> throws, which the
  Pegadaian \<open>catch\<close> turns into the metals.live branch; in that branch the same throw
  ends the tick.
\<close>

definition hourly_metal :: "timestamp \<Rightarrow> env \<Rightarrow> world \<Rightarrow> world \<times> outmsg list" where
  "hourly_metal now e w =
     (case src_metal now e w of
        (Inl _, w3) \<Rightarrow> (w3, [])
      | (Inr _, w3) \<Rightarrow>
          (case metal_checkPriceAlerts now (w_db w3) of
             None \<Rightarrow> (w3, [])
           | Some (al, cur) \<Rightarrow> notify_all now e cur al w3))"

definition hourly :: "timestamp \<Rightarrow> env \<Rightarrow> world \<Rightarrow> world \<times> outmsg list" where
  "hourly now e w =
     (case src_emasku now e w of
        (Inr _, w1) \<Rightarrow> (w1\<lparr>w_db := emasku_checkPriceAlerts now (w_db w1)\<rparr>, [])
      | (Inl _, w1) \<Rightarrow>
          (case src_peg now e w1 of
             (Inl _, w2) \<Rightarrow> hourly_metal now e w2
           | (Inr _, w2) \<Rightarrow>
               (case peg_checkPriceAlerts now (w_db w2) of
                  None \<Rightarrow> hourly_metal now e w2
                | Some (al, cur) \<Rightarrow> notify_all now e cur al w2)))"

section \<open>The daily-summary tick\<close>

text \<open>\<open>currentHour < 10 ? `0${currentHour}:00` : `${currentHour}:00`\<close>, of which the tick
  compares the first two characters with the start of \<open>dailyTime\<close>.\<close>

definition hour_str :: "nat \<Rightarrow> string" where
  "hour_str h = (if h < 10 then ''0'' @ show_nat h @ '':00'' else show_nat h @ '':00'')"

definition daily_due :: "timestamp \<Rightarrow> price_alert \<Rightarrow> bool" where
  "daily_due now a \<longleftrightarrow>
     alertType a = ''daily'' \<and>
     (case dailyTime a of None \<Rightarrow> False | Some t \<Rightarrow> t \<noteq> [] \<and> starts_with t (take 2 (hour_str (hour_of now))))"

definition summarize_alert :: "timestamp \<Rightarrow> env \<Rightarrow> current_price option \<Rightarrow> price_alert \<Rightarrow> world \<Rightarrow> world \<times> outmsg list" where
  "summarize_alert now e cp a w =
     (let (r1, sent1, d1) = (if telegram_on a then tg_sendDailySummary (w_tg w) a cp (e_net e) now (w_db w)
                             else (Inr False, [], w_db w));
          w1 = w\<lparr>w_db := d1\<rparr>
      in case r1 of
           Inl _ \<Rightarrow> (w1, sent1)
         | Inr _ \<Rightarrow>
             if whatsapp_on a then
               (case wa_sendDailySummary (w_wa w1) (e_wa_init e) a cp (e_net e) now (w_db w1) of
                  (_, s2, sent2, d2) \<Rightarrow> (w1\<lparr>w_db := d2, w_wa := s2\<rparr>, sent1 @ sent2))
             else (w1, sent1))"

fun summarize_all :: "timestamp \<Rightarrow> env \<Rightarrow> current_price option \<Rightarrow> price_alert list \<Rightarrow> world \<Rightarrow> world \<times> outmsg list" where
  "summarize_all now e cp [] w = (w, [])"
| "summarize_all now e cp (a # as) w =
     (case summarize_alert now e cp a w of
        (w1, s1) \<Rightarrow> (case summarize_all now e cp as w1 of (w2, s2) \<Rightarrow> (w2, s1 @ s2)))"

definition daily :: "timestamp \<Rightarrow> env \<Rightarrow> world \<Rightarrow> world \<times> outmsg list" where
  "daily now e w =
     (let als = filter (daily_due now) (getPriceAlerts (w_db w))
      in if als = [] then (w, [])
         else summarize_all now e (getCurrentGoldPrice now (w_db w)) als w)"

section \<open>Example data\<close>

definition ex_world :: world where
  "ex_world = \<lparr>w_db = ex_db, w_peg = empty_cache, w_metal = empty_cache, w_tg = ex_bot, w_wa = wa_constructed\<rparr>"

definition ex_env :: env where
  "ex_env = \<lparr>e_emasku = HttpOk nan_sell_page, e_peg = HttpTimeout, e_metal = HttpTimeout,
     e_net = (\<lambda>_. Delivered), e_wa_init = InitResolved False\<rparr>"

definition ex_alert_both :: price_alert where
  "ex_alert_both = ex_alert_1050\<lparr>whatsappEnabled := Some True, phoneNumber := Some ''+62 812''\<rparr>"

definition ex_daily :: price_alert where
  "ex_daily = ex_alert\<lparr>alertType := ''daily'', targetPrice := None, dailyTime := Some ''07:30''\<rparr>"

section \<open>Lemmas\<close>

lemma hour_str_prefix:
  "h < 100 \<Longrightarrow> take 2 (hour_str h) = [digit_char (h div 10), digit_char (h mod 10)]"
  by (cases "h < 10") (simp_all add: hour_str_def show_nat.simps digit_char_simps show_nat_2digits)

lemma daily_due_chars:
  assumes "alertType a = ''daily''" and "dailyTime a = Some (d1 # d2 # rest)"
  shows "daily_due now a \<longleftrightarrow> d1 = digit_char (hour_of now div 10) \<and> d2 = digit_char (hour_of now mod 10)"
proof -
  have "hour_of now < 100" using hour_of_lt_24 [of now] by simp
  then show ?thesis using assms by (simp add: daily_due_def hour_str_prefix starts_with_def)
qed

section \<open>Properties\<close>

text \<open>
  While Emasku works, the hourly tick notifies nobody: after a successful Emasku
  update it runs only Emasku's alert check, which never fires, so no message is sent and
  the tick leaves the state as the update left it.
\<close>

theorem hourly_emasku_ok:
  assumes "src_emasku now e w = (Inr u, w1)"
  shows "hourly now e w = (w1, [])"
  using assms by (simp add: hourly_def emasku_checkPriceAlerts_def emasku_check_loop_inert split: option.split)

theorem hourly_emasku_ok_witness:
  "hourly 0 ex_env ex_world = (ex_world\<lparr>w_db := ex_db\<lparr>goldPrices := goldPrices ex_db @ [\<lparr>gp_id = seq_gold ex_db, date = 0, buyPrice = Dec 1874000,
             sellPrice = DecNaN, pricePerGram = Dec 1874000, source = ''Emasku'', highPrice = None,
             lowPrice = None\<rparr>], seq_gold := Suc (seq_gold ex_db)\<rparr>\<rparr>, [])"
proof -
  have "src_emasku 0 ex_env ex_world
     = (Inr (), ex_world\<lparr>w_db := ex_db\<lparr>goldPrices := goldPrices ex_db @ [\<lparr>gp_id = seq_gold ex_db, date = 0, buyPrice = Dec 1874000,
             sellPrice = DecNaN, pricePerGram = Dec 1874000, source = ''Emasku'', highPrice = None,
             lowPrice = None\<rparr>], seq_gold := Suc (seq_gold ex_db)\<rparr>\<rparr>)"
    by (simp add: src_emasku_def ex_env_def ex_world_def nan_sell_page_update)
  then show ?thesis by (rule hourly_emasku_ok)
qed

text \<open>
  C20. Channels are not isolated: for an alert with both channels on, a failed Telegram
  send is logged and ends the alert's \<open>try\<close>, so its WhatsApp message is never
  attempted (the specification requires an attempt on every enabled channel).
\<close>

theorem notify_alert_telegram_failure_skips_whatsapp:
  assumes "telegram_on a" and "whatsapp_on a" and "tg_bot (w_tg w)" and "telegramChatId a = Some cid"
    and "alertType a = ''increase'' \<or> alertType a = ''decrease''"
    and "e_net e \<lparr>om_channel = Telegram, om_to = cid, om_text = tg_alert_message a cur\<rparr> = SendError m"
  shows "notify_alert now e cur a w =
           (w\<lparr>w_db := logged Telegram (tg_alert_message a cur) Failed (Some m) now (w_db w)\<rparr>,
            [\<lparr>om_channel = Telegram, om_to = cid, om_text = tg_alert_message a cur\<rparr>])"
  using assms by (simp add: notify_alert_def tg_sendPriceAlert_send)

theorem notify_alert_telegram_failure_skips_whatsapp_witness:
  "notify_alert 0 (ex_env\<lparr>e_net := \<lambda>_. SendError ''ETIMEDOUT''\<rparr>) ex_cur ex_alert_both ex_world =
     (ex_world\<lparr>w_db := logged Telegram (tg_alert_message ex_alert_both ex_cur) Failed (Some ''ETIMEDOUT'') 0 ex_db\<rparr>,
      [\<lparr>om_channel = Telegram, om_to = ''42'', om_text = tg_alert_message ex_alert_both ex_cur\<rparr>])"
proof -
  have "telegram_on ex_alert_both" "whatsapp_on ex_alert_both" "telegramChatId ex_alert_both = Some ''42''"
    "alertType ex_alert_both = ''increase''"
    by (simp_all add: ex_alert_both_def ex_alert_1050_def ex_alert_def telegram_on_def whatsapp_on_def)
  moreover have "tg_bot (w_tg ex_world)" by (simp add: ex_world_def ex_bot_on)
  ultimately show ?thesis
    using notify_alert_telegram_failure_skips_whatsapp [of ex_alert_both ex_world "''42''"] by (simp add: ex_world_def)
qed

text \<open>
  C21. For a \<open>dailyTime\<close> of the form \<open>HH:MM\<close>, a daily alert is due at exactly the
  ticks whose hour is \<open>HH\<close>.
\<close>

theorem daily_due_iff:
  assumes "alertType a = ''daily''" and "dailyTime a = Some (d1 # d2 # rest)"
    and "is_digit d1" and "is_digit d2"
  shows "daily_due now a \<longleftrightarrow> hour_of now = 10 * digit_val d1 + digit_val d2"
proof -
  have v: "digit_val d1 < 10" "digit_val d2 < 10" using assms(3,4) by (simp_all add: digit_val_lt_10)
  show ?thesis
  proof
    assume "daily_due now a"
    then have "d1 = digit_char (hour_of now div 10)" "d2 = digit_char (hour_of now mod 10)"
      using daily_due_chars [OF assms(1,2)] by simp_all
    then have "digit_val d1 = hour_of now div 10" "digit_val d2 = hour_of now mod 10"
      using hour_of_lt_24 [of now] by (simp_all add: digit_val_digit_char)
    then show "hour_of now = 10 * digit_val d1 + digit_val d2" by simp
  next
    assume h: "hour_of now = 10 * digit_val d1 + digit_val d2"
    then have "hour_of now div 10 = digit_val d1" "hour_of now mod 10 = digit_val d2" using v by simp_all
    then show "daily_due now a"
      using daily_due_chars [OF assms(1,2)] assms(3,4) by (simp add: digit_char_digit_val)
  qed
qed

theorem daily_due_iff_witness:
  "daily_due (7 * ms_per_hour) ex_daily \<longleftrightarrow> hour_of (7 * ms_per_hour) = 10 * digit_val (CHR ''0'') + digit_val (CHR ''7'')"
  by (rule daily_due_iff [of _ _ _ "'':30''"]) (simp_all add: ex_daily_def is_digit_def)

text \<open>
  A \<open>dailyTime\<close> with a one-digit hour, such as \<open>7:00\<close>, is never due: the tick
  compares it with the two-digit string \<open>07\<close> (the specification fires when the hour
  equals the parsed hour).
\<close>

theorem daily_single_digit_hour_never:
  assumes "dailyTime a = Some (d # CHR '':'' # rest)"
  shows "\<not> daily_due now a"
proof
  assume due: "daily_due now a"
  then have "alertType a = ''daily''" by (simp add: daily_due_def)
  with due assms have "CHR '':'' = digit_char (hour_of now mod 10)" by (simp add: daily_due_chars)
  moreover have "is_digit (digit_char (hour_of now mod 10))" by (simp add: is_digit_digit_char)
  ultimately show False using nondigit_chars by metis
qed

theorem daily_single_digit_hour_never_witness:
  "\<not> daily_due (7 * ms_per_hour) (ex_daily\<lparr>dailyTime := Some ''7:00''\<rparr>)"
  by (rule daily_single_digit_hour_never [of _ "CHR ''7''" "''00''"]) simp

end
