(* ===== verification/AlertStore.thy ===== *)
theory AlertStore
  imports Storage
begin

text \<open>
  The writing methods of \<open>storage\<close> for price alerts and investments
  (\<open>src/server/storage.js\<close>, lines 215-376), on the objects the HTTP handlers pass after
  validation. A property of such an object is absent (\<open>Omitted\<close>, drizzle then uses
  the column default), \<open>null\<close>, or a value; numbers sent for a \<open>numeric\<close> column are the
  strings zod accepted, which PostgreSQL parses. A client may send an \<open>id\<close>: it is
  stored as given and the serial sequence is not advanced.
\<close>

datatype 'a field = Omitted | Null | Val 'a

section \<open>PostgreSQL input of numbers\<close>

text \<open>\<open>numeric(p, s)\<close> input of a string: blanks around an optional sign, digits with at
  most one decimal point and at least one digit, or \<open>NaN\<close> in any case; the value is
  rounded to \<open>s\<close> places, half away from zero. Exponents are not modelled.\<close>

definition round_scale :: "nat \<Rightarrow> rat \<Rightarrow> rat" where
  "round_scale k r = sgn r * of_int \<lfloor>\<bar>r\<bar> * 10 ^ k + 1 / 2\<rfloor> / 10 ^ k"

definition lower_ascii :: "string \<Rightarrow> string" where
  "lower_ascii = map (\<lambda>c. if CHR ''A'' \<le> c \<and> c \<le> CHR ''Z'' then char_of (of_char c + (32::nat)) else c)"

definition numeral_ok :: "string \<Rightarrow> bool" where
  "numeral_ok t =
     (let u = (if t \<noteq> [] \<and> (hd t = CHR ''-'' \<or> hd t = CHR ''+'') then tl t else t)
      in list_all (\<lambda>c. is_digit c \<or> c = CHR ''.'') u \<and> length (filter (\<lambda>c. c = CHR ''.'') u) \<le> 1
         \<and> list_ex is_digit u)"

definition pg_numeric_in :: "nat \<Rightarrow> string \<Rightarrow> numeric option" where
  "pg_numeric_in k s =
     (let t = trim s in
      if lower_ascii t = ''nan'' then Some DecNaN
      else if numeral_ok t then map_option (\<lambda>r. Dec (round_scale k r)) (parse_float t) else None)"

definition text_numeric :: "nat \<Rightarrow> nat \<Rightarrow> string \<Rightarrow> string \<Rightarrow> db_error + numeric" where
  "text_numeric p k col s =
     (case pg_numeric_in k s of
        None \<Rightarrow> Inl (InvalidInput col)
      | Some DecNaN \<Rightarrow> Inr DecNaN
      | Some (Dec r) \<Rightarrow> if \<bar>r\<bar> < 10 ^ (p - k) then Inr (Dec r) else Inl (NumericOverflow col))"

text \<open>A JSON number sent for an \<open>integer\<close> column.\<close>

definition pg_int_in :: "string \<Rightarrow> rat \<Rightarrow> db_error + int" where
  "pg_int_in col r =
     (if of_int \<lfloor>r\<rfloor> \<noteq> r then Inl (InvalidInput col)
      else if - (2 ^ 31) \<le> \<lfloor>r\<rfloor> \<and> \<lfloor>r\<rfloor> < 2 ^ 31 then Inr \<lfloor>r\<rfloor> else Inl (NumericOverflow col))"

section \<open>Columns of an insert\<close>

definition bool_col :: "bool \<Rightarrow> bool field \<Rightarrow> bool option" where
  "bool_col dflt f = (case f of Omitted \<Rightarrow> Some dflt | Null \<Rightarrow> None | Val b \<Rightarrow> Some b)"

definition opt_col :: "'a field \<Rightarrow> 'a option" where
  "opt_col f = (case f of Val v \<Rightarrow> Some v | _ \<Rightarrow> None)"

definition numeric_col :: "nat \<Rightarrow> nat \<Rightarrow> string \<Rightarrow> string field \<Rightarrow> db_error + numeric option" where
  "numeric_col p k col f = (case f of Val s \<Rightarrow> map_sum id Some (text_numeric p k col s) | _ \<Rightarrow> Inr None)"

definition serial_col :: "string \<Rightarrow> nat \<Rightarrow> rat field \<Rightarrow> db_error + (int \<times> bool)" where
  "serial_col col sq f =
     (case f of
        Omitted \<Rightarrow> Inr (int sq, True)
      | Null \<Rightarrow> Inl (NotNullViolation col)
      | Val r \<Rightarrow> map_sum id (\<lambda>i. (i, False)) (pg_int_in col r))"

definition required_col :: "string \<Rightarrow> 'a field \<Rightarrow> db_error + 'a" where
  "required_col col f = (case f of Val v \<Rightarrow> Inr v | _ \<Rightarrow> Inl (NotNullViolation col))"

definition default_col :: "string \<Rightarrow> 'a \<Rightarrow> 'a field \<Rightarrow> db_error + 'a" where
  "default_col col dflt f = (case f of Omitted \<Rightarrow> Inr dflt | Null \<Rightarrow> Inl (NotNullViolation col) | Val v \<Rightarrow> Inr v)"

section \<open>Price alerts\<close>

record alert_in =
  ai_id :: "rat field"
  ai_alertType :: "string field"
  ai_targetPrice :: "string field"
  ai_whatsappEnabled :: "bool field"
  ai_telegramEnabled :: "bool field"
  ai_phoneNumber :: "string field"
  ai_telegramChatId :: "string field"
  ai_active :: "bool field"
  ai_createdAt :: "timestamp field"
  ai_lastTriggered :: "timestamp field"
  ai_dailyTime :: "string field"

definition no_alert_fields :: alert_in where
  "no_alert_fields = \<lparr>ai_id = Omitted, ai_alertType = Omitted, ai_targetPrice = Omitted,
     ai_whatsappEnabled = Omitted, ai_telegramEnabled = Omitted, ai_phoneNumber = Omitted,
     ai_telegramChatId = Omitted, ai_active = Omitted, ai_createdAt = Omitted, ai_lastTriggered = Omitted,
     ai_dailyTime = Omitted\<rparr>"

definition createPriceAlert :: "timestamp \<Rightarrow> alert_in \<Rightarrow> db \<Rightarrow> db_error + (price_alert \<times> db)" where
  "createPriceAlert now ai d =
     bind_sum (serial_col ''id'' (seq_alert d) (ai_id ai)) (\<lambda>(i, from_seq).
     bind_sum (required_col ''alert_type'' (ai_alertType ai)) (\<lambda>ty.
     bind_sum (numeric_col 10 2 ''target_price'' (ai_targetPrice ai)) (\<lambda>tp.
     bind_sum (default_col ''created_at'' now (ai_createdAt ai)) (\<lambda>ca.
       if find (\<lambda>a. alert_id a = i) (priceAlerts d) \<noteq> None then Inl (UniqueViolation ''price_alerts_pkey'')
       else
         let row = \<lparr>alert_id = i, alertType = ty, targetPrice = tp,
                    whatsappEnabled = bool_col False (ai_whatsappEnabled ai),
                    telegramEnabled = bool_col False (ai_telegramEnabled ai),
                    phoneNumber = opt_col (ai_phoneNumber ai), telegramChatId = opt_col (ai_telegramChatId ai),
                    active = bool_col True (ai_active ai), createdAt = ca,
                    lastTriggered = opt_col (ai_lastTriggered ai), dailyTime = opt_col (ai_dailyTime ai)\<rparr>
         in Inr (row, d\<lparr>priceAlerts := priceAlerts d @ [row],
                       seq_alert := (if from_seq then Suc (seq_alert d) else seq_alert d)\<rparr>)))))"

text \<open>\<open>.set(alertData)\<close> of the given properties; drizzle throws on an object without any.\<close>

definition upd_col :: "'a field \<Rightarrow> 'a option \<Rightarrow> 'a option" where
  "upd_col f old = (case f of Omitted \<Rightarrow> old | Null \<Rightarrow> None | Val v \<Rightarrow> Some v)"

definition upd_req :: "string \<Rightarrow> 'a field \<Rightarrow> 'a \<Rightarrow> db_error + 'a" where
  "upd_req col f old = (case f of Omitted \<Rightarrow> Inr old | Null \<Rightarrow> Inl (NotNullViolation col) | Val v \<Rightarrow> Inr v)"

definition upd_numeric :: "nat \<Rightarrow> nat \<Rightarrow> string \<Rightarrow> string field \<Rightarrow> numeric option \<Rightarrow> db_error + numeric option" where
  "upd_numeric p k col f old =
     (case f of Omitted \<Rightarrow> Inr old | Null \<Rightarrow> Inr None | Val s \<Rightarrow> map_sum id Some (text_numeric p k col s))"

definition upd_id :: "string \<Rightarrow> rat field \<Rightarrow> int \<Rightarrow> db_error + int" where
  "upd_id col f old = (case f of Omitted \<Rightarrow> Inr old | Null \<Rightarrow> Inl (NotNullViolation col) | Val r \<Rightarrow> pg_int_in col r)"

definition alert_set :: "alert_in \<Rightarrow> price_alert \<Rightarrow> db_error + price_alert" where
  "alert_set ai a =
     bind_sum (upd_id ''id'' (ai_id ai) (alert_id a)) (\<lambda>i.
     bind_sum (upd_req ''alert_type'' (ai_alertType ai) (alertType a)) (\<lambda>ty.
     bind_sum (upd_numeric 10 2 ''target_price'' (ai_targetPrice ai) (targetPrice a)) (\<lambda>tp.
     bind_sum (upd_req ''created_at'' (ai_createdAt ai) (createdAt a)) (\<lambda>ca.
       Inr \<lparr>alert_id = i, alertType = ty, targetPrice = tp,
            whatsappEnabled = upd_col (ai_whatsappEnabled ai) (whatsappEnabled a),
            telegramEnabled = upd_col (ai_telegramEnabled ai) (telegramEnabled a),
            phoneNumber = upd_col (ai_phoneNumber ai) (phoneNumber a),
            telegramChatId = upd_col (ai_telegramChatId ai) (telegramChatId a),
            active = upd_col (ai_active ai) (active a), createdAt = ca,
            lastTriggered = upd_col (ai_lastTriggered ai) (lastTriggered a),
            dailyTime = upd_col (ai_dailyTime ai) (dailyTime a)\<rparr>))))"

definition updatePriceAlert :: "int \<Rightarrow> alert_in \<Rightarrow> db \<Rightarrow> db_error + (price_alert option \<times> db)" where
  "updatePriceAlert i ai d =
     (if ai = no_alert_fields then Inl NoValuesToSet
      else case find (\<lambda>a. alert_id a = i) (priceAlerts d) of
        None \<Rightarrow> Inr (None, d)
      | Some a \<Rightarrow>
          bind_sum (alert_set ai a) (\<lambda>a'.
            if find (\<lambda>b. alert_id b = alert_id a' \<and> alert_id b \<noteq> i) (priceAlerts d) \<noteq> None
            then Inl (UniqueViolation ''price_alerts_pkey'')
            else Inr (Some a', d\<lparr>priceAlerts := map (\<lambda>b. if alert_id b = i then a' else b) (priceAlerts d)\<rparr>)))"

section \<open>Investments\<close>

record inv_in =
  ii_id :: "rat field"
  ii_purchaseDate :: "timestamp field"
  ii_weight :: "string field"
  ii_purchasePrice :: "string field"
  ii_purity :: "string field"
  ii_notes :: "string field"
  ii_createdAt :: "timestamp field"

definition getInvestments :: "db \<Rightarrow> investment list" where
  "getInvestments d = sort_key (\<lambda>v. - purchaseDate v) (investments d)"

text \<open>\<open>purity\<close> is \<open>numeric(5, 3)\<close> with default \<open>0.999\<close>.\<close>

definition createInvestment :: "timestamp \<Rightarrow> inv_in \<Rightarrow> db \<Rightarrow> db_error + (investment \<times> db)" where
  "createInvestment now ii d =
     bind_sum (serial_col ''id'' (seq_inv d) (ii_id ii)) (\<lambda>(i, from_seq).
     bind_sum (required_col ''purchase_date'' (ii_purchaseDate ii)) (\<lambda>pd.
     bind_sum (bind_sum (required_col ''weight'' (ii_weight ii)) (text_numeric 10 2 ''weight'')) (\<lambda>w.
     bind_sum (bind_sum (required_col ''purchase_price'' (ii_purchasePrice ii)) (text_numeric 10 2 ''purchase_price'')) (\<lambda>pp.
     bind_sum (bind_sum (default_col ''purity'' ''0.999'' (ii_purity ii)) (text_numeric 5 3 ''purity'')) (\<lambda>pu.
     bind_sum (default_col ''created_at'' now (ii_createdAt ii)) (\<lambda>ca.
       if find (\<lambda>v. inv_id v = i) (investments d) \<noteq> None then Inl (UniqueViolation ''investments_pkey'')
       else
         let row = \<lparr>inv_id = i, purchaseDate = pd, weight = w, purchasePrice = pp, purity = pu,
                    inv_notes = opt_col (ii_notes ii), inv_createdAt = ca\<rparr>
         in Inr (row, d\<lparr>investments := investments d @ [row],
                       seq_inv := (if from_seq then Suc (seq_inv d) else seq_inv d)\<rparr>)))))))"

definition no_inv_fields :: inv_in where
  "no_inv_fields = \<lparr>ii_id = Omitted, ii_purchaseDate = Omitted, ii_weight = Omitted,
     ii_purchasePrice = Omitted, ii_purity = Omitted, ii_notes = Omitted, ii_createdAt = Omitted\<rparr>"

definition upd_text_numeric :: "nat \<Rightarrow> nat \<Rightarrow> string \<Rightarrow> string field \<Rightarrow> numeric \<Rightarrow> db_error + numeric" where
  "upd_text_numeric p k col f old =
     (case f of Omitted \<Rightarrow> Inr old | Null \<Rightarrow> Inl (NotNullViolation col) | Val s \<Rightarrow> text_numeric p k col s)"

definition inv_set :: "inv_in \<Rightarrow> investment \<Rightarrow> db_error + investment" where
  "inv_set ii v =
     bind_sum (upd_id ''id'' (ii_id ii) (inv_id v)) (\<lambda>i.
     bind_sum (upd_req ''purchase_date'' (ii_purchaseDate ii) (purchaseDate v)) (\<lambda>pd.
     bind_sum (upd_text_numeric 10 2 ''weight'' (ii_weight ii) (weight v)) (\<lambda>w.
     bind_sum (upd_text_numeric 10 2 ''purchase_price'' (ii_purchasePrice ii) (purchasePrice v)) (\<lambda>pp.
     bind_sum (upd_text_numeric 5 3 ''purity'' (ii_purity ii) (purity v)) (\<lambda>pu.
     bind_sum (upd_req ''created_at'' (ii_createdAt ii) (inv_createdAt v)) (\<lambda>ca.
       Inr \<lparr>inv_id = i, purchaseDate = pd, weight = w, purchasePrice = pp, purity = pu,
            inv_notes = upd_col (ii_notes ii) (inv_notes v), inv_createdAt = ca\<rparr>))))))"

definition updateInvestment :: "int \<Rightarrow> inv_in \<Rightarrow> db \<Rightarrow> db_error + (investment option \<times> db)" where
  "updateInvestment i ii d =
     (if ii = no_inv_fields then Inl NoValuesToSet
      else case find (\<lambda>v. inv_id v = i) (investments d) of
        None \<Rightarrow> Inr (None, d)
      | Some v \<Rightarrow>
          bind_sum (inv_set ii v) (\<lambda>v'.
            if find (\<lambda>b. inv_id b = inv_id v' \<and> inv_id b \<noteq> i) (investments d) \<noteq> None
            then Inl (UniqueViolation ''investments_pkey'')
            else Inr (Some v', d\<lparr>investments := map (\<lambda>b. if inv_id b = i then v' else b) (investments d)\<rparr>)))"

definition deleteInvestment :: "int \<Rightarrow> db \<Rightarrow> db" where
  "deleteInvestment i d = d\<lparr>investments := filter (\<lambda>v. inv_id v \<noteq> i) (investments d)\<rparr>"

section \<open>Example data\<close>

definition ex_ai :: alert_in where
  "ex_ai = no_alert_fields\<lparr>ai_alertType := Val ''increase''\<rparr>"

definition ex_alert_row :: price_alert where
  "ex_alert_row = \<lparr>alert_id = 1, alertType = ''increase'', targetPrice = None, whatsappEnabled = Some False,
     telegramEnabled = Some False, phoneNumber = None, telegramChatId = None, active = Some True,
     createdAt = 0, lastTriggered = None, dailyTime = None\<rparr>"

section \<open>Lemmas\<close>

lemma createPriceAlert_Inr:
  assumes "createPriceAlert now ai d = Inr (a, d')"
  shows "priceAlerts d' = priceAlerts d @ [a] \<and> find (\<lambda>b. alert_id b = alert_id a) (priceAlerts d) = None"
  using assms by (auto simp: createPriceAlert_def Let_def split: prod.splits if_splits)

lemma find_None_iff_ids: "find (\<lambda>b. alert_id b = i) as = None \<longleftrightarrow> i \<notin> set (map alert_id as)"
  by (auto simp: find_None_iff)

lemma updatePriceAlert_Inr:
  assumes "updatePriceAlert i ai d = Inr (r, d')"
  shows "d' = d \<or> (\<exists>a'. priceAlerts d' = map (\<lambda>b. if alert_id b = i then a' else b) (priceAlerts d)
                  \<and> i \<in> set (map alert_id (priceAlerts d))
                  \<and> find (\<lambda>b. alert_id b = alert_id a' \<and> alert_id b \<noteq> i) (priceAlerts d) = None)"
proof (cases "find (\<lambda>a. alert_id a = i) (priceAlerts d)")
  case None
  then show ?thesis using assms by (simp add: updatePriceAlert_def split: if_splits)
next
  case (Some a)
  then have "i \<in> set (map alert_id (priceAlerts d))" using find_SomeD [OF Some] by force
  with Some assms show ?thesis
    by (auto simp: updatePriceAlert_def split: if_splits sum.splits)
qed

lemma distinct_map_replace:
  assumes "distinct (map alert_id as)" and "i \<in> set (map alert_id as)"
    and "find (\<lambda>b. alert_id b = alert_id a' \<and> alert_id b \<noteq> i) as = None"
  shows "distinct (map alert_id (map (\<lambda>b. if alert_id b = i then a' else b) as))"
proof -
  have eq: "map alert_id (map (\<lambda>b. if alert_id b = i then a' else b) as)
      = map (\<lambda>x. if x = i then alert_id a' else x) (map alert_id as)"
    by simp
  have n: "alert_id a' \<notin> set (map alert_id as) - {i}"
    using assms(3) by (auto simp: find_None_iff)
  show ?thesis unfolding eq by (rule distinct_replace [OF assms(1,2) n])
qed

lemma createPriceAlert_distinct:
  "distinct (map alert_id (priceAlerts d)) \<Longrightarrow> createPriceAlert now ai d = Inr (a, d1) \<Longrightarrow>
   distinct (map alert_id (priceAlerts d1))"
  using createPriceAlert_Inr by (fastforce simp: find_None_iff_ids)

lemma updatePriceAlert_distinct:
  assumes "distinct (map alert_id (priceAlerts d))" and "updatePriceAlert i ai d = Inr (r, d2)"
  shows "distinct (map alert_id (priceAlerts d2))"
  using updatePriceAlert_Inr [OF assms(2)]
proof (elim disjE exE conjE)
  assume "d2 = d"
  with assms show ?thesis by simp
next
  fix a'
  assume eq: "priceAlerts d2 = map (\<lambda>b. if alert_id b = i then a' else b) (priceAlerts d)"
    and i: "i \<in> set (map alert_id (priceAlerts d))"
    and f: "find (\<lambda>b. alert_id b = alert_id a' \<and> alert_id b \<noteq> i) (priceAlerts d) = None"
  show ?thesis unfolding eq by (rule distinct_map_replace [OF assms(1) i f])
qed

lemma deletePriceAlert_distinct:
  "distinct (map alert_id (priceAlerts d)) \<Longrightarrow> distinct (map alert_id (priceAlerts (deletePriceAlert j d)))"
  by (simp add: deletePriceAlert_def distinct_map_filter)

lemma ex_ai_create:
  "createPriceAlert 0 ex_ai empty_db = Inr (ex_alert_row, empty_db\<lparr>priceAlerts := [ex_alert_row], seq_alert := 2\<rparr>)"
  "createPriceAlert 0 (ex_ai\<lparr>ai_id := Val 1\<rparr>) empty_db = Inr (ex_alert_row, empty_db\<lparr>priceAlerts := [ex_alert_row]\<rparr>)"
  by (simp_all add: createPriceAlert_def ex_ai_def no_alert_fields_def empty_db_def serial_col_def required_col_def
      numeric_col_def default_col_def bool_col_def opt_col_def ex_alert_row_def pg_int_in_def Let_def)

section \<open>Properties\<close>

text \<open>
  C22. Insert then look up: a price alert that \<open>createPriceAlert\<close> stored is what
  \<open>getPriceAlertById\<close> returns for its id.
\<close>

theorem createPriceAlert_lookup:
  assumes "createPriceAlert now ai d = Inr (a, d')"
  shows "getPriceAlertById (alert_id a) d' = Some a"
  using createPriceAlert_Inr [OF assms] by (simp add: getPriceAlertById_def find_append_None)

theorem createPriceAlert_lookup_witness:
  "getPriceAlertById (alert_id ex_alert_row) (empty_db\<lparr>priceAlerts := [ex_alert_row], seq_alert := 2\<rparr>) = Some ex_alert_row"
  by (rule createPriceAlert_lookup [OF ex_ai_create(1)])



end
