(* ===== verification/Api.thy ===== *)
theory Api
  imports Pipeline AlertStore
begin

text \<open>
  The HTTP handlers of \<open>registerRoutes\<close> (\<open>src/server/routes.ts\<close>, lines 158-429) and
  the zod schemas they validate request bodies with (\<open>createInsertSchema\<close> of
  \<open>src/shared/schema.ts\<close>). A request body is the JSON object as a map from property
  names to values (JSON has no dates, so a \<open>JDate\<close> never occurs in one); a handler
  returns the response and the new state. Express, routing by path and the JSON
  encoding of the response are not modelled.
\<close>

datatype 'a response =
  Ok200 'a | Created201 'a | NoContent204 | BadRequest400 "string list" | NotFound404 string
  | ServerError500 string

section \<open>zod\<close>

text \<open>
  One property of a drizzle-zod insert schema: absent is allowed for an optional
  property (a column with a default or without \<open>NOT NULL\<close>), \<open>null\<close> for a nullable
  one, and otherwise the value must have the column's type: \<open>z.string()\<close> for text and
  for \<open>numeric\<close>, \<open>z.boolean()\<close>, \<open>z.number()\<close> for \<open>serial\<close>, \<open>z.date()\<close> for
  \<open>timestamp\<close>. A failing property contributes its name to the issues.
\<close>

definition z_str :: "jsval \<Rightarrow> string option" where
  "z_str v = (case v of JStr s \<Rightarrow> Some s | _ \<Rightarrow> None)"

definition z_bool :: "jsval \<Rightarrow> bool option" where
  "z_bool v = (case v of JBool b \<Rightarrow> Some b | _ \<Rightarrow> None)"

definition z_num :: "jsval \<Rightarrow> rat option" where
  "z_num v = (case v of JNum r \<Rightarrow> Some r | _ \<Rightarrow> None)"

definition z_date :: "jsval \<Rightarrow> timestamp option" where
  "z_date v = (case v of JDate t \<Rightarrow> Some t | _ \<Rightarrow> None)"

definition z_field :: "string \<Rightarrow> bool \<Rightarrow> bool \<Rightarrow> (jsval \<Rightarrow> 'a option) \<Rightarrow> jsobj \<Rightarrow> string list + 'a field" where
  "z_field k optional nullable p obj =
     (case obj k of
        JUndefined \<Rightarrow> if optional then Inr Omitted else Inl [k]
      | JNull \<Rightarrow> if nullable then Inr Null else Inl [k]
      | v \<Rightarrow> (case p v of Some x \<Rightarrow> Inr (Val x) | None \<Rightarrow> Inl [k]))"

definition z_errs :: "string list + 'a field \<Rightarrow> string list" where
  "z_errs r = (case r of Inl e \<Rightarrow> e | Inr _ \<Rightarrow> [])"

definition z_get :: "string list + 'a field \<Rightarrow> 'a field" where
  "z_get r = (case r of Inr f \<Rightarrow> f | Inl _ \<Rightarrow> Omitted)"

text \<open>\<open>priceAlertsInsertSchema.parse\<close>, and with \<open>partial = True\<close> its \<open>.partial()\<close>.\<close>

definition z_alert :: "bool \<Rightarrow> jsobj \<Rightarrow> string list + alert_in" where
  "z_alert partial obj =
     (let f_id = z_field ''id'' True False z_num obj;
          f_type = z_field ''alertType'' partial False z_str obj;
          f_target = z_field ''targetPrice'' True True z_str obj;
          f_wa = z_field ''whatsappEnabled'' True True z_bool obj;
          f_tg = z_field ''telegramEnabled'' True True z_bool obj;
          f_phone = z_field ''phoneNumber'' True True z_str obj;
          f_chat = z_field ''telegramChatId'' True True z_str obj;
          f_active = z_field ''active'' True True z_bool obj;
          f_created = z_field ''createdAt'' True False z_date obj;
          f_last = z_field ''lastTriggered'' True True z_date obj;
          f_daily = z_field ''dailyTime'' True True z_str obj;
          errs = z_errs f_id @ z_errs f_type @ z_errs f_target @ z_errs f_wa @ z_errs f_tg @
                 z_errs f_phone @ z_errs f_chat @ z_errs f_active @ z_errs f_created @ z_errs f_last @
                 z_errs f_daily
      in if errs \<noteq> [] then Inl errs
         else Inr \<lparr>ai_id = z_get f_id, ai_alertType = z_get f_type, ai_targetPrice = z_get f_target,
                   ai_whatsappEnabled = z_get f_wa, ai_telegramEnabled = z_get f_tg,
                   ai_phoneNumber = z_get f_phone, ai_telegramChatId = z_get f_chat,
                   ai_active = z_get f_active, ai_createdAt = z_get f_created,
                   ai_lastTriggered = z_get f_last, ai_dailyTime = z_get f_daily\<rparr>)"

text \<open>\<open>investmentsInsertSchema.parse\<close>, and its \<open>.partial()\<close>.\<close>

definition z_investment :: "bool \<Rightarrow> jsobj \<Rightarrow> string list + inv_in" where
  "z_investment partial obj =
     (let f_id = z_field ''id'' True False z_num obj;
          f_date = z_field ''purchaseDate'' partial False z_date obj;
          f_weight = z_field ''weight'' partial False z_str obj;
          f_price = z_field ''purchasePrice'' partial False z_str obj;
          f_purity = z_field ''purity'' True False z_str obj;
          f_notes = z_field ''notes'' True True z_str obj;
          f_created = z_field ''createdAt'' True False z_date obj;
          errs = z_errs f_id @ z_errs f_date @ z_errs f_weight @ z_errs f_price @ z_errs f_purity @
                 z_errs f_notes @ z_errs f_created
      in if errs \<noteq> [] then Inl errs
         else Inr \<lparr>ii_id = z_get f_id, ii_purchaseDate = z_get f_date, ii_weight = z_get f_weight,
                   ii_purchasePrice = z_get f_price, ii_purity = z_get f_purity, ii_notes = z_get f_notes,
                   ii_createdAt = z_get f_created\<rparr>)"

section \<open>Parameters\<close>

text \<open>\<open>parseInt(req.params.id)\<close> (no radix) as the \<open>integer\<close> parameter of the query: \<open>NaN\<close> or a value
  out of range makes PostgreSQL reject it.\<close>

definition param_id :: "string \<Rightarrow> db_error + int" where
  "param_id s = (case parse_int s of JNum r \<Rightarrow> pg_int_in ''id'' r | _ \<Rightarrow> Inl (InvalidInput ''id''))"

text \<open>\<open>parseInt(req.query.limit) || dflt\<close>, then \<open>LIMIT\<close>, which must not be negative.\<close>

definition query_limit :: "nat \<Rightarrow> string option \<Rightarrow> int" where
  "query_limit dflt q =
     (case q of None \<Rightarrow> int dflt
      | Some s \<Rightarrow> (case parse_int s of JNum r \<Rightarrow> if r = 0 then int dflt else \<lfloor>r\<rfloor> | _ \<Rightarrow> int dflt))"

section \<open>Price alerts, logs and investments\<close>

definition get_alerts :: "db \<Rightarrow> price_alert list response" where
  "get_alerts d = Ok200 (getPriceAlerts d)"

definition get_alert :: "string \<Rightarrow> db \<Rightarrow> price_alert response" where
  "get_alert p d =
     (case param_id p of
        Inl _ \<Rightarrow> ServerError500 ''Error fetching price alert''
      | Inr i \<Rightarrow> (case getPriceAlertById i d of
                   None \<Rightarrow> NotFound404 ''Price alert not found''
                 | Some a \<Rightarrow> Ok200 a))"

definition post_alert :: "timestamp \<Rightarrow> jsobj \<Rightarrow> db \<Rightarrow> price_alert response \<times> db" where
  "post_alert now body d =
     (case z_alert False body of
        Inl errs \<Rightarrow> (BadRequest400 errs, d)
      | Inr ai \<Rightarrow> (case createPriceAlert now ai d of
                    Inl _ \<Rightarrow> (ServerError500 ''Error creating price alert'', d)
                  | Inr (a, d') \<Rightarrow> (Created201 a, d')))"

definition put_alert :: "string \<Rightarrow> jsobj \<Rightarrow> db \<Rightarrow> price_alert response \<times> db" where
  "put_alert p body d =
     (case z_alert True body of
        Inl errs \<Rightarrow> (BadRequest400 errs, d)
      | Inr ai \<Rightarrow>
          (case bind_sum (param_id p) (\<lambda>i. updatePriceAlert i ai d) of
             Inl _ \<Rightarrow> (ServerError500 ''Error updating price alert'', d)
           | Inr (None, d') \<Rightarrow> (NotFound404 ''Price alert not found'', d')
           | Inr (Some a, d') \<Rightarrow> (Ok200 a, d')))"

definition delete_alert :: "string \<Rightarrow> db \<Rightarrow> unit response \<times> db" where
  "delete_alert p d =
     (case param_id p of
        Inl _ \<Rightarrow> (ServerError500 ''Error deleting price alert'', d)
      | Inr i \<Rightarrow> (NoContent204, deletePriceAlert i d))"

definition get_logs :: "string option \<Rightarrow> db \<Rightarrow> notification_log list response" where
  "get_logs q d =
     (let n = query_limit 100 q in
      if n < 0 then ServerError500 ''Error fetching notification logs''
      else Ok200 (getNotificationLogs (nat n) d))"

definition get_investments :: "db \<Rightarrow> investment list response" where
  "get_investments d = Ok200 (getInvestments d)"

definition post_investment :: "timestamp \<Rightarrow> jsobj \<Rightarrow> db \<Rightarrow> investment response \<times> db" where
  "post_investment now body d =
     (case z_investment False body of
        Inl errs \<Rightarrow> (BadRequest400 errs, d)
      | Inr ii \<Rightarrow> (case createInvestment now ii d of
                    Inl _ \<Rightarrow> (ServerError500 ''Error creating investment'', d)
                  | Inr (v, d') \<Rightarrow> (Created201 v, d')))"

definition put_investment :: "string \<Rightarrow> jsobj \<Rightarrow> db \<Rightarrow> investment response \<times> db" where
  "put_investment p body d =
     (case z_investment True body of
        Inl errs \<Rightarrow> (BadRequest400 errs, d)
      | Inr ii \<Rightarrow>
          (case bind_sum (param_id p) (\<lambda>i. updateInvestment i ii d) of
             Inl _ \<Rightarrow> (ServerError500 ''Error updating investment'', d)
           | Inr (None, d') \<Rightarrow> (NotFound404 ''Investment not found'', d')
           | Inr (Some v, d') \<Rightarrow> (Ok200 v, d')))"

definition delete_investment :: "string \<Rightarrow> db \<Rightarrow> unit response \<times> db" where
  "delete_investment p d =
     (case param_id p of
        Inl _ \<Rightarrow> (ServerError500 ''Error deleting investment'', d)
      | Inr i \<Rightarrow> (NoContent204, deleteInvestment i d))"

section \<open>Sequences of requests\<close>

text \<open>The alert endpoints as requests on the database, one after the other.\<close>

datatype alert_request = PostAlert jsobj | PutAlert string jsobj | DeleteAlert string

fun alert_request_step :: "timestamp \<Rightarrow> alert_request \<Rightarrow> db \<Rightarrow> db" where
  "alert_request_step now (PostAlert body) d = snd (post_alert now body d)"
| "alert_request_step now (PutAlert p body) d = snd (put_alert p body d)"
| "alert_request_step now (DeleteAlert p) d = snd (delete_alert p d)"

fun alert_requests :: "timestamp \<Rightarrow> alert_request list \<Rightarrow> db \<Rightarrow> db" where
  "alert_requests now [] d = d"
| "alert_requests now (q # qs) d = alert_requests now qs (alert_request_step now q d)"

section \<open>The current price\<close>

text \<open>Lines 171-227: the update the handler runs when the stored price is missing, older
  than three hours, or \<open>refresh=true\<close>; \<open>source\<close> selects one source, otherwise the three
  are tried in order. A failure of the selected source, or of all three, is thrown.\<close>

definition refresh_update :: "timestamp \<Rightarrow> env \<Rightarrow> string option \<Rightarrow> world \<Rightarrow> (source_error + unit) \<times> world" where
  "refresh_update now e src w =
     (if src = Some ''emasku'' then src_emasku now e w
      else if src = Some ''pegadaian'' then src_peg now e w
      else if src = Some ''metals'' then src_metal now e w
      else (case src_emasku now e w of
              (Inr u, w1) \<Rightarrow> (Inr u, w1)
            | (Inl _, w1) \<Rightarrow>
                (case src_peg now e w1 of
                   (Inr u, w2) \<Rightarrow> (Inr u, w2)
                 | (Inl _, w2) \<Rightarrow> src_metal now e w2)))"

definition current_response :: "current_price option \<Rightarrow> current_price response" where
  "current_response cp = (case cp of None \<Rightarrow> NotFound404 ''No gold price data available'' | Some c \<Rightarrow> Ok200 c)"

definition get_current :: "timestamp \<Rightarrow> env \<Rightarrow> string option \<Rightarrow> string option \<Rightarrow> world \<Rightarrow> current_price response \<times> world" where
  "get_current now e refresh src w =
     (let cp = getCurrentGoldPrice now (w_db w);
          stale = (case cp of None \<Rightarrow> True | Some c \<Rightarrow> now - date c > 3 * ms_per_hour) \<or> refresh = Some ''true''
      in if \<not> stale then (current_response cp, w)
         else (case refresh_update now e src w of
                 (Inl _, w') \<Rightarrow> (ServerError500 ''Error fetching current gold price'', w')
               | (Inr _, w') \<Rightarrow> (current_response (getCurrentGoldPrice now (w_db w')), w')))"

section \<open>Example data\<close>

definition ex_increase_body :: jsobj where
  "ex_increase_body = (\<lambda>_. JUndefined)(''alertType'' := JStr ''increase'')"

definition ex_investment_body :: jsobj where
  "ex_investment_body = (\<lambda>_. JUndefined)(''purchaseDate'' := JStr ''2024-05-01T00:00:00.000Z'',
     ''weight'' := JStr ''10'', ''purchasePrice'' := JStr ''10000000'')"

section \<open>Lemmas\<close>

lemma alert_request_step_distinct:
  "distinct (map alert_id (priceAlerts d)) \<Longrightarrow> distinct (map alert_id (priceAlerts (alert_request_step now q d)))"
proof (cases q)
  case (PostAlert body)
  assume h: "distinct (map alert_id (priceAlerts d))"
  show ?thesis using PostAlert h createPriceAlert_distinct [OF h]
    by (auto simp: post_alert_def split: sum.split prod.split)
next
  case (PutAlert p body)
  assume h: "distinct (map alert_id (priceAlerts d))"
  show ?thesis using PutAlert h updatePriceAlert_distinct [OF h]
    by (auto simp: put_alert_def bind_sum_def split: sum.split prod.split option.split)
next
  case (DeleteAlert p)
  assume h: "distinct (map alert_id (priceAlerts d))"
  show ?thesis using DeleteAlert h deletePriceAlert_distinct [OF h]
    by (auto simp: delete_alert_def split: sum.split)
qed

lemma emasku_update_insert:
  "emasku_updateGoldPrices now r d = Inr (x, d') \<Longrightarrow> \<exists>g row. insertGoldPrice g d = Inr (row, d')"
  by (cases "emasku_fetchGoldPrices r")
     (auto simp: emasku_updateGoldPrices_def split: if_splits sum.splits)

lemma src_emasku_nonempty:
  assumes "src_emasku now e w = (Inr u, w')"
  shows "goldPrices (w_db w') \<noteq> []"
proof (cases "emasku_updateGoldPrices now (e_emasku e) (w_db w)")
  case (Inl err)
  with assms show ?thesis by (simp add: src_emasku_def)
next
  case (Inr r)
  obtain x d' where r: "r = (x, d')" by (cases r)
  with Inr assms have "w' = w\<lparr>w_db := d'\<rparr>" by (simp add: src_emasku_def)
  moreover obtain g row where "insertGoldPrice g (w_db w) = Inr (row, d')"
    using emasku_update_insert Inr r by blast
  ultimately show ?thesis using insertGoldPrice_nonempty by simp
qed

lemma src_peg_nonempty: "src_peg now e w = (Inr u, w') \<Longrightarrow> goldPrices (w_db w') \<noteq> []"
  by (auto simp: src_peg_def peg_updateGoldPrices_def insertGoldPrice_nonempty
      split: sum.splits if_splits prod.splits)

lemma src_metal_nonempty: "src_metal now e w = (Inr u, w') \<Longrightarrow> goldPrices (w_db w') \<noteq> []"
  by (auto simp: src_metal_def metal_updateGoldPrice_def insertGoldPrice_nonempty
      split: sum.splits if_splits prod.splits)

lemma refresh_update_nonempty:
  "refresh_update now e src w = (Inr u, w') \<Longrightarrow> goldPrices (w_db w') \<noteq> []"
  by (auto simp: refresh_update_def src_emasku_nonempty src_peg_nonempty src_metal_nonempty
      split: if_splits prod.splits sum.splits)

lemma src_emasku_db:
  "src_emasku now e w = (x, w') \<Longrightarrow> w_db w' = w_db w \<or> (\<exists>g row. insertGoldPrice g (w_db w) = Inr (row, w_db w'))"
  by (cases "emasku_updateGoldPrices now (e_emasku e) (w_db w)")
     (auto simp: src_emasku_def dest: emasku_update_insert)

lemma src_peg_db:
  "src_peg now e w = (x, w') \<Longrightarrow> w_db w' = w_db w \<or> (\<exists>g row. insertGoldPrice g (w_db w) = Inr (row, w_db w'))"
  by (auto simp: src_peg_def peg_updateGoldPrices_def split: sum.splits if_splits prod.splits)

lemma src_metal_db:
  "src_metal now e w = (x, w') \<Longrightarrow> w_db w' = w_db w \<or> (\<exists>g row. insertGoldPrice g (w_db w) = Inr (row, w_db w'))"
  by (auto simp: src_metal_def metal_updateGoldPrice_def split: sum.splits if_splits prod.splits)

lemma src_gold_wf:
  assumes "gold_table_wf (w_db w)"
  shows "src_emasku now e w = (x, w') \<Longrightarrow> gold_table_wf (w_db w')"
    and "src_peg now e w = (x, w') \<Longrightarrow> gold_table_wf (w_db w')"
    and "src_metal now e w = (x, w') \<Longrightarrow> gold_table_wf (w_db w')"
  using assms src_emasku_db src_peg_db src_metal_db insertGoldPrice_wf by metis+

text \<open>Without a radix, \<open>parseInt\<close> reads an id written in hexadecimal: the path
  \<open>/api/alerts/0x10\<close> addresses the alert with id 16.\<close>

lemma param_id_hex: "param_id ''0x10'' = Inr 16"
  by (simp add: param_id_def parse_int_def hexs_val_def hex_val_def is_hex_def is_digit_def digit_val_def
      is_space_def pg_int_in_def)

section \<open>Properties\<close>

text \<open>
  C24. \<open>GET /api/gold-prices/current\<close> never answers 404: when no price is stored the
  handler fetches, and a successful fetch stores a row, so the "No gold price data
  available" branch is unreachable (a failed fetch answers 500).
\<close>

theorem get_current_never_404:
  "fst (get_current now e refresh src w) \<noteq> NotFound404 m"
proof -
  have r: "current_response cp \<noteq> NotFound404 m" if "cp \<noteq> None" for cp
    using that by (auto simp: current_response_def)
  show ?thesis
    by (auto simp: get_current_def Let_def r refresh_update_nonempty getCurrentGoldPrice_nonempty
        split: option.splits prod.splits sum.splits)
qed

text \<open>
  \<open>refresh=true\<close> does not bypass the cache: with a Pegadaian reading younger than
  fifteen minutes, the answer to \<open>?refresh=true&source=pegadaian\<close> does not depend on
  what the site would return (the specification forces a live fetch).
\<close>

theorem get_current_refresh_uses_cache:
  assumes "cache_fresh now (w_peg w) = Some g"
  shows "get_current now e (Some ''true'') (Some ''pegadaian'') w
       = get_current now (e\<lparr>e_peg := r\<rparr>) (Some ''true'') (Some ''pegadaian'') w"
  using assms by (simp add: get_current_def refresh_update_def src_peg_def peg_update_hit Let_def)

theorem get_current_refresh_uses_cache_witness:
  "get_current 60000 ex_env (Some ''true'') (Some ''pegadaian'')
      (ex_world\<lparr>w_peg := \<lparr>lastScrapeTime = Some 0, lastData = Some (peg_parseGoldPrices ex_page)\<rparr>\<rparr>)
   = get_current 60000 (ex_env\<lparr>e_peg := HttpOk blank_page\<rparr>) (Some ''true'') (Some ''pegadaian'')
      (ex_world\<lparr>w_peg := \<lparr>lastScrapeTime = Some 0, lastData = Some (peg_parseGoldPrices ex_page)\<rparr>\<rparr>)"
proof -
  have "cache_fresh 60000 (w_peg (ex_world\<lparr>w_peg := \<lparr>lastScrapeTime = Some 0, lastData = Some (peg_parseGoldPrices ex_page)\<rparr>\<rparr>))
      = Some (peg_parseGoldPrices ex_page)"
    by (simp add: cache_fresh_def cache_ttl_def)
  then show ?thesis by (rule get_current_refresh_uses_cache)
qed

text \<open>
  \<open>PUT /api/alerts/:id\<close> with an empty body answers 500 and changes nothing, for
  any id: the empty object passes the partial schema and drizzle throws "No values to
  set".
\<close>

theorem put_alert_empty_body:
  "put_alert p (\<lambda>_. JUndefined) d = (ServerError500 ''Error updating price alert'', d)"
proof -
  have "z_alert True (\<lambda>_. JUndefined) = Inr no_alert_fields"
    by (simp add: z_alert_def z_field_def z_errs_def z_get_def no_alert_fields_def)
  then show ?thesis
    by (simp add: put_alert_def updatePriceAlert_def bind_sum_def split: sum.split)
qed

text \<open>
  No JSON body can create an investment: \<open>purchaseDate\<close> is validated by
  \<open>z.date()\<close>, which no JSON value satisfies, so \<open>POST /api/investments\<close> always answers
  400 naming \<open>purchaseDate\<close>.
\<close>

theorem post_investment_rejects_json:
  assumes "\<forall>k t. body k \<noteq> JDate t"
  shows "\<exists>errs. post_investment now body d = (BadRequest400 errs, d) \<and> ''purchaseDate'' \<in> set errs"
proof -
  have "z_errs (z_field ''purchaseDate'' False False z_date body) = [''purchaseDate'']"
    using assms by (cases "body ''purchaseDate''") (simp_all add: z_field_def z_errs_def z_date_def)
  then show ?thesis by (auto simp: post_investment_def z_investment_def Let_def)
qed

theorem post_investment_rejects_json_witness:
  "\<exists>errs. post_investment 0 ex_investment_body empty_db = (BadRequest400 errs, empty_db) \<and> ''purchaseDate'' \<in> set errs"
  by (rule post_investment_rejects_json) (simp add: ex_investment_body_def)

text \<open>
  The alert schema accepts an increase alert with no target price and no channel:
  \<open>{"alertType": "increase"}\<close> is stored with both channels off and a \<open>NULL\<close> target,
  an alert that can never fire or notify (the specification requires a target and a
  channel).
\<close>

theorem post_alert_accepts_incomplete:
  "post_alert 0 ex_increase_body empty_db = (Created201 ex_alert_row, empty_db\<lparr>priceAlerts := [ex_alert_row], seq_alert := 2\<rparr>)"
proof -
  have "z_alert False ex_increase_body = Inr ex_ai"
    by (simp add: z_alert_def z_field_def z_errs_def z_get_def ex_increase_body_def ex_ai_def
        no_alert_fields_def z_str_def)
  then show ?thesis by (simp add: post_alert_def ex_ai_create(1))
qed

end
