(* ===== verification/History.thy ===== *)
theory History
  imports Api
begin

text \<open>
  The three history reads of \<open>storage\<close> (\<open>src/server/storage.js\<close>, lines 69-212) and
  their routes (\<open>src/server/routes.ts\<close>, lines 242-275). Dates are milliseconds since
  the epoch read in UTC (the server's local time zone is taken to be UTC): the calendar
  arithmetic of \<open>setDate\<close>, \<open>setMonth\<close> and \<open>setFullYear\<close> goes through the proleptic
  Gregorian day count, in which a day past the end of a month runs into the next month
  as it does in JavaScript. A change that JavaScript computes as \<open>NaN\<close> or
  \<open>\<plusminus>Infinity\<close> is \<open>None\<close>: \<open>res.json\<close> writes all of them as \<open>null\<close>.
\<close>

section \<open>Calendar\<close>

definition days_from_civil :: "int \<Rightarrow> int \<Rightarrow> int \<Rightarrow> int" where
  "days_from_civil y m d =
     (let y' = (if m \<le> 2 then y - 1 else y); era = y' div 400; yoe = y' - era * 400;
          mp = (m + 9) mod 12; doy = (153 * mp + 2) div 5 + d - 1;
          doe = yoe * 365 + yoe div 4 - yoe div 100 + doy
      in era * 146097 + doe - 719468)"

definition civil_from_days :: "int \<Rightarrow> int \<times> int \<times> int" where
  "civil_from_days z =
     (let z' = z + 719468; era = z' div 146097; doe = z' - era * 146097;
          yoe = (doe - doe div 1460 + doe div 36524 - doe div 146096) div 365;
          doy = doe - (365 * yoe + yoe div 4 - yoe div 100);
          mp = (5 * doy + 2) div 153; d = doy - (153 * mp + 2) div 5 + 1;
          m = (if mp < 10 then mp + 3 else mp - 9)
      in (if m \<le> 2 then yoe + era * 400 + 1 else yoe + era * 400, m, d))"

text \<open>The same instant with year and month replaced (\<open>setFullYear\<close>, \<open>setMonth\<close>): the
  month is taken modulo 12 into the year, the day and the time of day are kept.\<close>

definition set_year_month :: "int \<Rightarrow> int \<Rightarrow> timestamp \<Rightarrow> timestamp" where
  "set_year_month y m t =
     (let (_, _, d) = civil_from_days (t div ms_per_day)
      in days_from_civil (y + m div 12) (m mod 12 + 1) d * ms_per_day + t mod ms_per_day)"

definition add_months :: "int \<Rightarrow> timestamp \<Rightarrow> timestamp" where
  "add_months k t = (let (y, m, _) = civil_from_days (t div ms_per_day) in set_year_month y (m - 1 + k) t)"

definition history_limit :: "string \<Rightarrow> timestamp \<Rightarrow> timestamp" where
  "history_limit tf now =
     (if tf = ''1d'' then now - ms_per_day
      else if tf = ''1w'' then now - 7 * ms_per_day
      else if tf = ''1m'' then add_months (- 1) now
      else if tf = ''3m'' then add_months (- 3) now
      else if tf = ''6m'' then add_months (- 6) now
      else if tf = ''1y'' then add_months (- 12) now
      else if tf = ''all'' then (let (_, m, _) = civil_from_days (now div ms_per_day) in set_year_month 2000 (m - 1) now)
      else now - 7 * ms_per_day)"

section \<open>getGoldPriceHistory\<close>

record hist_row = gold_price +
  dailyChange :: "rat option"
  changePercent :: "rat option"

definition pct_change :: "rat option \<Rightarrow> numeric \<Rightarrow> rat option" where
  "pct_change dc prev =
     (case (dc, parse_numeric prev) of
        (Some c, Some q) \<Rightarrow> if q = 0 then None else Some (c / q * 100)
      | _ \<Rightarrow> None)"

text \<open>The loop over consecutive rows, newest first, and the oldest row, which the loop
  never reaches and which therefore always gets 0.\<close>

fun hist_annotate :: "gold_price list \<Rightarrow> hist_row list" where
  "hist_annotate [] = []"
| "hist_annotate [r] = [gold_price.extend r (hist_row.fields (Some 0) (Some 0))]"
| "hist_annotate (r # p # rs) =
     (let dc = num_diff (pricePerGram r) (pricePerGram p)
      in gold_price.extend r (hist_row.fields dc (pct_change dc (pricePerGram p))) # hist_annotate (p # rs))"

definition getGoldPriceHistory :: "string \<Rightarrow> timestamp \<Rightarrow> db \<Rightarrow> hist_row list" where
  "getGoldPriceHistory tf now d =
     hist_annotate (sort_key (\<lambda>r. - date r) (filter (\<lambda>r. history_limit tf now \<le> date r) (goldPrices d)))"

section \<open>getChartData\<close>

text \<open>The labels of \<open>toLocaleTimeString\<close>/\<open>toLocaleDateString\<close> with locale \<open>en-US\<close>:
  \<open>09:05 AM\<close> for one day, \<open>Mon, 09 AM\<close> for one week, \<open>Jan 5\<close> otherwise.\<close>

definition pad2 :: "nat \<Rightarrow> string" where
  "pad2 n = (if n < 10 then ''0'' @ show_nat n else show_nat n)"

definition month_abbr :: "int \<Rightarrow> string" where
  "month_abbr m = [''Jan'', ''Feb'', ''Mar'', ''Apr'', ''May'', ''Jun'', ''Jul'', ''Aug'', ''Sep'', ''Oct'',
                   ''Nov'', ''Dec''] ! nat (m - 1)"

definition weekday_abbr :: "timestamp \<Rightarrow> string" where
  "weekday_abbr t = [''Thu'', ''Fri'', ''Sat'', ''Sun'', ''Mon'', ''Tue'', ''Wed''] ! nat ((t div ms_per_day) mod 7)"

definition hour12 :: "timestamp \<Rightarrow> string" where
  "hour12 t = (let h = hour_of t in pad2 (if h mod 12 = 0 then 12 else h mod 12) @ (if h < 12 then '' AM'' else '' PM''))"

definition chart_label :: "string \<Rightarrow> timestamp \<Rightarrow> string" where
  "chart_label tf t =
     (if tf = ''1d'' then
        (let h = hour_of t; mi = nat ((t div ms_per_minute) mod 60)
         in pad2 (if h mod 12 = 0 then 12 else h mod 12) @ '':'' @ pad2 mi @ (if h < 12 then '' AM'' else '' PM''))
      else if tf = ''1w'' then weekday_abbr t @ '', '' @ hour12 t
      else (let (_, m, dd) = civil_from_days (t div ms_per_day) in month_abbr m @ '' '' @ show_nat (nat dd)))"

record chart_point =
  label :: string
  price :: "rat option"

definition getChartData :: "string \<Rightarrow> timestamp \<Rightarrow> db \<Rightarrow> chart_point list" where
  "getChartData tf now d =
     rev (map (\<lambda>r. \<lparr>label = chart_label tf (date r), price = parse_numeric (pricePerGram r)\<rparr>)
              (getGoldPriceHistory tf now d))"

section \<open>getRecentPriceChanges\<close>

record price_change =
  ch_id :: string
  ch_date :: timestamp
  ch_price :: "rat option"
  ch_change :: "rat option"
  ch_type :: string

text \<open>\<open>!==\<close> on two results of \<open>parseFloat\<close>: \<open>NaN\<close> differs from everything.\<close>

definition js_num_neq :: "rat option \<Rightarrow> rat option \<Rightarrow> bool" where
  "js_num_neq a b = (case (a, b) of (Some x, Some y) \<Rightarrow> x \<noteq> y | _ \<Rightarrow> True)"

definition opt_sub :: "rat option \<Rightarrow> rat option \<Rightarrow> rat option" where
  "opt_sub a b = (case (a, b) of (Some x, Some y) \<Rightarrow> Some (x - y) | _ \<Rightarrow> None)"

definition pair_changes :: "gold_price \<Rightarrow> gold_price \<Rightarrow> price_change list" where
  "pair_changes cur prev =
     (let b1 = parse_numeric (buyPrice cur); b0 = parse_numeric (buyPrice prev);
          s1 = parse_numeric (sellPrice cur); s0 = parse_numeric (sellPrice prev)
      in (if js_num_neq b1 b0
          then [\<lparr>ch_id = ''buy-'' @ show_nat (gp_id cur), ch_date = date cur, ch_price = b1,
                 ch_change = opt_sub b1 b0, ch_type = ''Buy Price''\<rparr>] else []) @
         (if js_num_neq s1 s0
          then [\<lparr>ch_id = ''sell-'' @ show_nat (gp_id cur), ch_date = date cur, ch_price = s1,
                 ch_change = opt_sub s1 s0, ch_type = ''Sell Price''\<rparr>] else []))"

fun consecutive_changes :: "gold_price list \<Rightarrow> price_change list" where
  "consecutive_changes (cur # prev # rs) = pair_changes cur prev @ consecutive_changes (prev # rs)"
| "consecutive_changes _ = []"

text \<open>\<open>LIMIT limit + 1\<close> must not be negative; \<open>slice(0, limit)\<close> with a negative
  \<open>limit\<close> only arises for \<open>-1\<close>, where the query returns no rows.\<close>

definition getRecentPriceChanges :: "int \<Rightarrow> db \<Rightarrow> db_error + price_change list" where
  "getRecentPriceChanges n d =
     (if n + 1 < 0 then Inl (InvalidInput ''LIMIT'')
      else let rows = take (nat (n + 1)) (sort_key (\<lambda>r. - date r) (goldPrices d))
           in if length rows \<le> 1 then Inr []
              else Inr (take (nat n) (sort_key (\<lambda>c. - ch_date c) (consecutive_changes rows))))"

section \<open>Routes\<close>

definition get_history :: "timestamp \<Rightarrow> string option \<Rightarrow> db \<Rightarrow> hist_row list response" where
  "get_history now q d = Ok200 (getGoldPriceHistory (case q of Some tf \<Rightarrow> if tf = [] then ''7d'' else tf | None \<Rightarrow> ''7d'') now d)"

definition get_chart :: "timestamp \<Rightarrow> string option \<Rightarrow> db \<Rightarrow> chart_point list response" where
  "get_chart now q d = Ok200 (getChartData (case q of Some tf \<Rightarrow> if tf = [] then ''1d'' else tf | None \<Rightarrow> ''1d'') now d)"

definition get_recent :: "string option \<Rightarrow> db \<Rightarrow> price_change list response" where
  "get_recent q d =
     (case getRecentPriceChanges (query_limit 5 q) d of
        Inl _ \<Rightarrow> ServerError500 ''Error fetching recent price changes''
      | Inr cs \<Rightarrow> Ok200 cs)"

section \<open>Lemmas\<close>

lemma dailyChange_extend [simp]: "dailyChange (gold_price.extend r (hist_row.fields c p)) = c"
  by (simp add: gold_price.defs hist_row.defs)

section \<open>Properties\<close>

text \<open>
  C25. The daily changes of \<open>getGoldPriceHistory\<close> telescope: when every row's price
  per gram parses, every row gets a change, and the changes add up to the newest price minus
  the oldest one (the oldest row, having no predecessor, gets 0).
\<close>

theorem history_changes_telescope:
  assumes "map (\<lambda>r. parse_numeric (pricePerGram r)) rs = map Some (p # ps)"
  shows "\<exists>cs. map dailyChange (hist_annotate rs) = map Some cs \<and> sum_list cs = p - last (p # ps)"
  using assms
proof (induction rs arbitrary: p ps rule: hist_annotate.induct)
  case 1
  then show ?case by simp
next
  case (2 r)
  then have "map dailyChange (hist_annotate [r]) = map Some [0] \<and> sum_list [0] = p - last (p # ps)" by simp
  then show ?case by blast
next
  case (3 r q rs)
  from "3.prems" obtain p' ps' where ps: "ps = p' # ps'" by (cases ps) auto
  from "3.prems" ps have r: "parse_numeric (pricePerGram r) = Some p"
    and tl: "map (\<lambda>r. parse_numeric (pricePerGram r)) (q # rs) = map Some (p' # ps')" by simp_all
  from tl have q: "parse_numeric (pricePerGram q) = Some p'" by simp
  from "3.IH" [OF refl tl] obtain cs where cs: "map dailyChange (hist_annotate (q # rs)) = map Some cs"
    and s: "sum_list cs = p' - last (p' # ps')" by blast
  have "num_diff (pricePerGram r) (pricePerGram q) = Some (p - p')" by (simp add: num_diff_def r q)
  then have "map dailyChange (hist_annotate (r # q # rs)) = map Some ((p - p') # cs)"
    using cs by (simp add: Let_def)
  moreover have "sum_list ((p - p') # cs) = p - last (p # ps)" using s ps by simp
  ultimately show ?case by blast
qed

theorem history_changes_telescope_witness:
  "\<exists>cs. map dailyChange (hist_annotate [ex_gp, ex_gp\<lparr>pricePerGram := Dec 1050000\<rparr>]) = map Some cs
      \<and> sum_list cs = 1058000 - last [1058000, 1050000]"
proof -
  have "map (\<lambda>r. parse_numeric (pricePerGram r)) [ex_gp, ex_gp\<lparr>pricePerGram := Dec 1050000\<rparr>]
      = map Some [1058000, 1050000]"
    by (simp add: ex_gp_def parse_numeric_Dec scaled2_def)
  then show ?thesis by (rule history_changes_telescope)
qed

end
