(* ===== verification/ClientForms.thy ===== *)
theory ClientForms
  imports History
begin

text \<open>
  The two forms of the React client that write to the server: the alert dialog of
  \<open>src/client/src/pages/Notifications.tsx\<close> and the investment dialog of
  \<open>src/client/src/pages/MyInvestments.tsx\<close>. Each form is a record of its
  \<open>useState\<close> fields; \<open>handleSubmit\<close> is its guards (each \<open>toast\<close> warning with an
  early return is a \<open>form_warning\<close>) and the object it hands to the mutation.
  \<open>apiRequest\<close> (\<open>lib/queryClient\<close>, which the repository does not contain) sends that
  object with \<open>JSON.stringify\<close> and treats a status outside 2xx as an error; the server
  reads the body back with \<open>express.json()\<close>. The body the server sees is therefore the
  object with \<open>NaN\<close> written as \<open>null\<close> (\<open>json_num\<close>) and absent keys \<open>undefined\<close>
  (\<open>json_body\<close>). \<open>new Date(s)\<close> of the date input is a parameter of the model (the
  library's date parser); \<open>toISOString\<close> of an invalid date throws.
\<close>

section \<open>JSON bodies\<close>

definition json_body :: "(string \<times> jsval) list \<Rightarrow> jsobj" where
  "json_body kvs k = (case map_of kvs k of Some v \<Rightarrow> v | None \<Rightarrow> JUndefined)"

definition json_num :: "rat option \<Rightarrow> jsval" where
  "json_num r = (case r of Some x \<Rightarrow> JNum x | None \<Rightarrow> JNull)"

section \<open>The alert form\<close>

record alert_form =
  af_open :: bool
  af_notificationType :: string
  af_whatsAppEnabled :: bool
  af_telegramEnabled :: bool
  af_targetPrice :: string
  af_phoneNumber :: string
  af_telegramChatId :: string
  af_dailyTime :: string

definition alert_resetForm :: "alert_form \<Rightarrow> alert_form" where
  "alert_resetForm f = f\<lparr>af_notificationType := ''increase'', af_whatsAppEnabled := True,
     af_telegramEnabled := False, af_targetPrice := [], af_phoneNumber := [],
     af_telegramChatId := [], af_dailyTime := ''20:00''\<rparr>"

definition alert_form_init :: alert_form where
  "alert_form_init = alert_resetForm \<lparr>af_open = False, af_notificationType = [],
     af_whatsAppEnabled = False, af_telegramEnabled = False, af_targetPrice = [], af_phoneNumber = [],
     af_telegramChatId = [], af_dailyTime = []\<rparr>"

datatype form_warning = NoChannel | ChannelFieldsMissing | TargetMissing | RequiredFieldsMissing
  | InvalidDate

definition alert_newAlert :: "alert_form \<Rightarrow> jsobj" where
  "alert_newAlert f = json_body
     [(''alertType'', JStr (af_notificationType f)),
      (''targetPrice'', if af_notificationType f \<noteq> ''daily'' then json_num (parse_float (af_targetPrice f)) else JNull),
      (''whatsappEnabled'', JBool (af_whatsAppEnabled f)),
      (''telegramEnabled'', JBool (af_telegramEnabled f)),
      (''phoneNumber'', if af_whatsAppEnabled f then JStr (af_phoneNumber f) else JNull),
      (''telegramChatId'', if af_telegramEnabled f then JStr (af_telegramChatId f) else JNull),
      (''dailyTime'', if af_notificationType f = ''daily'' then JStr (af_dailyTime f) else JNull),
      (''active'', JBool True)]"

definition alert_handleSubmit :: "alert_form \<Rightarrow> form_warning + jsobj" where
  "alert_handleSubmit f =
     (if \<not> af_whatsAppEnabled f \<and> \<not> af_telegramEnabled f then Inl NoChannel
      else if (af_whatsAppEnabled f \<and> af_phoneNumber f = []) \<or> (af_telegramEnabled f \<and> af_telegramChatId f = [])
      then Inl ChannelFieldsMissing
      else if af_notificationType f \<noteq> ''daily'' \<and> af_targetPrice f = [] then Inl TargetMissing
      else Inr (alert_newAlert f))"

text \<open>The submission as the user sees it: a warning, or the server's answer; on a 2xx
  answer \<open>onSuccess\<close> closes the dialog and resets the form, otherwise \<open>onError\<close> only
  shows a toast and the form keeps its values.\<close>

definition alert_submit :: "timestamp \<Rightarrow> alert_form \<Rightarrow> db \<Rightarrow> (form_warning + price_alert response) \<times> alert_form \<times> db" where
  "alert_submit now f d =
     (case alert_handleSubmit f of
        Inl w \<Rightarrow> (Inl w, f, d)
      | Inr body \<Rightarrow>
          (case post_alert now body d of
             (Created201 a, d') \<Rightarrow> (Inr (Created201 a), alert_resetForm (f\<lparr>af_open := False\<rparr>), d')
           | (r, d') \<Rightarrow> (Inr r, f, d')))"

section \<open>The investment form\<close>

record inv_form =
  if_open :: bool
  if_purchaseDate :: string
  if_weight :: string
  if_purchasePrice :: string
  if_purity :: string
  if_notes :: string

definition inv_resetForm :: "inv_form \<Rightarrow> inv_form" where
  "inv_resetForm f = f\<lparr>if_purchaseDate := [], if_weight := [], if_purchasePrice := [],
     if_purity := ''0.999'', if_notes := []\<rparr>"

text \<open>\<open>Date.prototype.toISOString\<close> for the years 0 to 9999 (a date input has four digits).\<close>

definition iso_string :: "timestamp \<Rightarrow> string" where
  "iso_string t =
     (let (y, m, dd) = civil_from_days (t div ms_per_day); r = t mod ms_per_day
      in pad_left 4 (show_nat (nat y)) @ ''-'' @ pad2 (nat m) @ ''-'' @ pad2 (nat dd) @ ''T'' @
         pad2 (nat (r div ms_per_hour)) @ '':'' @ pad2 (nat (r div ms_per_minute mod 60)) @ '':'' @
         pad2 (nat (r div 1000 mod 60)) @ ''.'' @ pad_left 3 (show_nat (nat (r mod 1000))) @ ''Z'')"

definition inv_newInvestment :: "inv_form \<Rightarrow> timestamp \<Rightarrow> jsobj" where
  "inv_newInvestment f t = json_body
     [(''purchaseDate'', JStr (iso_string t)),
      (''weight'', json_num (parse_float (if_weight f))),
      (''purchasePrice'', json_num (parse_float (if_purchasePrice f))),
      (''purity'', json_num (parse_float (if_purity f))),
      (''notes'', if trim (if_notes f) = [] then JNull else JStr (trim (if_notes f)))]"

definition inv_handleSubmit :: "(string \<Rightarrow> timestamp option) \<Rightarrow> inv_form \<Rightarrow> form_warning + jsobj" where
  "inv_handleSubmit date_parse f =
     (if if_purchaseDate f = [] \<or> if_weight f = [] \<or> if_purchasePrice f = [] then Inl RequiredFieldsMissing
      else case date_parse (if_purchaseDate f) of
             None \<Rightarrow> Inl InvalidDate
           | Some t \<Rightarrow> Inr (inv_newInvestment f t))"

definition inv_submit ::
  "(string \<Rightarrow> timestamp option) \<Rightarrow> timestamp \<Rightarrow> inv_form \<Rightarrow> db \<Rightarrow> (form_warning + investment response) \<times> inv_form \<times> db" where
  "inv_submit date_parse now f d =
     (case inv_handleSubmit date_parse f of
        Inl w \<Rightarrow> (Inl w, f, d)
      | Inr body \<Rightarrow>
          (case post_investment now body d of
             (Created201 v, d') \<Rightarrow> (Inr (Created201 v), inv_resetForm (f\<lparr>if_open := False\<rparr>), d')
           | (r, d') \<Rightarrow> (Inr r, f, d')))"

section \<open>The delete buttons\<close>

text \<open>\<open>deleteAlert.mutate(alert.id)\<close> and \<open>deleteInvestment.mutate(investment.id)\<close>: the
  id is written into the path with a template literal.\<close>

definition show_int :: "int \<Rightarrow> string" where
  "show_int i = (if i < 0 then ''-'' @ show_nat (nat (- i)) else show_nat (nat i))"

definition alert_deleteAlert :: "int \<Rightarrow> db \<Rightarrow> unit response \<times> db" where
  "alert_deleteAlert i d = delete_alert (show_int i) d"

definition inv_deleteInvestment :: "int \<Rightarrow> db \<Rightarrow> unit response \<times> db" where
  "inv_deleteInvestment i d = delete_investment (show_int i) d"

section \<open>Example data\<close>

definition ex_increase_form :: alert_form where
  "ex_increase_form = alert_form_init\<lparr>af_open := True, af_targetPrice := ''1100000'', af_phoneNumber := ''081234567890''\<rparr>"

definition ex_daily_form :: alert_form where
  "ex_daily_form = alert_form_init\<lparr>af_open := True, af_notificationType := ''daily'', af_phoneNumber := ''081234567890''\<rparr>"

definition ex_inv_form :: inv_form where
  "ex_inv_form = \<lparr>if_open = True, if_purchaseDate = ''2024-01-15'', if_weight = ''5'',
     if_purchasePrice = ''5000000'', if_purity = ''0.999'', if_notes = []\<rparr>"

section \<open>Lemmas\<close>

lemma json_body_simps [simp]:
  "json_body [] k = JUndefined"
  "json_body ((k', v) # kvs) k = (if k = k' then v else json_body kvs k)"
  by (simp_all add: json_body_def)

lemma json_num_not_str [simp]: "json_num r \<noteq> JStr s"
  by (simp add: json_num_def split: option.split)

lemma json_num_JNum [simp]: "json_num (Some x) = JNum x"
  by (simp add: json_num_def)


lemma alert_handleSubmit_Inr: "alert_handleSubmit f = Inr body \<Longrightarrow> body = alert_newAlert f"
  by (simp add: alert_handleSubmit_def split: if_splits)

lemma parse_float_1100000: "parse_float ''1100000'' = Some 1100000"
  by (subst parse_float_digits) (simp_all add: is_digit_def less_eq_char_def digits_val_def digit_val_def)

lemmas alert_form_exs = ex_increase_form_def ex_daily_form_def alert_form_init_def alert_resetForm_def

end
