(* ===== verification/JsNumber.thy ===== *)
theory JsNumber
  imports Prelude
begin

text \<open>
  JavaScript numbers as the client's arithmetic needs them: a real value, the two
  infinities, or \<open>NaN\<close>, with the IEEE rules of \<open>+\<close>, \<open>-\<close>, \<open>*\<close>, \<open>/\<close>, the
  relational operators (every comparison with \<open>NaN\<close> is false), \<open>Math.pow\<close> and
  \<open>Math.sqrt\<close>. Values are exact reals, so rounding to the nearest double and overflow
  to \<open>Infinity\<close> are not modelled; zero carries no sign, so a division by zero takes the
  sign of the numerator as for \<open>+0\<close>. The server side works on rationals
  (\<open>Prelude.jsval\<close>); the client needs reals for \<open>Math.pow\<close> with a fractional
  exponent and for \<open>Math.sqrt\<close>.
\<close>

datatype jsnum = Fin real | PInf | NInf | NaN

definition n_of_parse :: "rat option \<Rightarrow> jsnum" where
  "n_of_parse r = (case r of Some x \<Rightarrow> Fin (of_rat x) | None \<Rightarrow> NaN)"

fun n_neg :: "jsnum \<Rightarrow> jsnum" where
  "n_neg (Fin a) = Fin (- a)"
| "n_neg PInf = NInf"
| "n_neg NInf = PInf"
| "n_neg NaN = NaN"

fun n_add :: "jsnum \<Rightarrow> jsnum \<Rightarrow> jsnum" where
  "n_add (Fin a) (Fin b) = Fin (a + b)"
| "n_add NaN _ = NaN"
| "n_add _ NaN = NaN"
| "n_add PInf NInf = NaN"
| "n_add NInf PInf = NaN"
| "n_add PInf _ = PInf"
| "n_add _ PInf = PInf"
| "n_add NInf _ = NInf"
| "n_add _ NInf = NInf"

definition n_sub :: "jsnum \<Rightarrow> jsnum \<Rightarrow> jsnum" where
  "n_sub a b = n_add a (n_neg b)"

text \<open>The sign of a value other than \<open>NaN\<close>.\<close>

fun n_sign :: "jsnum \<Rightarrow> real" where
  "n_sign (Fin a) = sgn a"
| "n_sign PInf = 1"
| "n_sign NInf = -1"
| "n_sign NaN = 0"

definition inf_of_sign :: "real \<Rightarrow> jsnum" where
  "inf_of_sign s = (if s > 0 then PInf else if s < 0 then NInf else NaN)"

fun n_mul :: "jsnum \<Rightarrow> jsnum \<Rightarrow> jsnum" where
  "n_mul (Fin a) (Fin b) = Fin (a * b)"
| "n_mul NaN _ = NaN"
| "n_mul _ NaN = NaN"
| "n_mul a b = inf_of_sign (n_sign a * n_sign b)"

fun n_div :: "jsnum \<Rightarrow> jsnum \<Rightarrow> jsnum" where
  "n_div (Fin a) (Fin b) = (if b \<noteq> 0 then Fin (a / b) else inf_of_sign (sgn a))"
| "n_div NaN _ = NaN"
| "n_div _ NaN = NaN"
| "n_div (Fin a) _ = Fin 0"
| "n_div a (Fin b) = inf_of_sign (n_sign a * (if b < 0 then -1 else 1))"
| "n_div _ _ = NaN"

fun n_lt :: "jsnum \<Rightarrow> jsnum \<Rightarrow> bool" where
  "n_lt NaN _ = False"
| "n_lt _ NaN = False"
| "n_lt (Fin a) (Fin b) = (a < b)"
| "n_lt NInf b = (b \<noteq> NInf)"
| "n_lt a PInf = (a \<noteq> PInf)"
| "n_lt _ _ = False"

definition n_gt :: "jsnum \<Rightarrow> jsnum \<Rightarrow> bool" where
  "n_gt a b = n_lt b a"

text \<open>\<open>Math.pow(b, e)\<close>; a negative base has a real power only for an integral exponent.\<close>

fun n_pow :: "jsnum \<Rightarrow> jsnum \<Rightarrow> jsnum" where
  "n_pow b (Fin y) =
     (if y = 0 then Fin 1
      else case b of
             NaN \<Rightarrow> NaN
           | Fin x \<Rightarrow>
               if 0 < x then Fin (x powr y)
               else if x = 0 then (if 0 < y then Fin 0 else PInf)
               else if y = of_int \<lfloor>y\<rfloor> then Fin ((- 1) ^ nat \<bar>\<lfloor>y\<rfloor>\<bar> * (- x) powr y)
               else NaN
           | PInf \<Rightarrow> if 0 < y then PInf else Fin 0
           | NInf \<Rightarrow> if 0 < y then (if y = of_int \<lfloor>y\<rfloor> \<and> odd \<lfloor>y\<rfloor> then NInf else PInf) else Fin 0)"
| "n_pow b NaN = NaN"
| "n_pow b PInf =
     (case b of NaN \<Rightarrow> NaN | Fin x \<Rightarrow> if 1 < \<bar>x\<bar> then PInf else if \<bar>x\<bar> = 1 then NaN else Fin 0 | _ \<Rightarrow> PInf)"
| "n_pow b NInf =
     (case b of NaN \<Rightarrow> NaN | Fin x \<Rightarrow> if 1 < \<bar>x\<bar> then Fin 0 else if \<bar>x\<bar> = 1 then NaN else PInf | _ \<Rightarrow> Fin 0)"

fun n_sqrt :: "jsnum \<Rightarrow> jsnum" where
  "n_sqrt (Fin x) = (if x < 0 then NaN else Fin (sqrt x))"
| "n_sqrt PInf = PInf"
| "n_sqrt _ = NaN"

definition n_truthy :: "jsnum \<Rightarrow> bool" where
  "n_truthy v = (case v of Fin x \<Rightarrow> x \<noteq> 0 | NaN \<Rightarrow> False | _ \<Rightarrow> True)"

text \<open>\<open>a || b\<close> on numbers.\<close>

definition n_or :: "jsnum \<Rightarrow> jsnum \<Rightarrow> jsnum" where
  "n_or a b = (if n_truthy a then a else b)"

text \<open>\<open>arr.reduce((sum, x) => sum + x, 0)\<close>.\<close>

definition n_sum :: "jsnum list \<Rightarrow> jsnum" where
  "n_sum xs = foldl n_add (Fin 0) xs"

section \<open>Lemmas\<close>

lemma n_sub_Fin [simp]: "n_sub (Fin a) (Fin b) = Fin (a - b)"
  by (simp add: n_sub_def)

lemma n_gt_Fin [simp]: "n_gt (Fin a) (Fin b) \<longleftrightarrow> b < a"
  by (simp add: n_gt_def)

lemma n_sum_Fin_aux: "foldl n_add (Fin a) (map Fin xs) = Fin (a + sum_list xs)"
  by (induction xs arbitrary: a) (simp_all add: add.assoc)

lemma n_sum_Fin [simp]: "n_sum (map Fin xs) = Fin (sum_list xs)"
  using n_sum_Fin_aux [of 0 xs] by (simp add: n_sum_def)

lemma n_pow_2_Fin [simp]: "n_pow (Fin x) (Fin 2) = Fin (x\<^sup>2)"
proof (cases "x < 0")
  case True
  then have "(- x) powr 2 = x\<^sup>2" by (simp add: powr_numeral power2_eq_square)
  with True show ?thesis by simp
next
  case False
  then show ?thesis by (cases "x = 0") (simp_all add: powr_numeral)
qed

lemma n_sum_zeros: "n_sum (map (\<lambda>_. Fin 0) xs) = Fin 0"
  using n_sum_Fin [of "map (\<lambda>_. 0) xs"] by (simp add: comp_def)

lemma n_lt_trans: "n_lt a b \<Longrightarrow> n_lt b c \<Longrightarrow> n_lt a c"
  by (cases a; cases b; cases c) simp_all

lemma n_lt_irrefl [simp]: "\<not> n_lt a a"
  by (cases a) simp_all

end
