(* ===== verification/ClientMetrics.thy ===== *)
theory ClientMetrics
  imports History JsNumber
begin

text \<open>
  The investment figures the React client computes from what the API returns:
  \<open>calculateTotals\<close> of \<open>src/client/src/pages/MyInvestments.tsx\<close>, \<open>calculateMetrics\<close>
  of \<open>src/client/src/components/dashboard/InvestmentPerformance.tsx\<close> and
  \<open>calculateMetrics\<close> of \<open>src/client/src/pages/ProfitAnalytics.tsx\<close>, with the
  per-investment rows of the first two tables and the two calculators. A query that has
  not returned is \<open>None\<close> (\<open>data\<close> is \<open>undefined\<close>); the rows are those of the
  \<open>investments\<close> table and of \<open>getGoldPriceHistory\<close>, whose \<open>numeric\<close> columns reach the
  client as the strings \<open>dec_text\<close> writes and are read with \<open>parseFloat\<close> (\<open>pf\<close>).
  Arithmetic is that of \<open>JsNumber\<close>.
\<close>

definition pf :: "numeric \<Rightarrow> jsnum" where
  "pf n = n_of_parse (parse_numeric n)"

section \<open>MyInvestments and InvestmentPerformance\<close>

record totals =
  t_totalInvestment :: jsnum
  t_totalWeight :: jsnum
  t_currentValue :: jsnum
  t_totalProfit :: jsnum
  t_profitPercentage :: jsnum
  t_profitIfSold :: jsnum

definition zero_totals :: totals where
  "zero_totals = \<lparr>t_totalInvestment = Fin 0, t_totalWeight = Fin 0, t_currentValue = Fin 0,
     t_totalProfit = Fin 0, t_profitPercentage = Fin 0, t_profitIfSold = Fin 0\<rparr>"

definition calculateTotals :: "investment list option \<Rightarrow> current_price option \<Rightarrow> totals" where
  "calculateTotals invs cp =
     (case (invs, cp) of
        (Some is, Some c) \<Rightarrow>
          if is = [] then zero_totals
          else
            (let totalInvestment = n_sum (map (\<lambda>i. pf (purchasePrice i)) is);
                 totalWeight = n_sum (map (\<lambda>i. pf (weight i)) is);
                 currentValue = n_mul totalWeight (pf (pricePerGram c));
                 totalProfit = n_sub currentValue totalInvestment;
                 profitPercentage = n_mul (n_div totalProfit totalInvestment) (Fin 100);
                 sellValue = n_mul totalWeight (pf (sellPrice c));
                 profitIfSold = n_sub sellValue totalInvestment
             in \<lparr>t_totalInvestment = totalInvestment, t_totalWeight = totalWeight,
                 t_currentValue = currentValue, t_totalProfit = totalProfit,
                 t_profitPercentage = profitPercentage, t_profitIfSold = profitIfSold\<rparr>)
      | _ \<Rightarrow> zero_totals)"

definition perf_calculateMetrics :: "investment list option \<Rightarrow> current_price option \<Rightarrow> totals" where
  "perf_calculateMetrics invs cp =
     (case (invs, cp) of
        (Some is, Some c) \<Rightarrow>
          (let totalInvestment = n_sum (map (\<lambda>i. pf (purchasePrice i)) is);
               totalWeight = n_sum (map (\<lambda>i. pf (weight i)) is);
               currentValue = n_mul totalWeight (pf (pricePerGram c));
               totalProfit = n_sub currentValue totalInvestment;
               profitPercentage = (if n_gt totalInvestment (Fin 0)
                                   then n_mul (n_div totalProfit totalInvestment) (Fin 100) else Fin 0);
               sellValue = n_mul totalWeight (pf (sellPrice c));
               profitIfSold = n_sub sellValue totalInvestment
           in \<lparr>t_totalInvestment = totalInvestment, t_totalWeight = totalWeight,
               t_currentValue = currentValue, t_totalProfit = totalProfit,
               t_profitPercentage = profitPercentage, t_profitIfSold = profitIfSold\<rparr>)
      | _ \<Rightarrow> zero_totals)"

text \<open>One row of the investment tables: current value, profit and profit percentage.\<close>

definition inv_row :: "jsnum \<Rightarrow> investment \<Rightarrow> jsnum \<times> jsnum \<times> jsnum" where
  "inv_row p i =
     (let cv = n_mul (pf (weight i)) p; pr = n_sub cv (pf (purchasePrice i))
      in (cv, pr, n_mul (n_div pr (pf (purchasePrice i))) (Fin 100)))"

section \<open>ProfitAnalytics\<close>

record perf =
  p_inv :: investment
  p_currentValue :: jsnum
  p_profit :: jsnum
  p_profitPercentage :: jsnum

definition inv_perf :: "jsnum \<Rightarrow> investment \<Rightarrow> perf" where
  "inv_perf p i = (case inv_row p i of (cv, pr, pp) \<Rightarrow>
     \<lparr>p_inv = i, p_currentValue = cv, p_profit = pr, p_profitPercentage = pp\<rparr>)"

definition best_reduce :: "perf list \<Rightarrow> perf option" where
  "best_reduce ps = foldl (\<lambda>b x. case b of None \<Rightarrow> Some x
     | Some b' \<Rightarrow> if n_gt (p_profitPercentage x) (p_profitPercentage b') then Some x else b) None ps"

definition worst_reduce :: "perf list \<Rightarrow> perf option" where
  "worst_reduce ps = foldl (\<lambda>w x. case w of None \<Rightarrow> Some x
     | Some w' \<Rightarrow> if n_lt (p_profitPercentage x) (p_profitPercentage w') then Some x else w) None ps"

definition oldest_reduce :: "investment list \<Rightarrow> investment option" where
  "oldest_reduce is = foldl (\<lambda>old i. case old of None \<Rightarrow> Some i
     | Some o' \<Rightarrow> if purchaseDate i < purchaseDate o' then Some i else old) None is"

text \<open>The return of one day: \<open>(todayPrice - yesterdayPrice) / yesterdayPrice\<close>, the
  history being newest first.\<close>

definition day_return :: "hist_row \<Rightarrow> hist_row \<Rightarrow> jsnum" where
  "day_return today yest =
     n_div (n_sub (pf (pricePerGram today)) (pf (pricePerGram yest))) (pf (pricePerGram yest))"

text \<open>The loop \<open>for (let i = 1; i < priceHistory.length; i++)\<close> with its index and the
  array it pushes to.\<close>

function (domintros) daily_returns :: "hist_row list \<Rightarrow> nat \<Rightarrow> jsnum list \<Rightarrow> jsnum list" where
  "daily_returns ph i acc =
     (if i < length ph then daily_returns ph (Suc i) (acc @ [day_return (ph ! (i - 1)) (ph ! i)]) else acc)"
  by pat_completeness auto
termination
  by (relation "measure (\<lambda>(ph, i, acc). length ph - i)") auto

declare daily_returns.simps [simp del]

definition volatility :: "hist_row list \<Rightarrow> jsnum" where
  "volatility ph =
     (if 1 < length ph then
        let rs = daily_returns ph 1 [];
            mean = n_div (n_sum rs) (Fin (real (length rs)));
            sq = map (\<lambda>r. n_pow (n_sub r mean) (Fin 2)) rs;
            var = n_div (n_sum sq) (Fin (real (length sq)))
        in n_mul (n_sqrt var) (Fin 100)
      else Fin 0)"

record pa_metrics =
  pa_totalInvestment :: jsnum
  pa_currentValue :: jsnum
  pa_totalProfit :: jsnum
  pa_profitPercentage :: jsnum
  pa_annualizedReturn :: jsnum
  pa_bestPerforming :: "perf option"
  pa_worstPerforming :: "perf option"
  pa_volatility :: jsnum

definition pa_zero :: pa_metrics where
  "pa_zero = \<lparr>pa_totalInvestment = Fin 0, pa_currentValue = Fin 0, pa_totalProfit = Fin 0,
     pa_profitPercentage = Fin 0, pa_annualizedReturn = Fin 0, pa_bestPerforming = None,
     pa_worstPerforming = None, pa_volatility = Fin 0\<rparr>"

text \<open>\<open>daysHeld\<close>, from \<open>new Date().getTime()\<close> and the oldest purchase date.\<close>

definition days_held :: "timestamp \<Rightarrow> investment option \<Rightarrow> real" where
  "days_held now old = (case old of Some i \<Rightarrow> real_of_int (now - purchaseDate i) / 86400000 | None \<Rightarrow> 0)"

definition annualized :: "jsnum \<Rightarrow> real \<Rightarrow> jsnum" where
  "annualized pp dh =
     (if 0 < dh then n_mul (n_sub (n_pow (n_add (Fin 1) (n_div pp (Fin 100))) (Fin (365 / dh))) (Fin 1)) (Fin 100)
      else Fin 0)"

definition pa_calculateMetrics :: "timestamp \<Rightarrow> investment list option \<Rightarrow> hist_row list option \<Rightarrow> pa_metrics" where
  "pa_calculateMetrics now invs hist =
     (case (invs, hist) of
        (Some is, Some ph) \<Rightarrow>
          if is = [] \<or> ph = [] then pa_zero
          else
            let p = pf (pricePerGram (hd ph));
                ti = n_sum (map (\<lambda>i. pf (purchasePrice i)) is);
                tw = n_sum (map (\<lambda>i. pf (weight i)) is);
                cv = n_mul tw p;
                tp = n_sub cv ti;
                pp = n_mul (n_div tp ti) (Fin 100);
                ps = map (inv_perf p) is
            in \<lparr>pa_totalInvestment = ti, pa_currentValue = cv, pa_totalProfit = tp, pa_profitPercentage = pp,
                pa_annualizedReturn = annualized pp (days_held now (oldest_reduce is)),
                pa_bestPerforming = best_reduce ps, pa_worstPerforming = worst_reduce ps,
                pa_volatility = volatility ph\<rparr>
      | _ \<Rightarrow> pa_zero)"

section \<open>The calculators\<close>

text \<open>\<open>GoldCalculator.handleCalculate\<close>, whose \<open>currentPrice\<close> is the \<open>buyPrice\<close>
  string of the current price (\<open>Dashboard.tsx\<close>, line 84); a non-empty string is truthy,
  and \<open>*\<close> converts it as \<open>parseFloat\<close> does for the strings \<open>dec_text\<close> writes.
  \<open>None\<close> when there is no price yet (the state keeps its old value).\<close>

definition gc_handleCalculate :: "numeric option \<Rightarrow> string \<Rightarrow> string \<Rightarrow> jsnum option" where
  "gc_handleCalculate cp w pur =
     (case cp of
        None \<Rightarrow> None
      | Some c \<Rightarrow>
          let wv = n_or (n_of_parse (parse_float w)) (Fin 0);
              pv = n_or (n_of_parse (parse_float pur)) (Fin (999 / 1000))
          in Some (n_mul (n_mul wv pv) (pf c)))"

text \<open>\<open>Calculator.calculateGoldValue\<close>: \<open>None\<close> where it returns without setting the value.\<close>

definition calculateGoldValue :: "current_price option \<Rightarrow> string \<Rightarrow> string \<Rightarrow> string \<Rightarrow> jsnum option" where
  "calculateGoldValue gd w pur ty =
     (case gd of
        None \<Rightarrow> None
      | Some g \<Rightarrow>
          (let wv = n_of_parse (parse_float w); pv = n_of_parse (parse_float pur)
           in if wv = NaN \<or> pv = NaN then None
              else Some (n_mul (n_mul wv pv) (pf (if ty = ''buy'' then buyPrice g else sellPrice g)))))"

text \<open>\<open>Calculator.calculateInvestmentProjection\<close>: the projected value and weight.\<close>

definition calculateInvestmentProjection ::
  "current_price option \<Rightarrow> string \<Rightarrow> string \<Rightarrow> string \<Rightarrow> (jsnum \<times> jsnum) option" where
  "calculateInvestmentProjection gd amt dur rate =
     (case gd of
        None \<Rightarrow> None
      | Some g \<Rightarrow>
          (let a = n_of_parse (parse_float amt); y = n_of_parse (parse_float dur);
               gr = n_div (n_of_parse (parse_float rate)) (Fin 100)
           in if a = NaN \<or> y = NaN \<or> gr = NaN then None
              else Some (n_mul a (n_pow (n_add (Fin 1) gr) y), n_div a (pf (buyPrice g)))))"

section \<open>Example data\<close>

definition ex_inv :: investment where
  "ex_inv = \<lparr>inv_id = 1, purchaseDate = 0, weight = Dec 5, purchasePrice = Dec 5000000,
     purity = Dec (999 / 1000), inv_notes = None, inv_createdAt = 0\<rparr>"

definition ex_perfs :: "perf list" where
  "ex_perfs = [\<lparr>p_inv = ex_inv\<lparr>inv_id := 2\<rparr>, p_currentValue = NaN, p_profit = NaN, p_profitPercentage = NaN\<rparr>,
     \<lparr>p_inv = ex_inv, p_currentValue = Fin 5290000, p_profit = Fin 290000, p_profitPercentage = Fin 58\<rparr>,
     \<lparr>p_inv = ex_inv\<lparr>inv_id := 3\<rparr>, p_currentValue = Fin 6000000, p_profit = Fin 1000000, p_profitPercentage = Fin 20\<rparr>]"

section \<open>Lemmas\<close>

lemma daily_returns_eq:
  "1 \<le> i \<Longrightarrow> daily_returns ph i acc = acc @ map (\<lambda>k. day_return (ph ! (k - 1)) (ph ! k)) [i..<length ph]"
proof (induction ph i acc rule: daily_returns.induct)
  case (1 ph i acc)
  show ?case
  proof (cases "i < length ph")
    case True
    with "1.IH" "1.prems" have "daily_returns ph (Suc i) (acc @ [day_return (ph ! (i - 1)) (ph ! i)])
        = (acc @ [day_return (ph ! (i - 1)) (ph ! i)]) @ map (\<lambda>k. day_return (ph ! (k - 1)) (ph ! k)) [Suc i..<length ph]"
      by simp
    with True show ?thesis by (simp add: daily_returns.simps [of ph i acc] upt_conv_Cons)
  next
    case False
    then show ?thesis by (simp add: daily_returns.simps [of ph i acc])
  qed
qed

lemma pf_Dec_0 [simp]: "pf (Dec 0) = Fin 0"
  by (simp add: pf_def n_of_parse_def parse_numeric_Dec scaled2_def)

lemma best_reduce_foldl:
  assumes "\<forall>x\<in>set seen. \<not> n_gt (p_profitPercentage x) (p_profitPercentage b)" and "b \<in> set seen"
  shows "\<exists>b'. foldl (\<lambda>b x. case b of None \<Rightarrow> Some x
      | Some b' \<Rightarrow> if n_gt (p_profitPercentage x) (p_profitPercentage b') then Some x else b) (Some b) xs = Some b'
    \<and> b' \<in> set (seen @ xs) \<and> (\<forall>x\<in>set (seen @ xs). \<not> n_gt (p_profitPercentage x) (p_profitPercentage b'))"
  using assms
proof (induction xs arbitrary: b seen)
  case Nil
  then show ?case by simp
next
  case (Cons y xs)
  show ?case
  proof (cases "n_gt (p_profitPercentage y) (p_profitPercentage b)")
    case True
    have "\<forall>x\<in>set (seen @ [y]). \<not> n_gt (p_profitPercentage x) (p_profitPercentage y)"
      using Cons.prems(1) True by (auto simp: n_gt_def dest: n_lt_trans)
    from Cons.IH [OF this] True show ?thesis by simp
  next
    case False
    have "\<forall>x\<in>set (seen @ [y]). \<not> n_gt (p_profitPercentage x) (p_profitPercentage b)"
      using Cons.prems(1) False by simp
    from Cons.IH [OF this] Cons.prems(2) False show ?thesis by simp
  qed
qed

lemma pf_Dec_int: "pf (Dec (of_int k)) = Fin (of_int k)"
  by (simp add: pf_def n_of_parse_def parse_numeric_Dec scaled2_def)

lemma pf_ex_inv [simp]: "pf (weight ex_inv) = Fin 5" "pf (purchasePrice ex_inv) = Fin 5000000"
  using pf_Dec_int [of 5] pf_Dec_int [of 5000000] by (simp_all add: ex_inv_def)

section \<open>Properties\<close>

text \<open>
  C26. The volatility loop of \<open>ProfitAnalytics.calculateMetrics\<close> terminates for every
  history, start index and accumulator, after exactly \<open>length ph - i\<close> iterations, each
  pushing one return: the distance of the index to the length of the history shrinks at
  every iteration.
\<close>

theorem daily_returns_terminates:
  "daily_returns_dom (ph, i, acc) \<and> length (daily_returns ph i acc) = length acc + (length ph - i)"
proof
  show "daily_returns_dom (ph, i, acc)"
  proof (induction "length ph - i" arbitrary: i acc)
    case 0
    show ?case by (rule daily_returns.domintros) (use 0 in simp)
  next
    case (Suc n)
    have h: "\<And>acc'. daily_returns_dom (ph, Suc i, acc')" using Suc by simp
    show ?case by (rule daily_returns.domintros) (rule h)
  qed
  show "length (daily_returns ph i acc) = length acc + (length ph - i)"
    by (induction ph i acc rule: daily_returns.induct) (simp add: daily_returns.simps Suc_diff_Suc)
qed

text \<open>
  C27. The loop computes the daily returns of consecutive snapshots: started at index 1
  with an empty array, it yields the return of each snapshot over the next older one, in
  the order of the history.
\<close>

theorem daily_returns_pairs:
  "daily_returns ph 1 [] = map (\<lambda>(today, yest). day_return today yest) (zip ph (tl ph))"
  using daily_returns_eq [of 1 ph "[]"] map_upt_zip_tl [of day_return ph] by simp

text \<open>
  A history whose snapshots all have the same positive price per gram has a
  volatility of exactly 0: every daily return is 0, and so are their mean and variance.
\<close>

theorem volatility_constant:
  assumes "\<forall>r\<in>set ph. pricePerGram r = Dec (of_int k)" and "0 < k" and "1 < length ph"
  shows "volatility ph = Fin 0"
proof -
  have p: "pf (pricePerGram (ph ! j)) = Fin (of_int k)" if "j < length ph" for j
    using assms(1) that by (simp add: pf_Dec_int)
  have "map (\<lambda>j. day_return (ph ! (j - 1)) (ph ! j)) [1..<length ph] = map (\<lambda>_. Fin 0) [1..<length ph]"
    using assms(2) by (auto simp: day_return_def p)
  then have rs: "daily_returns ph 1 [] = map (\<lambda>_. Fin 0) [1..<length ph]"
    using daily_returns_eq [of 1 ph "[]"] by simp
  let ?Z = "map (\<lambda>_. Fin 0) [1..<length ph]"
  have n: "0 < real (length ?Z)" using assms(3) by simp
  have m: "n_div (n_sum ?Z) (Fin (real (length ?Z))) = Fin 0"
    using n by (simp add: n_sum_zeros)
  have z: "n_pow (n_sub (Fin 0) (Fin 0)) (Fin 2) = Fin 0" by simp
  have sq: "map (\<lambda>r. n_pow (n_sub r (Fin 0)) (Fin 2)) ?Z = ?Z"
    by (simp only: map_map comp_def z)
  show ?thesis unfolding volatility_def Let_def rs m sq using assms(3) by simp
qed

theorem volatility_constant_witness:
  "volatility [gold_price.extend ex_gp (hist_row.fields (Some 0) (Some 0)), gold_price.extend ex_gp (hist_row.fields (Some 0) (Some 0))] = Fin 0"
  by (rule volatility_constant [of _ 1058000]) (simp_all add: ex_gp_def gold_price.defs hist_row.defs)

text \<open>
  C28. MyInvestments and the dashboard's InvestmentPerformance card compute the same
  totals for a non-empty list of investments whose total purchase price is positive.
\<close>

theorem totals_agree:
  assumes "is \<noteq> []" and "n_gt (t_totalInvestment (calculateTotals (Some is) (Some c))) (Fin 0)"
  shows "calculateTotals (Some is) (Some c) = perf_calculateMetrics (Some is) (Some c)"
  using assms by (simp add: calculateTotals_def perf_calculateMetrics_def Let_def)

theorem totals_agree_witness:
  "calculateTotals (Some [ex_inv]) (Some ex_cur) = perf_calculateMetrics (Some [ex_inv]) (Some ex_cur)"
  by (rule totals_agree) (simp_all add: calculateTotals_def Let_def n_sum_def)

text \<open>
  C29. The two components disagree when the investments were bought for nothing (a
  purchase price of 0, which the API accepts): InvestmentPerformance shows a profit
  percentage of 0, MyInvestments shows \<open>NaN\<close> or an infinite percentage.
\<close>

theorem zero_investment_percentages:
  assumes "is \<noteq> []" and "\<forall>i\<in>set is. purchasePrice i = Dec 0"
  shows "t_profitPercentage (perf_calculateMetrics (Some is) (Some c)) = Fin 0
       \<and> t_profitPercentage (calculateTotals (Some is) (Some c)) \<in> {NaN, PInf, NInf}"
proof -
  have m: "map (\<lambda>i. pf (purchasePrice i)) is = map (\<lambda>_. Fin 0) is" using assms(2) by simp
  have ti: "n_sum (map (\<lambda>i. pf (purchasePrice i)) is) = Fin 0" unfolding m by (rule n_sum_zeros)
  have "n_mul (n_div v (Fin 0)) (Fin 100) \<in> {NaN, PInf, NInf}" for v
    by (cases v) (simp_all add: inf_of_sign_def sgn_real_def)
  then show ?thesis using assms(1) ti
    by (simp add: calculateTotals_def perf_calculateMetrics_def Let_def n_gt_def)
qed

theorem zero_investment_percentages_witness:
  "t_profitPercentage (perf_calculateMetrics (Some [ex_inv\<lparr>purchasePrice := Dec 0\<rparr>]) (Some ex_cur)) = Fin 0
   \<and> t_profitPercentage (calculateTotals (Some [ex_inv\<lparr>purchasePrice := Dec 0\<rparr>]) (Some ex_cur)) \<in> {NaN, PInf, NInf}"
  by (rule zero_investment_percentages) simp_all

text \<open>
  The best-performing investment ProfitAnalytics reports is one of the investments
  and no investment has a strictly higher profit percentage. An investment whose
  percentage is \<open>NaN\<close> is never beaten once it is the current best, so a \<open>NaN\<close> early in
  the list hides every later investment.
\<close>

theorem best_never_beaten:
  assumes "best_reduce ps = Some b"
  shows "b \<in> set ps \<and> list_all (\<lambda>x. \<not> n_gt (p_profitPercentage x) (p_profitPercentage b)) ps"
proof (cases ps)
  case Nil
  with assms show ?thesis by (simp add: best_reduce_def)
next
  case (Cons p ps')
  have "\<forall>x\<in>set [p]. \<not> n_gt (p_profitPercentage x) (p_profitPercentage p)"
    by (cases "p_profitPercentage p") (simp_all add: n_gt_def)
  from best_reduce_foldl [OF this, of ps'] Cons assms show ?thesis by (auto simp: best_reduce_def list_all_iff)
qed

theorem best_never_beaten_witness:
  "ex_perfs ! 0 \<in> set ex_perfs \<and> list_all (\<lambda>x. \<not> n_gt (p_profitPercentage x) (p_profitPercentage (ex_perfs ! 0))) ex_perfs"
  by (rule best_never_beaten) (simp add: best_reduce_def ex_perfs_def n_gt_def)

end
