(* ===== verification/ClientFormat.thy ===== *)
theory ClientFormat
  imports JsNumber Notify
begin

text \<open>
  The display formatters of \<open>src/client/src/lib/formatters.js\<close>:
  \<open>formatCurrency\<close>, \<open>formatPercentage\<close> and \<open>formatWeight\<close>. Each first tests for
  \<open>null\<close> and \<open>undefined\<close>, reads a string with \<open>parseFloat\<close> and answers \<open>N/A\<close>
  for \<open>NaN\<close>; the value handed in is a \<open>fmt_val\<close>. \<open>Number.prototype.toFixed\<close>
  is \<open>n_toFixed\<close> (the magnitude rounded half up to \<open>f\<close> digits, the sign in front,
  which is what the specification's "the larger n" rule gives on exact values; values of
  \<open>10^21\<close> and more, which \<open>toFixed\<close> writes in exponent form, are not modelled).
  \<open>Intl.NumberFormat('id-ID', {style: 'currency', currency: 'IDR'})\<close> with no fraction
  digits is \<open>Notify.intl_digits 0\<close> behind \<open>Rp\<close> and a no-break space; the infinity
  sign is its UTF-8 encoding, as every string of the model is a byte string.
\<close>

section \<open>Values handed to the formatters\<close>

datatype fmt_val = FNull | FUndefined | FStr string | FNum jsnum

text \<open>\<open>typeof value === 'string' ? parseFloat(value) : value\<close> after the test for
  \<open>null\<close> and \<open>undefined\<close> (\<open>None\<close>).\<close>

definition fmt_num :: "fmt_val \<Rightarrow> jsnum option" where
  "fmt_num v = (case v of FNull \<Rightarrow> None | FUndefined \<Rightarrow> None
     | FStr s \<Rightarrow> Some (n_of_parse (parse_float s)) | FNum x \<Rightarrow> Some x)"

text \<open>A nullable \<open>numeric\<close> column as the client receives it: \<open>null\<close> or its text.\<close>

definition fmt_numeric :: "numeric option \<Rightarrow> fmt_val" where
  "fmt_numeric x = (case x of None \<Rightarrow> FNull | Some n \<Rightarrow> FStr (dec_text n))"

section \<open>toFixed\<close>

definition n_toFixed :: "nat \<Rightarrow> jsnum \<Rightarrow> string" where
  "n_toFixed f v =
     (case v of
        NaN \<Rightarrow> ''NaN''
      | PInf \<Rightarrow> ''Infinity''
      | NInf \<Rightarrow> ''-Infinity''
      | Fin x \<Rightarrow>
          let n = nat \<lfloor>\<bar>x\<bar> * 10 ^ f + 1 / 2\<rfloor>
          in (if x < 0 then ''-'' else []) @ show_nat (n div 10 ^ f) @
             (if f = 0 then [] else ''.'' @ pad_left f (show_nat (n mod 10 ^ f))))"

text \<open>\<open>x >= 0\<close> on a number.\<close>

definition n_ge0 :: "jsnum \<Rightarrow> bool" where
  "n_ge0 v = (case v of Fin x \<Rightarrow> 0 \<le> x | PInf \<Rightarrow> True | _ \<Rightarrow> False)"

section \<open>The formatters\<close>

definition infinity_sign :: string where
  "infinity_sign = [CHR 0xE2, CHR 0x88, CHR 0x9E]"

definition formatCurrency :: "fmt_val \<Rightarrow> string" where
  "formatCurrency v =
     (case fmt_num v of
        None \<Rightarrow> ''N/A''
      | Some NaN \<Rightarrow> ''N/A''
      | Some (Fin x) \<Rightarrow> (if x < 0 then ''-'' else []) @ ''Rp'' @ nbsp @ intl_digits 0 x
      | Some PInf \<Rightarrow> ''Rp'' @ nbsp @ infinity_sign
      | Some NInf \<Rightarrow> ''-Rp'' @ nbsp @ infinity_sign)"

definition formatPercentage :: "fmt_val \<Rightarrow> nat \<Rightarrow> string" where
  "formatPercentage v d =
     (case fmt_num v of
        None \<Rightarrow> ''N/A''
      | Some NaN \<Rightarrow> ''N/A''
      | Some x \<Rightarrow> (if n_ge0 x then ''+'' else []) @ n_toFixed d x @ ''%'')"

definition formatWeight :: "fmt_val \<Rightarrow> nat \<Rightarrow> string" where
  "formatWeight v d =
     (case fmt_num v of
        None \<Rightarrow> ''N/A''
      | Some NaN \<Rightarrow> ''N/A''
      | Some x \<Rightarrow> n_toFixed d x @ '' '' @ (if x = Fin 1 then ''gram'' else ''grams''))"

section \<open>Lemmas\<close>

lemma parse_float_fixed:
  assumes "ip \<noteq> []" "\<forall>c\<in>set ip. is_digit c" "\<forall>c\<in>set fp. is_digit c"
    and "rest = [] \<or> \<not> is_digit (hd rest)" and sg: "sg = [] \<or> sg = ''+'' \<or> sg = ''-''"
  shows "parse_float (sg @ ip @ ''.'' @ fp @ rest) =
    Some ((if sg = ''-'' then -1 else 1) * (of_nat (digits_val ip) + of_nat (digits_val fp) / of_nat (10 ^ length fp)))"
proof -
  obtain c cs where ip: "ip = c # cs" using assms(1) by (cases ip) auto
  have dc: "is_digit c" using assms(2) ip by simp
  have tr: "takeWhile is_digit rest = []" using assms(4) by (cases rest) auto
  have tw: "takeWhile is_digit (ip @ ''.'' @ fp @ rest) = ip"
    using assms(2) by (simp add: takeWhile_append2 nondigit_chars)
  have dw: "dropWhile is_digit (ip @ ''.'' @ fp @ rest) = ''.'' @ fp @ rest"
    using assms(2) by (simp add: dropWhile_append2 nondigit_chars)
  have tf: "takeWhile is_digit (fp @ rest) = fp"
    using assms(3) tr by (simp add: takeWhile_append2)
  have nsp: "\<not> is_space (CHR ''-'')" "\<not> is_space (CHR ''+'')" by (simp_all add: is_space_def)
  from sg consider "sg = []" | "sg = ''+''" | "sg = ''-''" by blast
  then show ?thesis
  proof cases
    case 1
    then show ?thesis using ip dc tw dw tf by (simp add: parse_float_def Let_def digit_not_space_sign)
  next
    case 2
    then show ?thesis using ip dc tw dw tf nsp by (simp add: parse_float_def Let_def digit_not_space_sign)
  next
    case 3
    then show ?thesis using ip dc tw dw tf nsp by (simp add: parse_float_def Let_def digit_not_space_sign)
  qed
qed

lemma digits_val_zeros: "digits_val (replicate k CHR ''0'') = 0"
  by (induction k) (simp_all add: digits_val_def digit_val_def)

lemma pad_left_digits: "\<forall>c\<in>set s. is_digit c \<Longrightarrow> \<forall>c\<in>set (pad_left n s). is_digit c"
  by (auto simp: pad_left_def is_digit_def less_eq_char_def)

lemma digits_val_pad_left: "digits_val (pad_left n s) = digits_val s"
  by (simp add: pad_left_def digits_val_append digits_val_zeros)


lemma pct_not_digit: "\<not> is_digit CHR ''%''"
  by (simp add: is_digit_def less_eq_char_def)

lemma length_show_nat_100: "k < 100 \<Longrightarrow> length (show_nat k) \<le> 2"
  by (cases "k < 10") (simp_all add: show_nat.simps show_nat_2digits)

lemma parse_float_percent:
  "sg = ''+'' \<or> sg = ''-'' \<Longrightarrow> parse_float (sg @ show_nat a @ ''.'' @ pad_left 2 (show_nat b) @ ''%'') =
  Some ((if sg = ''-'' then -1 else 1) * (of_nat a + of_nat (digits_val (pad_left 2 (show_nat b))) / of_nat (10 ^ length (pad_left 2 (show_nat b)))))"
  using parse_float_fixed [of "show_nat a" "pad_left 2 (show_nat b)" "''%''" sg]
    show_nat_not_Nil [of a] show_nat_digits [of a] pad_left_digits [OF show_nat_digits [of b]] pct_not_digit
  by (simp add: digits_val_show_nat)

lemma str_to_number_fixed:
  assumes ip: "ip \<noteq> []" "\<forall>c\<in>set ip. is_digit c" and d: "d1 < 10" "d2 < 10" and sg: "sg = [] \<or> sg = ''-''"
  shows "str_to_number (sg @ ip @ ''.'' @ [digit_char d1, digit_char d2]) =
    parse_float (sg @ ip @ ''.'' @ [digit_char d1, digit_char d2])"
proof -
  define t where "t = sg @ ip @ ''.'' @ [digit_char d1, digit_char d2]"
  obtain c cs where c: "ip = c # cs" using ip(1) by (cases ip) auto
  have dc: "is_digit c" using ip(2) c by simp
  have dd: "is_digit (digit_char d1)" "is_digit (digit_char d2)" using d by (simp_all add: is_digit_digit_char)
  have hd: "\<not> is_space (hd t)"
    using sg digit_not_space_sign(1) [OF dc] by (elim disjE) (simp_all add: t_def c is_space_def)
  have lst: "\<not> is_space (hd (rev t))" using dd(2) by (simp add: t_def digit_not_space_sign)
  have tr: "trim t = t"
  proof -
    have "dropWhile is_space t = t" using hd by (cases t) simp_all
    moreover have "dropWhile is_space (rev t) = rev t" using lst by (cases "rev t") simp_all
    ultimately show ?thesis by (simp add: trim_def)
  qed
  have sgm: "\<forall>x\<in>set sg. x = CHR ''-''" using sg by auto
  have nd: "\<forall>x\<in>set ip. x \<noteq> CHR ''.'' \<and> x \<noteq> CHR ''-'' \<and> x \<noteq> CHR ''+''"
  proof
    fix x assume "x \<in> set ip"
    then have "is_digit x" using ip(2) by blast
    then show "x \<noteq> CHR ''.'' \<and> x \<noteq> CHR ''-'' \<and> x \<noteq> CHR ''+''"
      using digit_not_space_sign(2,3,5) [of x] by simp
  qed
  note ndd = digit_not_space_sign(2,3,5) [OF dd(1)] digit_not_space_sign(2,3,5) [OF dd(2)]
  have chars: "\<forall>x\<in>set t. is_digit x \<or> x = CHR ''.'' \<or> x = CHR ''-'' \<or> x = CHR ''+''"
    using sgm ip(2) dd unfolding t_def by simp blast
  have f_sg: "filter (\<lambda>x. x = CHR ''.'') sg = []" using sg by auto
  have f_ip: "filter (\<lambda>x. x = CHR ''.'') ip = []" using nd by (simp add: filter_empty_conv)
  have dots: "length (filter (\<lambda>x. x = CHR ''.'') t) \<le> 1"
    unfolding t_def using f_sg f_ip ndd by simp
  have st: "set (tl t) \<subseteq> set ip \<union> {CHR ''.'', digit_char d1, digit_char d2}"
    using sg unfolding t_def c by auto
  have tls: "\<forall>x\<in>set (tl t). x \<noteq> CHR ''-'' \<and> x \<noteq> CHR ''+''"
  proof
    fix x assume "x \<in> set (tl t)"
    with st have "x \<in> set ip \<or> x = CHR ''.'' \<or> x = digit_char d1 \<or> x = digit_char d2" by blast
    then show "x \<noteq> CHR ''-'' \<and> x \<noteq> CHR ''+''" using nd ndd by auto
  qed
  have ne: "t \<noteq> []" by (simp add: t_def)
  show ?thesis
    using tr chars dots tls ne unfolding t_def [symmetric] by (simp add: str_to_number_def Let_def)
qed

lemma str_to_number_dec_text: "str_to_number (dec_text n) = parse_numeric n"
proof (cases n)
  case (Dec r)
  define k where "k = nat \<lfloor>\<bar>r\<bar> * 100\<rfloor>"
  have "str_to_number ((if r < 0 then ''-'' else []) @ show_nat (k div 100) @ ''.'' @
      [digit_char (k mod 100 div 10), digit_char (k mod 10)]) =
      parse_float ((if r < 0 then ''-'' else []) @ show_nat (k div 100) @ ''.'' @
      [digit_char (k mod 100 div 10), digit_char (k mod 10)])"
    by (rule str_to_number_fixed) (simp_all add: show_nat_not_Nil show_nat_digits)
  then show ?thesis unfolding Dec dec_text_def parse_numeric_def k_def Let_def numeric.case .
next
  case DecNaN
  have nd: "\<not> is_digit CHR ''N''" "\<not> is_space CHR ''N''"
    by (simp_all add: is_digit_def is_space_def less_eq_char_def)
  have t: "trim ''NaN'' = ''NaN''"
    by (simp add: trim_def is_space_def)
  have s: "str_to_number ''NaN'' = None"
    using nd by (simp add: str_to_number_def t)
  have p: "parse_float ''NaN'' = None"
    using nd by (simp add: parse_float_def Let_def)
  show ?thesis unfolding DecNaN dec_text_def parse_numeric_def numeric.case s p ..
qed

lemma not_na_hd: "hd s \<noteq> CHR ''N'' \<Longrightarrow> s \<noteq> ''N/A''"
  by auto

lemma not_na_last: "last s \<noteq> CHR ''A'' \<Longrightarrow> s \<noteq> ''N/A''"
  by auto

lemma fmt_num_cases:
  obtains "fmt_num v = None" | "fmt_num v = Some NaN" | x where "fmt_num v = Some (Fin x)"
  | "fmt_num v = Some PInf" | "fmt_num v = Some NInf"
  by (metis jsnum.exhaust option.exhaust)

section \<open>Properties\<close>

text \<open>C30. Each formatter answers \<open>N/A\<close> exactly when the value is \<open>null\<close>,
  \<open>undefined\<close> or not a number (a string \<open>parseFloat\<close> cannot read included): no number
  is ever shown as \<open>N/A\<close>.\<close>

theorem formatters_na:
  "(formatCurrency v = ''N/A'' \<longleftrightarrow> fmt_num v = None \<or> fmt_num v = Some NaN) \<and>
   (formatPercentage v d = ''N/A'' \<longleftrightarrow> fmt_num v = None \<or> fmt_num v = Some NaN) \<and>
   (formatWeight v d = ''N/A'' \<longleftrightarrow> fmt_num v = None \<or> fmt_num v = Some NaN)"
proof (intro conjI)
  show "formatCurrency v = ''N/A'' \<longleftrightarrow> fmt_num v = None \<or> fmt_num v = Some NaN"
    by (rule fmt_num_cases [of v]) (simp_all add: formatCurrency_def not_na_hd)
  show "formatPercentage v d = ''N/A'' \<longleftrightarrow> fmt_num v = None \<or> fmt_num v = Some NaN"
    by (rule fmt_num_cases [of v]) (simp_all add: formatPercentage_def not_na_last)
  show "formatWeight v d = ''N/A'' \<longleftrightarrow> fmt_num v = None \<or> fmt_num v = Some NaN"
    by (rule fmt_num_cases [of v]) (simp_all add: formatWeight_def not_na_last)
qed

text \<open>C31. Round trip of \<open>formatPercentage(x, 2)\<close>: \<open>parseFloat\<close> reads back the
  value rounded half away from zero to two decimals; the leading \<open>+\<close> of a
  non-negative value and the trailing \<open>%\<close> do not disturb it.\<close>

theorem formatPercentage_roundtrip:
  "\<exists>r. parse_float (formatPercentage (FNum (Fin x)) 2) = Some r \<and>
        (of_rat r :: real) = (if x < 0 then - 1 else 1) * of_int \<lfloor>\<bar>x\<bar> * 100 + 1 / 2\<rfloor> / 100"
proof -
  define n where "n = nat \<lfloor>\<bar>x\<bar> * 10 ^ 2 + 1 / 2\<rfloor>"
  define sg where "sg = (if 0 \<le> x then ''+'' else []) @ (if x < 0 then ''-'' else [])"
  have sg': "sg = ''+'' \<or> sg = ''-''" by (simp add: sg_def)
  have z: "0 \<le> \<lfloor>\<bar>x\<bar> * 10 ^ 2 + 1 / 2\<rfloor>" by simp
  have n0: "of_nat n = (of_int \<lfloor>\<bar>x\<bar> * 100 + 1 / 2\<rfloor> :: real)"
    using z by (simp add: n_def)
  have f: "formatPercentage (FNum (Fin x)) 2 = sg @ show_nat (n div 10 ^ 2) @ ''.'' @ pad_left 2 (show_nat (n mod 10 ^ 2)) @ ''%''"
    unfolding formatPercentage_def fmt_num_def n_ge0_def n_toFixed_def Let_def sg_def n_def by simp
  have lm: "length (pad_left 2 (show_nat (n mod 10 ^ 2))) = 2"
    using length_show_nat_100 [of "n mod 10 ^ 2"] by (simp add: pad_left_def)
  have p: "parse_float (formatPercentage (FNum (Fin x)) 2) =
      Some ((if sg = ''-'' then -1 else 1) * (of_nat (n div 10 ^ 2) + of_nat (n mod 10 ^ 2) / 100))"
    unfolding f using parse_float_percent [OF sg', of "n div 10 ^ 2" "n mod 10 ^ 2"] lm
    by (simp add: digits_val_pad_left digits_val_show_nat)
  have q: "(of_nat (n div 10 ^ 2) + of_nat (n mod 10 ^ 2) / 100 :: real) = of_nat n / 100"
  proof -
    have "real n = real (n div 100 * 100 + n mod 100)" by simp
    also have "\<dots> = real (n div 100) * 100 + real (n mod 100)"
      by (simp only: of_nat_add of_nat_mult of_nat_numeral)
    finally have e: "real n = real (n div 100) * 100 + real (n mod 100)" .
    show ?thesis by (simp add: e field_simps)
  qed
  have s: "(sg = ''-'') = (x < 0)" by (simp add: sg_def)
  show ?thesis
  proof (intro exI conjI)
    show "parse_float (formatPercentage (FNum (Fin x)) 2) = Some ((if sg = ''-'' then -1 else 1) * (of_nat (n div 10 ^ 2) + of_nat (n mod 10 ^ 2) / 100))"
      by (rule p)
    show "of_rat ((if sg = ''-'' then -1 else 1) * (of_nat (n div 10 ^ 2) + of_nat (n mod 10 ^ 2) / 100)) =
        (if x < 0 then - 1 else 1) * of_int \<lfloor>\<bar>x\<bar> * 100 + 1 / 2\<rfloor> / (100::real)"
    proof -
      have r: "of_rat ((if sg = ''-'' then -1 else 1) * (of_nat (n div 10 ^ 2) + of_nat (n mod 10 ^ 2) / 100)) =
          (if sg = ''-'' then -1 else 1) * (real n / 100)"
      proof -
        have q': "of_rat (of_nat (n div 10 ^ 2) + of_nat (n mod 10 ^ 2) / 100 :: rat) = real n / 100"
          using q by (simp add: of_rat_add of_rat_divide)
        show ?thesis
          by (cases "sg = ''-''") (simp_all only: simp_thms if_True if_False of_rat_mult q' of_rat_minus of_rat_1)
      qed
      show ?thesis unfolding r by (simp only: s n0 times_divide_eq_right)
    qed
  qed
qed
end
