(* ===== verification/ClientDashboard.thy ===== *)
theory ClientDashboard
  imports ClientFormat ClientForms ClientMetrics
begin

text \<open>
  The two dashboard components that read the server's state:
  \<open>src/client/src/components/dashboard/PriceCards.tsx\<close>, which receives the
  \<open>/api/gold-prices/current\<close> query of \<open>pages/Dashboard.tsx\<close>, and
  \<open>src/client/src/components/dashboard/PriceAlerts.tsx\<close>, which queries
  \<open>/api/alerts\<close>. The query function of \<open>lib/queryClient\<close> (not in the repository)
  treats a status outside 2xx as an error, so \<open>data\<close> is the body of a 2xx answer
  (\<open>query_of\<close>). The body is the row as JSON: a \<open>numeric\<close> column is its text
  (\<open>Schema.num_js\<close>), a change is a number or \<open>null\<close> (\<open>ClientForms.json_num\<close>). A card
  or an alert item is the record of what the component renders; markup, icons and
  colours are left out apart from the tests that choose them.
\<close>

section \<open>Queries\<close>

datatype 'a query = QLoading | QError | QData 'a

definition query_of :: "'a response \<Rightarrow> 'a query" where
  "query_of r = (case r of Ok200 x \<Rightarrow> QData x | Created201 x \<Rightarrow> QData x | _ \<Rightarrow> QError)"

section \<open>PriceCards\<close>

record price_card =
  pc_title :: string
  pc_value :: fmt_val
  pc_change :: jsnum
  pc_changePercent :: string
  pc_changeText :: string

text \<open>\<open>PriceCard\<close>: \<open>isIncrease = change > 0\<close> chooses the arrow and the colour and
  puts a \<open>+\<close> before the percentage.\<close>

definition card_isIncrease :: "price_card \<Rightarrow> bool" where
  "card_isIncrease c = n_gt (pc_change c) (Fin 0)"

definition card_valueText :: "price_card \<Rightarrow> string" where
  "card_valueText c = formatCurrency (pc_value c)"

definition card_badge :: "price_card \<Rightarrow> string" where
  "card_badge c = (if card_isIncrease c then ''+'' else []) @ pc_changePercent c @ ''%''"

text \<open>\<open>data.buyPriceChange || 0\<close>, and the same for the other two changes.\<close>

definition change_or0 :: "rat option \<Rightarrow> jsnum" where
  "change_or0 c = n_of_parse (to_number (js_or (json_num c) (JNum 0)))"

text \<open>\<open>data.buyPrice ? ((buyPriceChange / data.buyPrice) * 100).toFixed(1) : "0.0"\<close>:
  the guard tests the column's text and \<open>/\<close> converts it with \<open>ToNumber\<close>.\<close>

definition change_percent :: "jsnum \<Rightarrow> numeric \<Rightarrow> string" where
  "change_percent ch p =
     (if truthy (num_js p)
      then n_toFixed 1 (n_mul (n_div ch (n_of_parse (to_number (num_js p)))) (Fin 100))
      else ''0.0'')"

definition change_text :: "jsnum \<Rightarrow> string" where
  "change_text ch = (if n_ge0 ch then ''+'' else []) @ formatCurrency (FNum ch) @ '' today''"

definition change_card :: "string \<Rightarrow> numeric \<Rightarrow> rat option \<Rightarrow> price_card" where
  "change_card t p c =
     (let ch = change_or0 c
      in \<lparr>pc_title = t, pc_value = fmt_numeric (Some p), pc_change = ch,
          pc_changePercent = change_percent ch p, pc_changeText = change_text ch\<rparr>)"

text \<open>The 24h High card: \<open>data.highPrice || data.pricePerGram\<close>, a constant change of 1,
  and \<open>data.highPriceTime || "4 hours ago"\<close>; the row has no \<open>highPriceTime\<close> key.\<close>

definition js_text :: "jsval \<Rightarrow> string" where
  "js_text v = (case v of JStr s \<Rightarrow> s | _ \<Rightarrow> [])"

definition high_card :: "current_price \<Rightarrow> price_card" where
  "high_card c =
     \<lparr>pc_title = ''24h High'',
      pc_value = (if truthy (opt_js num_js (highPrice c)) then fmt_numeric (highPrice c)
                  else fmt_numeric (Some (pricePerGram c))),
      pc_change = Fin 1, pc_changePercent = ''0.0'',
      pc_changeText = js_text (js_or (gold_price_obj (gold_price.truncate c) ''highPriceTime'')
                                     (JStr ''4 hours ago''))\<rparr>"

datatype cards_view = CardsLoading | CardsNoData | Cards "price_card list"

definition PriceCards :: "bool \<Rightarrow> current_price option \<Rightarrow> cards_view" where
  "PriceCards isLoading data =
     (if isLoading then CardsLoading
      else case data of
             None \<Rightarrow> CardsNoData
           | Some c \<Rightarrow> Cards
               [change_card ''Current Price'' (pricePerGram c) (priceChange c),
                change_card ''Buy Price'' (buyPrice c) (buyPriceChange c),
                change_card ''Sell Price'' (sellPrice c) (sellPriceChange c),
                high_card c])"

text \<open>The cards once the current-price query has answered.\<close>

definition dashboard_cards :: "current_price response \<Rightarrow> cards_view" where
  "dashboard_cards r = (case query_of r of
     QLoading \<Rightarrow> PriceCards True None | QError \<Rightarrow> PriceCards False None | QData c \<Rightarrow> PriceCards False (Some c))"

section \<open>PriceAlerts\<close>

record alert_item =
  ai_title :: string
  ai_description :: string
  ai_whatsapp :: bool
  ai_telegram :: bool

definition alert_getTitle :: "price_alert \<Rightarrow> string" where
  "alert_getTitle a =
     (if alertType a = ''increase'' then ''Price increase''
      else if alertType a = ''decrease'' then ''Price decrease'' else ''Daily summary'')"

text \<open>\<open>`Send at ${alert.dailyTime} daily`\<close> writes \<open>null\<close> as \<open>"null"\<close>.\<close>

definition alert_getDescription :: "price_alert \<Rightarrow> string" where
  "alert_getDescription a =
     (if alertType a = ''increase'' then ''Alert when > '' @ formatCurrency (fmt_numeric (targetPrice a))
      else if alertType a = ''decrease'' then ''Alert when < '' @ formatCurrency (fmt_numeric (targetPrice a))
      else ''Send at '' @ (case dailyTime a of None \<Rightarrow> ''null'' | Some t \<Rightarrow> t) @ '' daily'')"

definition alert_item :: "price_alert \<Rightarrow> alert_item" where
  "alert_item a =
     \<lparr>ai_title = alert_getTitle a, ai_description = alert_getDescription a,
      ai_whatsapp = truthy (opt_js JBool (whatsappEnabled a)),
      ai_telegram = truthy (opt_js JBool (telegramEnabled a))\<rparr>"

datatype alerts_view = AlertsLoading | AlertsError | AlertsEmpty | AlertsList "alert_item list"

definition PriceAlerts :: "price_alert list query \<Rightarrow> alerts_view" where
  "PriceAlerts q =
     (case q of
        QLoading \<Rightarrow> AlertsLoading
      | QError \<Rightarrow> AlertsError
      | QData as \<Rightarrow> if as = [] then AlertsEmpty else AlertsList (map alert_item (take 3 as)))"

definition dashboard_alerts :: "db \<Rightarrow> alerts_view" where
  "dashboard_alerts d = PriceAlerts (query_of (get_alerts d))"

section \<open>Lemmas\<close>

lemma num_js_truthy [simp]: "truthy (num_js p)"
  by (cases p) (simp_all add: num_js_def dec_text_def Let_def)

lemma to_number_num_js [simp]: "to_number (num_js p) = parse_numeric p"
  by (simp add: num_js_def str_to_number_dec_text)

lemma change_or0_Some [simp]: "change_or0 (Some r) = Fin (of_rat r)"
  by (cases "r = 0") (simp_all add: change_or0_def js_or_def json_num_def n_of_parse_def)

lemma change_percent_eq: "change_percent ch p = n_toFixed 1 (n_mul (n_div ch (pf p)) (Fin 100))"
  by (simp add: change_percent_def pf_def)

lemma dashboard_alerts_eq:
  "dashboard_alerts d = (if getPriceAlerts d = [] then AlertsEmpty else AlertsList (map alert_item (take 3 (getPriceAlerts d))))"
  by (simp add: dashboard_alerts_def PriceAlerts_def query_of_def get_alerts_def)

lemma getPriceAlerts_ex_db: "getPriceAlerts ex_db = [ex_alert]"
  by (simp add: getPriceAlerts_def ex_db_def empty_db_def ex_alert_def)

section \<open>Properties\<close>

text \<open>C32. The zero-price guard of PriceCards tests the column's text, which is never empty:
  a card whose price is 0 divides by it and shows an infinite or \<open>NaN\<close> percentage.\<close>

theorem change_card_zero_price:
  "card_badge (change_card t (Dec 0) (Some r)) =
     (if 0 < r then ''+Infinity%'' else if r < 0 then ''-Infinity%'' else ''NaN%'')"
  by (simp add: card_badge_def card_isIncrease_def change_card_def change_percent_eq
      inf_of_sign_def n_toFixed_def Let_def)

text \<open>The change line of a card carries exactly one sign: the \<open>+\<close> the component
  adds for a non-negative change, or the \<open>-\<close> \<open>Intl.NumberFormat\<close> writes for a negative one.\<close>

theorem change_text_sign:
  "change_text (Fin x) = (if 0 \<le> x then ''+'' else ''-'') @ ''Rp'' @ nbsp @ intl_digits 0 x @ '' today''"
  by (simp add: change_text_def n_ge0_def formatCurrency_def fmt_num_def)

end
