(* ===== verification/ClientHistory.thy ===== *)
theory ClientHistory
  imports ClientDashboard
begin

text \<open>
  The two client views of the price history: the dashboard's
  \<open>src/client/src/components/dashboard/RecentChanges.tsx\<close> over
  \<open>GET /api/gold-prices/recent-changes\<close> and the table of
  \<open>src/client/src/pages/PriceHistory.tsx\<close> over \<open>GET /api/gold-prices/history\<close>. The
  changes reach the client as JSON numbers or \<open>null\<close> (\<open>ClientForms.json_num\<close>), the
  price columns as their text. A render that throws is an \<open>Inl\<close> of \<open>js_error\<close>: the
  table calls \<open>toFixed\<close> on \<open>changePercent\<close> without a test, and \<open>null.toFixed\<close> raises a
  \<open>TypeError\<close> that unmounts the page. Dates are kept as timestamps, since
  \<open>formatDateTime\<close> and \<open>date-fns\<close>' \<open>format\<close> depend on the browser's time zone.
  The query key of the history table carries the selected timeframe; which URL the
  query function of \<open>lib/queryClient\<close> (not in the repository) builds from it is left
  open, so the route's \<open>timeframe\<close> parameter is a parameter of the model.
\<close>

section \<open>Numbers from JSON\<close>

text \<open>A JSON number or \<open>null\<close> handed to a formatter.\<close>

definition fmt_rat :: "rat option \<Rightarrow> fmt_val" where
  "fmt_rat r = (case r of None \<Rightarrow> FNull | Some x \<Rightarrow> FNum (Fin (of_rat x)))"

datatype js_error = TypeError

text \<open>\<open>v.toFixed(f)\<close> on a JSON value: a number formats, anything else has no
  \<open>toFixed\<close> method and throws.\<close>

definition toFixed_js :: "jsval \<Rightarrow> nat \<Rightarrow> js_error + string" where
  "toFixed_js v f = (case v of JNum x \<Rightarrow> Inr (n_toFixed f (Fin (of_rat x))) | JNaN \<Rightarrow> Inr ''NaN''
     | _ \<Rightarrow> Inl TypeError)"

text \<open>\<open>xs.map(f)\<close> with a callback that may throw: the first exception propagates.\<close>

fun js_map :: "('a \<Rightarrow> js_error + 'b) \<Rightarrow> 'a list \<Rightarrow> js_error + 'b list" where
  "js_map f [] = Inr []"
| "js_map f (x # xs) = (case f x of Inl e \<Rightarrow> Inl e
     | Inr y \<Rightarrow> (case js_map f xs of Inl e \<Rightarrow> Inl e | Inr ys \<Rightarrow> Inr (y # ys)))"

text \<open>The colour class of a change: increase for \<open>> 0\<close>, decrease for \<open>< 0\<close>, none otherwise.\<close>

definition sign_class :: "jsval \<Rightarrow> int" where
  "sign_class v = (if js_gt v (JNum 0) then 1 else if js_lt v (JNum 0) then -1 else 0)"

section \<open>RecentChanges\<close>

record change_row =
  cr_date :: timestamp
  cr_price :: string
  cr_increase :: bool
  cr_change :: string
  cr_type :: string

definition recent_row :: "price_change \<Rightarrow> change_row" where
  "recent_row c =
     (let inc = js_gt (json_num (ch_change c)) (JNum 0)
      in \<lparr>cr_date = ch_date c, cr_price = formatCurrency (fmt_rat (ch_price c)), cr_increase = inc,
          cr_change = (if inc then ''+'' else []) @ formatCurrency (fmt_rat (ch_change c)),
          cr_type = ch_type c\<rparr>)"

datatype recent_view = RecentLoading | RecentError | RecentEmpty | RecentRows "change_row list"

definition RecentChanges :: "price_change list query \<Rightarrow> recent_view" where
  "RecentChanges q =
     (case q of
        QLoading \<Rightarrow> RecentLoading
      | QError \<Rightarrow> RecentError
      | QData cs \<Rightarrow> if cs = [] then RecentEmpty else RecentRows (map recent_row cs))"

definition dashboard_recent :: "db \<Rightarrow> recent_view" where
  "dashboard_recent d = RecentChanges (query_of (get_recent None d))"

section \<open>The PriceHistory table\<close>

record hist_line =
  hl_date :: timestamp
  hl_buy :: string
  hl_sell :: string
  hl_ppg :: string
  hl_changeClass :: int
  hl_change :: string
  hl_pctClass :: int
  hl_pct :: string

definition history_line :: "hist_row \<Rightarrow> js_error + hist_line" where
  "history_line r =
     (let dc = json_num (dailyChange r); cp = json_num (changePercent r)
      in case toFixed_js cp 2 of
           Inl e \<Rightarrow> Inl e
         | Inr s \<Rightarrow> Inr
             \<lparr>hl_date = date r, hl_buy = formatCurrency (fmt_numeric (Some (buyPrice r))),
              hl_sell = formatCurrency (fmt_numeric (Some (sellPrice r))),
              hl_ppg = formatCurrency (fmt_numeric (Some (pricePerGram r))),
              hl_changeClass = sign_class dc,
              hl_change = (if js_gt dc (JNum 0) then ''+'' else []) @ formatCurrency (fmt_rat (dailyChange r)),
              hl_pctClass = sign_class cp,
              hl_pct = (if js_gt cp (JNum 0) then ''+'' else []) @ s @ ''%''\<rparr>)"

datatype history_view = HistLoading | HistEmpty | HistRows "hist_line list"

text \<open>The table body: loading, the rows, or the empty message, which a failed query
  also shows (the page reads only \<open>data\<close> and \<open>isLoading\<close>).\<close>

definition PriceHistory_table :: "hist_row list query \<Rightarrow> js_error + history_view" where
  "PriceHistory_table q =
     (case q of
        QLoading \<Rightarrow> Inr HistLoading
      | QError \<Rightarrow> Inr HistEmpty
      | QData rs \<Rightarrow>
          if rs = [] then Inr HistEmpty
          else case js_map history_line rs of Inl e \<Rightarrow> Inl e | Inr ls \<Rightarrow> Inr (HistRows ls))"

definition history_page :: "timestamp \<Rightarrow> string option \<Rightarrow> db \<Rightarrow> js_error + history_view" where
  "history_page now tf d = PriceHistory_table (query_of (get_history now tf d))"

section \<open>Example data\<close>

text \<open>Two rows a day apart; the older one has a buy price of 1000000 and a price per gram
  of 0.\<close>

definition ex_gp_old :: gold_price where
  "ex_gp_old = ex_gp\<lparr>gp_id := 2, date := - 1, buyPrice := Dec 1000000, pricePerGram := Dec 0\<rparr>"

definition ex_hist_db :: db where
  "ex_hist_db = ex_db\<lparr>goldPrices := [ex_gp, ex_gp_old], seq_gold := 3\<rparr>"

definition ex_change :: price_change where
  "ex_change = \<lparr>ch_id = ''buy-1'', ch_date = 0, ch_price = Some 1058000, ch_change = Some 58000,
     ch_type = ''Buy Price''\<rparr>"

section \<open>Lemmas\<close>

lemma js_map_Inl_iff: "(\<exists>e. js_map f xs = Inl e) \<longleftrightarrow> list_ex (\<lambda>x. \<exists>e. f x = Inl e) xs"
  by (induction xs) (auto split: sum.split)

lemma history_line_Inl_iff: "(\<exists>e. history_line r = Inl e) \<longleftrightarrow> changePercent r = None"
  by (cases "changePercent r") (simp_all add: history_line_def Let_def toFixed_js_def json_num_def)

lemma pair_changes_nonzero: "c \<in> set (pair_changes cur prev) \<Longrightarrow> ch_change c \<noteq> Some 0"
  by (auto simp: pair_changes_def Let_def js_num_neq_def opt_sub_def split: option.splits if_splits)

lemma consecutive_changes_nonzero: "c \<in> set (consecutive_changes rs) \<Longrightarrow> ch_change c \<noteq> Some 0"
  by (induction rs rule: consecutive_changes.induct) (auto dest: pair_changes_nonzero)

lemma getRecentPriceChanges_nonzero:
  "getRecentPriceChanges n d = Inr cs \<Longrightarrow> c \<in> set cs \<Longrightarrow> ch_change c \<noteq> Some 0"
  by (auto simp: getRecentPriceChanges_def Let_def split: if_splits dest!: in_set_takeD
      dest: consecutive_changes_nonzero)

lemma formatCurrency_Fin:
  "formatCurrency (FNum (Fin x)) = (if x < 0 then ''-'' else []) @ ''Rp'' @ nbsp @ intl_digits 0 x"
  by (simp add: formatCurrency_def fmt_num_def)

lemma recent_row_shape:
  assumes "ch_change c \<noteq> Some 0"
  shows "(cr_increase (recent_row c) \<and> take 3 (cr_change (recent_row c)) = ''+Rp'') \<or>
         (\<not> cr_increase (recent_row c) \<and> take 3 (cr_change (recent_row c)) = ''-Rp'') \<or>
         (\<not> cr_increase (recent_row c) \<and> cr_change (recent_row c) = ''N/A'')"
proof (cases "ch_change c")
  case None
  then show ?thesis
    by (simp add: recent_row_def Let_def json_num_def js_gt_def formatCurrency_def fmt_num_def fmt_rat_def)
next
  case (Some x)
  with assms have "x \<noteq> 0" by simp
  then show ?thesis using Some
    by (simp add: recent_row_def Let_def json_num_def js_gt_def fmt_rat_def formatCurrency_Fin)
qed

lemma parse_numeric_numeral [simp]: "parse_numeric (Dec (numeral k)) = Some (numeral k)"
  by (rule parse_numeric_Dec) (simp add: scaled2_def)

lemma parse_numeric_zero [simp]: "parse_numeric (Dec 0) = Some 0"
  by (rule parse_numeric_Dec) (simp add: scaled2_def)

lemma pct_change_zero: "parse_numeric p = Some 0 \<Longrightarrow> pct_change dc p = None"
  by (cases dc) (simp_all add: pct_change_def)

lemma ex_hist_sorted: "sort_key (\<lambda>r. - date r) (goldPrices ex_hist_db) = [ex_gp, ex_gp_old]"
  by (simp add: ex_hist_db_def ex_gp_old_def ex_gp_def)

lemma history_page_eq:
  "history_page now tf d =
     (let rs = getGoldPriceHistory (case tf of Some t \<Rightarrow> if t = [] then ''7d'' else t | None \<Rightarrow> ''7d'') now d
      in if rs = [] then Inr HistEmpty
         else case js_map history_line rs of Inl e \<Rightarrow> Inl e | Inr ls \<Rightarrow> Inr (HistRows ls))"
  by (simp add: history_page_def get_history_def query_of_def PriceHistory_table_def Let_def)

section \<open>Properties\<close>

text \<open>C33. The PriceHistory page throws while rendering (\<open>null.toFixed\<close>) exactly when
  a row of the history the route returns has no change percentage, which the server
  sends as \<open>null\<close> when the previous price per gram is 0 or \<open>NaN\<close>.\<close>

theorem history_page_crash:
  "(\<exists>e. history_page now tf d = Inl e) \<longleftrightarrow>
   list_ex (\<lambda>r. changePercent r = None)
     (getGoldPriceHistory (case tf of Some t \<Rightarrow> if t = [] then ''7d'' else t | None \<Rightarrow> ''7d'') now d)"
proof -
  define rs where "rs = getGoldPriceHistory (case tf of Some t \<Rightarrow> if t = [] then ''7d'' else t | None \<Rightarrow> ''7d'') now d"
  have "list_ex (\<lambda>x. \<exists>e. history_line x = Inl e) rs = list_ex (\<lambda>r. changePercent r = None) rs"
    by (simp add: history_line_Inl_iff)
  then show ?thesis
    unfolding history_page_eq Let_def rs_def [symmetric]
    by (cases "rs = []") (auto simp: js_map_Inl_iff [symmetric] split: sum.split)
qed

theorem history_page_crash_witness:
  "\<exists>e. history_page 0 (Some ''1d'') ex_hist_db = Inl e"
proof -
  have f: "filter (\<lambda>r. history_limit ''1d'' 0 \<le> date r) (goldPrices ex_hist_db) = goldPrices ex_hist_db"
    by (simp add: history_limit_def ex_hist_db_def ex_gp_old_def ex_gp_def)
  have s: "sort_key (\<lambda>r. - date r) (goldPrices ex_hist_db) = [ex_gp, ex_gp_old]"
    by (rule ex_hist_sorted)
  have p: "parse_numeric (pricePerGram ex_gp_old) = Some 0"
    by (simp add: ex_gp_old_def ex_gp_def)
  have "list_ex (\<lambda>r. changePercent r = None) (getGoldPriceHistory ''1d'' 0 ex_hist_db)"
    unfolding getGoldPriceHistory_def f s by (simp add: pct_change_zero [OF p] hist_row.defs gold_price.defs)
  then show ?thesis using history_page_crash [of 0 "Some ''1d''" ex_hist_db] by simp
qed

text \<open>C34. Every row the dashboard's Recent Price Changes shows for the server's answer
  is coloured as an increase exactly when its text starts with \<open>+Rp\<close>; a decrease starts
  with \<open>-Rp\<close>, and a change the server could not compute reads \<open>N/A\<close>. No row shows
  an unsigned zero change, since the server only reports prices that differ.\<close>

theorem dashboard_recent_signs:
  assumes "dashboard_recent d = RecentRows rows" and "x \<in> set rows"
  shows "(cr_increase x \<and> take 3 (cr_change x) = ''+Rp'') \<or>
         (\<not> cr_increase x \<and> take 3 (cr_change x) = ''-Rp'') \<or>
         (\<not> cr_increase x \<and> cr_change x = ''N/A'')"
proof -
  obtain cs where g: "getRecentPriceChanges (query_limit 5 None) d = Inr cs" and r: "rows = map recent_row cs"
    using assms(1)
    by (auto simp: dashboard_recent_def RecentChanges_def get_recent_def query_of_def
        split: sum.splits if_splits)
  from assms(2) r obtain c where c: "c \<in> set cs" and x: "x = recent_row c" by auto
  show ?thesis unfolding x by (rule recent_row_shape [OF getRecentPriceChanges_nonzero [OF g c]])
qed

theorem dashboard_recent_signs_witness:
  "dashboard_recent ex_hist_db = RecentRows [recent_row ex_change] \<and>
   ((cr_increase (recent_row ex_change) \<and> take 3 (cr_change (recent_row ex_change)) = ''+Rp'') \<or>
    (\<not> cr_increase (recent_row ex_change) \<and> take 3 (cr_change (recent_row ex_change)) = ''-Rp'') \<or>
    (\<not> cr_increase (recent_row ex_change) \<and> cr_change (recent_row ex_change) = ''N/A''))"
proof -
  have g: "getRecentPriceChanges 5 ex_hist_db = Inr [ex_change]"
    by (simp add: getRecentPriceChanges_def Let_def ex_hist_sorted pair_changes_def js_num_neq_def
        opt_sub_def ex_gp_old_def ex_gp_def ex_change_def show_nat.simps digit_char_simps)
  have e: "dashboard_recent ex_hist_db = RecentRows [recent_row ex_change]"
    by (simp add: dashboard_recent_def RecentChanges_def get_recent_def query_of_def query_limit_def g)
  show ?thesis using dashboard_recent_signs [OF e, of "recent_row ex_change"] e by simp
qed

end
