(* ===== verification/ClientChart.thy ===== *)
theory ClientChart
  imports ClientHistory
begin

text \<open>
  The dashboard's price chart, \<open>src/client/src/components/dashboard/PriceChart.tsx\<close>,
  over \<open>GET /api/gold-prices/chart\<close>: the view it renders (error, loading, no data, or
  the canvas), the labels and the dataset it hands to Chart.js, and the tooltip label
  callback. Chart.js itself, the drawing and the y-axis tick callback, whose text is
  JavaScript's shortest decimal writing of the tick values Chart.js chooses, are not
  modelled. A price the server could not parse is \<open>null\<close> in the dataset, which
  Chart.js leaves as a gap; the tooltip callback receives the parsed value, \<open>null\<close>
  (\<open>None\<close>) or a number.
\<close>

record chart_dataset =
  cd_label :: string
  cd_data :: "jsval list"

record chart_data =
  cc_labels :: "string list"
  cc_dataset :: chart_dataset

definition PriceChart_data :: "chart_point list \<Rightarrow> chart_data" where
  "PriceChart_data ps =
     \<lparr>cc_labels = map label ps,
      cc_dataset = \<lparr>cd_label = ''Gold Price (Rp)'', cd_data = map (\<lambda>p. json_num (price p)) ps\<rparr>\<rparr>"

text \<open>\<open>callbacks.label\<close>: the dataset's label and a colon, then the value unless it is
  \<open>null\<close>.\<close>

definition tooltip_label :: "chart_dataset \<Rightarrow> rat option \<Rightarrow> string" where
  "tooltip_label ds y =
     (let l = (if cd_label ds \<noteq> [] then cd_label ds @ '': '' else [])
      in case y of None \<Rightarrow> l | Some v \<Rightarrow> l @ formatCurrency (fmt_rat (Some v)))"

datatype chart_view = ChartError | ChartLoading | ChartEmpty | ChartCanvas chart_data

definition PriceChart :: "chart_point list query \<Rightarrow> chart_view" where
  "PriceChart q =
     (case q of
        QError \<Rightarrow> ChartError
      | QLoading \<Rightarrow> ChartLoading
      | QData ps \<Rightarrow> if ps = [] then ChartEmpty else ChartCanvas (PriceChart_data ps))"

definition dashboard_chart :: "timestamp \<Rightarrow> string \<Rightarrow> db \<Rightarrow> chart_view" where
  "dashboard_chart now tf d = PriceChart (query_of (get_chart now (Some tf) d))"

section \<open>Lemmas\<close>

text \<open>The chart plots the rows of the selected window oldest first, one label and one
  value per row, the value being the row's price per gram.\<close>

lemma dashboard_chart_rows:
  assumes "dashboard_chart now tf d = ChartCanvas cd"
  shows "cc_labels cd = rev (map (\<lambda>r. chart_label (if tf = [] then ''1d'' else tf) (date r))
                         (getGoldPriceHistory (if tf = [] then ''1d'' else tf) now d)) \<and>
         cd_data (cc_dataset cd) = rev (map (\<lambda>r. json_num (parse_numeric (pricePerGram r)))
                         (getGoldPriceHistory (if tf = [] then ''1d'' else tf) now d))"
  using assms
  by (auto simp: dashboard_chart_def PriceChart_def query_of_def get_chart_def getChartData_def
      PriceChart_data_def rev_map split: if_splits)

lemma tooltip_label_price:
  "tooltip_label (cc_dataset (PriceChart_data ps)) (Some v) =
     ''Gold Price (Rp): '' @ (if v < 0 then ''-'' else []) @ ''Rp'' @ nbsp @ intl_digits 0 (of_rat v :: real)"
  by (simp add: tooltip_label_def PriceChart_data_def fmt_rat_def formatCurrency_def fmt_num_def)

end
