(* ===== verification/ClientNotifications.thy ===== *)
theory ClientNotifications
  imports ClientDashboard
begin

text \<open>
  The two lists of \<open>src/client/src/pages/Notifications.tsx\<close> (its alert dialog is in
  \<open>ClientForms\<close>): the Active Alerts tab over \<open>GET /api/alerts\<close>, one card per alert
  with its delete button, and the Notification History tab over
  \<open>GET /api/notification-logs\<close>. The delete button is \<open>ClientForms.alert_deleteAlert\<close>;
  its \<open>onSuccess\<close> invalidates the alerts query, so the tab shows the list of the
  database the route leaves. The \<open>channel\<close> and \<open>status\<close> columns are the texts the
  notifiers write (\<open>channel_text\<close>, \<open>status_text\<close>); dates are kept as timestamps, since
  \<open>formatDateTime\<close> writes them in the browser's time zone.
\<close>

section \<open>Active alerts\<close>

record alert_card =
  ac_id :: int
  ac_title :: string
  ac_description :: string
  ac_whatsapp :: bool
  ac_telegram :: bool

definition notif_alert_title :: "price_alert \<Rightarrow> string" where
  "notif_alert_title a =
     (if alertType a = ''increase'' then ''Price increase alert''
      else if alertType a = ''decrease'' then ''Price decrease alert'' else ''Daily summary'')"

definition notif_alert_description :: "price_alert \<Rightarrow> string" where
  "notif_alert_description a =
     (if alertType a = ''daily'' then ''Send at '' @ (case dailyTime a of None \<Rightarrow> ''null'' | Some t \<Rightarrow> t) @ '' daily''
      else ''Alert when '' @ (if alertType a = ''increase'' then ''>'' else ''<'') @ '' '' @
           formatCurrency (fmt_numeric (targetPrice a)))"

definition alert_card :: "price_alert \<Rightarrow> alert_card" where
  "alert_card a =
     \<lparr>ac_id = alert_id a, ac_title = notif_alert_title a, ac_description = notif_alert_description a,
      ac_whatsapp = truthy (opt_js JBool (whatsappEnabled a)),
      ac_telegram = truthy (opt_js JBool (telegramEnabled a))\<rparr>"

datatype alert_list_view = AlertListLoading | AlertListEmpty | AlertListCards "alert_card list"

text \<open>The tab reads \<open>isLoading\<close> and \<open>data\<close>; a failed query leaves \<open>data\<close> undefined
  and shows the empty message.\<close>

definition notif_alert_list :: "price_alert list query \<Rightarrow> alert_list_view" where
  "notif_alert_list q =
     (case q of
        QLoading \<Rightarrow> AlertListLoading
      | QError \<Rightarrow> AlertListEmpty
      | QData as \<Rightarrow> if as \<noteq> [] then AlertListCards (map alert_card as) else AlertListEmpty)"

definition notifications_alerts :: "db \<Rightarrow> alert_list_view" where
  "notifications_alerts d = notif_alert_list (query_of (get_alerts d))"

section \<open>Notification history\<close>

primrec channel_text :: "channel \<Rightarrow> string" where
  "channel_text WhatsApp = ''whatsapp''"
| "channel_text Telegram = ''telegram''"

primrec status_text :: "send_status \<Rightarrow> string" where
  "status_text Sent = ''sent''"
| "status_text Failed = ''failed''"

record log_line =
  ll_sentAt :: timestamp
  ll_channel :: string
  ll_message :: string
  ll_status :: string
  ll_error :: "string option"

definition log_line :: "notification_log \<Rightarrow> log_line" where
  "log_line l =
     \<lparr>ll_sentAt = sentAt l,
      ll_channel = (if channel_text (log_channel l) = ''whatsapp'' then ''WhatsApp'' else ''Telegram''),
      ll_message = message l,
      ll_status = (if status_text (status l) = ''sent'' then ''Sent'' else ''Failed''),
      ll_error = (if status_text (status l) = ''failed'' \<and> truthy (opt_js JStr (errorMessage l))
                  then errorMessage l else None)\<rparr>"

datatype log_view = LogsEmpty | LogRows "log_line list"

definition notif_log_table :: "notification_log list query \<Rightarrow> log_view" where
  "notif_log_table q =
     (case q of QData ls \<Rightarrow> if ls \<noteq> [] then LogRows (map log_line ls) else LogsEmpty | _ \<Rightarrow> LogsEmpty)"

definition notifications_logs :: "db \<Rightarrow> log_view" where
  "notifications_logs d = notif_log_table (query_of (get_logs None d))"

section \<open>Lemmas\<close>

lemma parse_int10_neg:
  assumes "ds \<noteq> []" and "\<forall>c\<in>set ds. is_digit c"
  shows "parse_int10 (''-'' @ ds) = JNum (- of_nat (digits_val ds))"
proof -
  have tw: "takeWhile is_digit ds = ds" using assms(2) by (simp add: takeWhile_eq_all_conv)
  have "\<not> is_space (CHR ''-'')" by (simp add: is_space_def)
  then show ?thesis using assms(1) by (simp add: parse_int10_def Let_def tw)
qed

lemma parse_int10_show_int: "parse_int10 (show_int i) = JNum (of_int i)"
proof (cases "i < 0")
  case True
  have "parse_int10 (''-'' @ show_nat (nat (- i))) = JNum (- of_nat (nat (- i)))"
    using parse_int10_neg [OF show_nat_not_Nil show_nat_digits] by (simp add: digits_val_show_nat)
  with True show ?thesis by (simp add: show_int_def)
next
  case False
  have "parse_int10 (show_nat (nat i)) = JNum (of_nat (nat i))"
    using parse_int10_digits [OF show_nat_not_Nil show_nat_digits] by (simp add: digits_val_show_nat)
  with False show ?thesis by (simp add: show_int_def)
qed

lemma param_id_show_int:
  assumes "- (2 ^ 31) \<le> i" and "i < 2 ^ 31"
  shows "param_id (show_int i) = Inr i"
proof -
  have "CHR ''x'' \<notin> set (show_int i) \<and> CHR ''X'' \<notin> set (show_int i)"
    using show_nat_digits [of "nat (- i)"] show_nat_digits [of "nat i"]
    by (auto simp: show_int_def is_digit_def)
  then show ?thesis using assms by (simp add: param_id_def parse_int_radix10 parse_int10_show_int pg_int_in_def)
qed

section \<open>Properties\<close>

text \<open>C3. The delete button of an alert card removes exactly that alert from the Active
  Alerts tab: the route answers 204, and the refetched list is the previous one without
  the alerts of that id.\<close>

theorem delete_alert_removes_card:
  assumes "- (2 ^ 31) \<le> i" and "i < 2 ^ 31"
  shows "fst (alert_deleteAlert i d) = NoContent204 \<and>
         notifications_alerts (snd (alert_deleteAlert i d)) =
           notif_alert_list (QData (filter (\<lambda>a. alert_id a \<noteq> i) (getPriceAlerts d)))"
  using param_id_show_int [OF assms]
  by (simp add: alert_deleteAlert_def delete_alert_def notifications_alerts_def get_alerts_def
      query_of_def getPriceAlerts_def deletePriceAlert_def filter_sort [symmetric] conj_commute)

theorem delete_alert_removes_card_witness:
  "fst (alert_deleteAlert 1 ex_db) = NoContent204 \<and>
   notifications_alerts (snd (alert_deleteAlert 1 ex_db)) = AlertListEmpty"
proof -
  have "filter (\<lambda>a. alert_id a \<noteq> 1) (getPriceAlerts ex_db) = []"
    by (simp add: getPriceAlerts_ex_db ex_alert_def)
  then show ?thesis
    using delete_alert_removes_card [of 1 ex_db] by (simp add: notif_alert_list_def)
qed

end
