(* ===== verification/Spec2Isabelle.thy ===== *)
theory Spec2Isabelle
  imports ClientForms ClientMetrics ClientDashboard ClientHistory ClientChart ClientNotifications
begin

text \<open>
  \<^bold>\<open>Gold price tracker: a verification development of the server and its client.\<close>

  The program (\<open>src/\<close>) is an Express server with a React client. Every hour a cron
  tick in \<open>registerRoutes\<close> (\<open>src/server/routes.ts\<close>) asks three price sources in
  turn, \<open>EmaskuScraper\<close> (\<open>emasku-scraper.js\<close>), then \<open>PegadaianScraper\<close>
  (\<open>pegadaian-scraper.js\<close>), then \<open>MetalPriceAPI\<close> (\<open>metal-price-api.js\<close>), each
  of which stores a row through \<open>storage\<close> (\<open>storage.js\<close>, tables of
  \<open>src/shared/schema.ts\<close>) and checks the price alerts; a chosen alert is sent through
  \<open>TelegramNotifier\<close> and \<open>WhatsAppNotifier\<close>, which log every attempt. A daily tick
  sends summaries, and the HTTP handlers read and write the same tables. The React client
  (\<open>src/client\<close>) creates alerts and investments through those handlers and computes
  the portfolio figures from what they return.

  \<^bold>\<open>Theories and the code they model.\<close>
  \<^item> \<open>Prelude\<close>: the JavaScript values (\<open>jsval\<close>), truthiness, \<open>||\<close>, \<open>Number\<close>,
    \<open>parseInt\<close>, \<open>parseFloat\<close>, \<open>Math.round\<close>, the named theorem collections and the
    list, string and digit lemmas the components share.
  \<^item> \<open>Schema\<close>: one record per table, \<open>numeric(10,2)\<close> as \<open>numeric\<close> (a rational or
    \<open>NaN\<close>) with its rounding and range, and the camel-case row objects of drizzle.
  \<^item> \<open>Storage\<close>, \<open>AlertStore\<close>, \<open>History\<close>: \<open>storage\<close> over a \<open>db\<close> record of the four
    tables and their serial counters; every write returns \<open>db_error + _\<close> for the
    PostgreSQL errors (NOT NULL, numeric overflow, invalid input, unique key).
    \<open>History\<close> holds \<open>getGoldPriceHistory\<close>, \<open>getChartData\<close>,
    \<open>getRecentPriceChanges\<close> with the calendar arithmetic of \<open>Date\<close>.
  \<^item> \<open>Emasku\<close>, \<open>Pegadaian\<close>, \<open>MetalPrice\<close>: \<open>fetchPage\<close>/\<open>fetchGoldPrices\<close> over an
    \<open>http_result\<close> (the four axios outcomes), the page parsers over the cell texts
    cheerio returns, \<open>updateGoldPrices\<close> and \<open>checkPriceAlerts\<close>.
    \<open>PriceCache\<close> is the fifteen-minute memo the last two share (\<open>lastScrapeTime\<close>,
    \<open>lastFetchTime\<close>).
  \<^item> \<open>Notify\<close>, \<open>Telegram\<close>, \<open>WhatsApp\<close>: the channel interface (an outcome per
    message handed to the API, the log row of each attempt, \<open>Intl.NumberFormat('id-ID')\<close>),
    the two notifiers' send, alert and summary methods, and the WhatsApp session as the
    labelled step relation \<open>wa_step\<close> over \<open>clientInitialized\<close>, \<open>clientReady\<close> and the
    pending \<open>client.initialize()\<close>, with the events \<open>Initialize\<close>, \<open>Resolve\<close>,
    \<open>Reject\<close> and \<open>Ready\<close> and their traces \<open>wa_steps\<close>.
  \<^item> \<open>Pipeline\<close>: the startup chain, the hourly and the daily ticks over a \<open>world\<close>
    record (database, caches, notifier states) and an \<open>env\<close> record (what the sites and
    the messaging APIs answer).
  \<^item> \<open>Api\<close>: the HTTP handlers as functions from request to \<open>response\<close> and new
    database, with the drizzle-zod insert schemas (\<open>z_alert\<close>, \<open>z_investment\<close>) and
    \<open>parseInt\<close> without a radix for the path and query parameters.
  \<^item> \<open>ClientForms\<close>: the alert dialog of \<open>Notifications.tsx\<close> and the investment
    dialog of \<open>MyInvestments.tsx\<close> (form state, \<open>resetForm\<close>, \<open>handleSubmit\<close>, the
    body as the server reads it back) composed with \<open>post_alert\<close>/\<open>post_investment\<close>
    and the delete routes.
  \<^item> \<open>JsNumber\<close>, \<open>ClientMetrics\<close>: JavaScript doubles with \<open>Infinity\<close> and \<open>NaN\<close>,
    and the totals of \<open>MyInvestments\<close> and \<open>InvestmentPerformance\<close> (one definition
    each, as each file writes the computation out), the metrics of
    \<open>ProfitAnalytics\<close> (reduces, annualized return, the volatility loop) and the two
    calculators.
  \<^item> \<open>ClientFormat\<close>: \<open>formatCurrency\<close>, \<open>formatPercentage\<close> and \<open>formatWeight\<close> of
    \<open>lib/formatters.js\<close>, with \<open>toFixed\<close> and the \<open>id-ID\<close> currency format.
  \<^item> \<open>ClientDashboard\<close>: \<open>PriceCards\<close> and \<open>PriceAlerts\<close> of
    \<open>components/dashboard\<close>, fed by the API handlers through \<open>query_of\<close> (a 2xx body
    is the query's data, anything else its error).
  \<^item> \<open>ClientHistory\<close>: \<open>RecentChanges\<close> of \<open>components/dashboard\<close> and the table of
    \<open>PriceHistory.tsx\<close>, whose rendering may throw (\<open>js_error + _\<close>).
  \<^item> \<open>ClientChart\<close>: \<open>PriceChart\<close> of \<open>components/dashboard\<close> up to what it hands
    to Chart.js, and its tooltip label.
  \<^item> \<open>ClientNotifications\<close>: the Active Alerts and Notification History tabs of
    \<open>Notifications.tsx\<close>, with the delete button composed with \<open>DELETE /api/alerts/:id\<close>.
  This theory holds the properties that span the client and the server.

  \<^bold>\<open>What the lemmas show.\<close> Each component theory ends with its properties (C1-C40 of
  the manifest): the functional behaviour of the parsers and updates on every branch,
  their error paths (a sell price without digits stored as \<open>NaN\<close>, zero prices that pass
  validation), the
  cache's single-request and expiry behaviour, the alert threshold and its missing
  frequency gate (firing at equality, where the client promises a strict comparison),
  the logging of every notification attempt, the exact set of reachable states of the
  WhatsApp session, that \<open>sendMessage\<close> leaves the state the event trace of its
  initialisation leads to, that a resolved session is never initialised again, the daily
  schedule, the round trip of alert creation and lookup, the history's telescoping
  changes, that the
  client's forms are rejected by the server's schemas (numbers where it wants decimal
  strings, an ISO string where it wants a \<open>Date\<close>), the termination of the volatility loop and its equivalence with the
  pairwise returns, where the client's two totals views agree and disagree, that the
  formatters show \<open>N/A\<close> for exactly the values that are not numbers and that a formatted
  percentage reads back as its rounded value, and what the dashboard shows: a single sign
  on each change, an infinite percentage for a zero price, recent
  changes whose sign matches their colour, that deleting an alert from the Notifications
  page removes exactly its card, and the history page that throws exactly when
  a change percentage is \<open>null\<close>.

  \<^bold>\<open>Abstractions.\<close> Numbers are exact rationals (\<open>rat\<close>), not binary floats, so the
  rounding of floating-point arithmetic is not modelled (the prices involved are integers
  or two-decimal values well inside the exact range of a double).
  The client's numbers are reals with the two infinities and \<open>NaN\<close>
  (\<open>JsNumber\<close>), since \<open>Math.pow\<close> and \<open>Math.sqrt\<close> leave the rationals; these
  definitions evaluate by \<open>simp\<close> but not by code generation.
  Dates are milliseconds since the epoch in UTC. Strings are byte lists (UTF-8), so an
  emoji is several characters. The network, the sites and the messaging APIs are
  functions of the environment; the database is always reachable. The client's
  \<open>apiRequest\<close> (\<open>lib/queryClient\<close>, not in the repository) is taken to send
  \<open>JSON.stringify\<close> of its argument and to fail on a status outside 2xx; the date
  parser of the investment form is a parameter. Every loop is structural recursion over
  a list except the index loop \<open>daily_returns\<close>, a \<^theory_text>\<open>function\<close> whose termination
  is proved with the measure \<open>length ph - i\<close>; no fuel or bound is needed.

  \<^bold>\<open>Not modelled.\<close> The rest of the React client (\<open>App.tsx\<close>, the layout and
  navigation components, the chart, the refresh interval of \<open>Dashboard.tsx\<close>, the drawing of Chart.js and its y-axis ticks, the timeframe select,
  chart placeholder and empty export handlers of \<open>PriceHistory.tsx\<close>): rendering and React state with no
  computation of their own beyond the formatters. \<open>formatDateTime\<close> and \<open>date-fns\<close>'
  \<open>format\<close>: their text depends
  on the current date and the browser's time zone (\<open>Intl.DateTimeFormat\<close>); \<open>toFixed\<close>
  of magnitudes of \<open>10^21\<close> and more, which it writes in exponent form. The seed script and the Emasku test
  script: inserts and printing without logic. Exponents in PostgreSQL numeric input,
  cron's own scheduling and Express routing are taken as the environment.
\<close>


section \<open>Properties across the client and the server\<close>

text \<open>
  C1. The alert form of the client can never create an increase or decrease alert with a
  numeric target: it sends \<open>targetPrice\<close> as the number \<open>parseFloat\<close> returns, the
  insert schema of \<open>price_alerts\<close> wants the string of a \<open>decimal\<close> column, so
  \<open>POST /api/alerts\<close> answers 400 naming \<open>targetPrice\<close>, nothing is stored and the form
  keeps its values.
\<close>

theorem alert_form_target_rejected:
  assumes "alert_handleSubmit f = Inr body" "af_notificationType f \<noteq> ''daily''"
    and "parse_float (af_targetPrice f) = Some x"
  shows "\<exists>errs. alert_submit now f d = (Inr (BadRequest400 errs), f, d) \<and> ''targetPrice'' \<in> set errs"
proof -
  have b: "body = alert_newAlert f" using assms(1) by (rule alert_handleSubmit_Inr)
  have "z_errs (z_field ''targetPrice'' True True z_str body) = [''targetPrice'']"
    using assms(2,3) by (simp add: b alert_newAlert_def z_field_def z_errs_def z_str_def)
  then obtain errs where "z_alert False body = Inl errs" "''targetPrice'' \<in> set errs"
    by (auto simp: z_alert_def Let_def)
  then show ?thesis using assms(1) by (simp add: alert_submit_def post_alert_def)
qed

theorem alert_form_target_rejected_witness:
  "\<exists>errs. alert_submit 0 ex_increase_form empty_db = (Inr (BadRequest400 errs), ex_increase_form, empty_db)
     \<and> ''targetPrice'' \<in> set errs"
proof (rule alert_form_target_rejected)
  show "alert_handleSubmit ex_increase_form = Inr (alert_newAlert ex_increase_form)"
    by (simp add: alert_handleSubmit_def alert_form_exs)
  show "af_notificationType ex_increase_form \<noteq> ''daily''"
    by (simp add: alert_form_exs)
  show "parse_float (af_targetPrice ex_increase_form) = Some 1100000"
    by (simp add: alert_form_exs parse_float_1100000)
qed

text \<open>
  C2. The investment form can never record an investment: every body it submits is
  rejected with 400 naming \<open>purchaseDate\<close> (an ISO string where the schema wants a
  \<open>Date\<close>), \<open>weight\<close>, \<open>purchasePrice\<close> and \<open>purity\<close> (numbers where it wants the
  strings of \<open>decimal\<close> columns); the database is unchanged and the form is kept.
\<close>

theorem inv_form_rejected:
  assumes "inv_handleSubmit dp f = Inr body"
  shows "\<exists>errs. inv_submit dp now f d = (Inr (BadRequest400 errs), f, d) \<and>
           {''purchaseDate'', ''weight'', ''purchasePrice'', ''purity''} \<subseteq> set errs"
proof -
  obtain t where b: "body = inv_newInvestment f t"
    using assms by (auto simp: inv_handleSubmit_def split: if_splits option.splits)
  have "z_errs (z_field ''purchaseDate'' False False z_date body) = [''purchaseDate'']"
    by (simp add: b inv_newInvestment_def z_field_def z_errs_def z_date_def)
  moreover have "z_errs (z_field ''weight'' False False z_str body) = [''weight'']"
    by (simp add: b inv_newInvestment_def z_field_def z_errs_def z_str_def json_num_def split: option.split)
  moreover have "z_errs (z_field ''purchasePrice'' False False z_str body) = [''purchasePrice'']"
    by (simp add: b inv_newInvestment_def z_field_def z_errs_def z_str_def json_num_def split: option.split)
  moreover have "z_errs (z_field ''purity'' True False z_str body) = [''purity'']"
    by (simp add: b inv_newInvestment_def z_field_def z_errs_def z_str_def json_num_def split: option.split)
  ultimately obtain errs where "z_investment False body = Inl errs"
      "{''purchaseDate'', ''weight'', ''purchasePrice'', ''purity''} \<subseteq> set errs"
    by (auto simp: z_investment_def Let_def)
  then show ?thesis using assms by (simp add: inv_submit_def post_investment_def)
qed

theorem inv_form_rejected_witness:
  "\<exists>errs. inv_submit (\<lambda>_. Some 1705276800000) 0 ex_inv_form empty_db = (Inr (BadRequest400 errs), ex_inv_form, empty_db) \<and>
           {''purchaseDate'', ''weight'', ''purchasePrice'', ''purity''} \<subseteq> set errs"
  by (rule inv_form_rejected) (simp add: inv_handleSubmit_def ex_inv_form_def)

text \<open>
  A daily-summary alert from the form is stored (its target is \<open>null\<close>): when the
  next serial id is free, \<open>POST /api/alerts\<close> appends one alert with the form's daily
  time and no target, and the form is closed and reset.
\<close>

theorem alert_form_daily_stored:
  assumes "alert_handleSubmit f = Inr body" "af_notificationType f = ''daily''"
    and "int (seq_alert d) \<notin> set (map alert_id (priceAlerts d))"
  shows "\<exists>a d'. alert_submit now f d = (Inr (Created201 a), alert_resetForm (f\<lparr>af_open := False\<rparr>), d')
           \<and> priceAlerts d' = priceAlerts d @ [a] \<and> dailyTime a = Some (af_dailyTime f) \<and> targetPrice a = None"
proof -
  have b: "body = alert_newAlert f" using assms(1) by (rule alert_handleSubmit_Inr)
  have z: "z_alert False body = Inr (no_alert_fields\<lparr>ai_alertType := Val ''daily'', ai_targetPrice := Null,
      ai_whatsappEnabled := Val (af_whatsAppEnabled f), ai_telegramEnabled := Val (af_telegramEnabled f),
      ai_phoneNumber := (if af_whatsAppEnabled f then Val (af_phoneNumber f) else Null),
      ai_telegramChatId := (if af_telegramEnabled f then Val (af_telegramChatId f) else Null),
      ai_active := Val True, ai_dailyTime := Val (af_dailyTime f)\<rparr>)"
    using assms(2) by (simp add: b alert_newAlert_def z_alert_def z_field_def z_errs_def z_get_def z_str_def
        z_bool_def no_alert_fields_def Let_def)
  show ?thesis using assms
    by (simp add: alert_submit_def post_alert_def z createPriceAlert_def no_alert_fields_def serial_col_def
        required_col_def numeric_col_def default_col_def opt_col_def find_None_iff_ids Let_def)
qed

theorem alert_form_daily_stored_witness:
  "\<exists>a d'. alert_submit 0 ex_daily_form empty_db = (Inr (Created201 a), alert_resetForm (ex_daily_form\<lparr>af_open := False\<rparr>), d')
           \<and> priceAlerts d' = priceAlerts empty_db @ [a] \<and> dailyTime a = Some (af_dailyTime ex_daily_form) \<and> targetPrice a = None"
proof (rule alert_form_daily_stored)
  show "alert_handleSubmit ex_daily_form = Inr (alert_newAlert ex_daily_form)"
    by (simp add: alert_handleSubmit_def alert_form_exs)
  show "af_notificationType ex_daily_form = ''daily''"
    by (simp add: ex_daily_form_def)
  show "int (seq_alert empty_db) \<notin> set (map alert_id (priceAlerts empty_db))"
    by (simp add: empty_db_def)
qed

end
